theory Spec2Isabelle
  imports Complex_Main "HOL-Library.Sublist" "HOL-Library.Product_Lexorder"
begin

section \<open>Cell methods (umami/um2nc.py, fix_cell_methods)\<close>

text \<open>
  An iris \<open>CellMethod\<close> carries an aggregation operator, the coordinate names it
  applies over, a tuple of free-text interval descriptors and a tuple of comments.
\<close>

record cell_method =
  cm_method :: string
  coord_names :: "string list"
  intervals :: "string list"
  comments :: "string list"

text \<open>
  Python's \<open>str.find\<close>: the lowest index at which \<open>sub\<close> starts in the string, or
  \<open>-1\<close> when it occurs nowhere.  \<open>find_from sub s k\<close> scans the rest \<open>s\<close> of the string,
  \<open>k\<close> characters of which were already passed.
\<close>

fun find_from :: "string \<Rightarrow> string \<Rightarrow> nat \<Rightarrow> int" where
  "find_from sub [] k = (if sub = [] then int k else - 1)"
| "find_from sub (c # cs) k =
     (if prefix sub (c # cs) then int k else find_from sub cs (Suc k))"

definition py_find :: "string \<Rightarrow> string \<Rightarrow> int" where
  "py_find s sub = find_from sub s 0"

text \<open>
  The inner loop of \<open>fix_cell_methods\<close>: \<open>newi\<close> collects the intervals of one cell
  method in which \<open>'hour'\<close> is not found.
\<close>

fun skip_hour_intervals :: "string list \<Rightarrow> string list \<Rightarrow> string list" where
  "skip_hour_intervals [] newi = newi"
| "skip_hour_intervals (i # rest) newi =
     skip_hour_intervals rest (if py_find i ''hour'' = - 1 then newi @ [i] else newi)"

text \<open>
  The outer loop: \<open>newm\<close> collects, for every cell method \<open>m\<close> in turn, the cell method
  \<open>CellMethod(m.method, m.coord_names, tuple(newi), m.comments)\<close>.
\<close>

fun fix_cell_methods_loop :: "cell_method list \<Rightarrow> cell_method list \<Rightarrow> cell_method list" where
  "fix_cell_methods_loop [] newm = newm"
| "fix_cell_methods_loop (m # rest) newm =
     fix_cell_methods_loop rest
       (newm @ [\<lparr>cm_method = cm_method m, coord_names = coord_names m,
                 intervals = skip_hour_intervals (intervals m) [],
                 comments = comments m\<rparr>])"

definition fix_cell_methods :: "cell_method list \<Rightarrow> cell_method list" where
  "fix_cell_methods mtuple = fix_cell_methods_loop mtuple []"

section \<open>Exceptions\<close>

text \<open>
  The exceptions the program can raise.  \<open>SystemExit\<close> derives from Python's
  \<open>BaseException\<close> only, so a handler \<open>except Exception\<close> does not catch it; every other
  exception below derives from \<open>Exception\<close>.  Where an exception carries a message, the
  long messages of the program are shortened to their first sentences.  The module
  umami.quieterrors, which declares \<open>QValueError\<close>, \<open>QParseError\<close> and
  \<open>QFileNotFoundError\<close>, is not part of the program text; they are taken to be
  subclasses of \<open>Exception\<close>, as \<open>ValueError\<close> and \<open>FileNotFoundError\<close> are.
\<close>

datatype exc =
    CoordinateNotFoundError
  | QValueError string
  | QParseError string
  | QFileNotFoundError string
  | ParsingError string
  | SystemExit string
  | CannotAddError
  | IndexError
  | KeyError
  | ValueError
  | AssertionError
  | AttributeError
  | CoordinateMultiDimError
  | UnitConversionError

fun is_Exception :: "exc \<Rightarrow> bool" where
  "is_Exception (SystemExit msg) = False"
| "is_Exception e = True"

section \<open>Fields, coordinates and arrays\<close>

text \<open>
  A floating-point value: a finite number, an infinity or a NaN.  Finite values are
  exact reals here; signed zeros are not distinguished, and the rounding of an arithmetic
  result and of a cast to the floating-point type is a parameter of the functions that
  compute.
\<close>

datatype fl = Fin real | PInf | NInf | NaN

text \<open>A numpy dtype, as its kind character and its item size in bytes.\<close>

type_synonym dtype = "char \<times> nat"

abbreviation float32 :: dtype where "float32 \<equiv> (CHR ''f'', 4)"
abbreviation float64 :: dtype where "float64 \<equiv> (CHR ''f'', 8)"
abbreviation int32 :: dtype where "int32 \<equiv> (CHR ''i'', 4)"
abbreviation int64 :: dtype where "int64 \<equiv> (CHR ''i'', 8)"

text \<open>
  An iris coordinate: its name, the name of its netCDF variable, its points with their
  dtype, its optional bounds (one pair per point), its unit (the unit string and, for a
  time unit, the calendar), the attribute \<open>positive\<close>, the data dimensions it spans
  (none for a scalar coordinate), and whether it is a dimension coordinate (a \<open>DimCoord\<close>)
  or an auxiliary one.
\<close>

record coord =
  coord_name :: string
  coord_var_name :: "string option"
  points :: "real list"
  points_dtype :: dtype
  bounds :: "(real \<times> real) list option"
  coord_units :: string
  calendar :: string
  positive :: "string option"
  coord_dims :: "nat list"
  dim_coord :: bool

text \<open>
  An iris cube (one field).  Its STASH code is the model, the section and the item.  The
  data array is its shape and a function from an index (one position per dimension) to an
  element; an element is a value and the bit of the masked-array mask (\<open>True\<close>: the element
  is missing).  \<open>is_ma\<close> tells whether the array is a \<open>numpy.ma.MaskedArray\<close>, as iris gives
  for a field with missing data, or a plain array, which has no mask; the value of an
  element is kept under the mask, as numpy keeps it.  Coordinates are scalar or
  one-dimensional.
\<close>

record cube =
  stash_model :: nat
  stash_section :: nat
  stash_item :: nat
  var_name :: "string option"
  standard_name :: "string option"
  long_name :: "string option"
  units :: string
  cell_methods :: "cell_method list"
  coords :: "coord list"
  shape :: "nat list"
  data :: "nat list \<Rightarrow> fl \<times> bool"
  is_ma :: bool
  dtype :: dtype
  missing_value :: "(real \<times> dtype) option"

text \<open>Python's truth value of an optional string: \<open>None\<close> and \<open>''\<close> are false.\<close>

fun truthy :: "string option \<Rightarrow> bool" where
  "truthy None = False"
| "truthy (Some s) = (s \<noteq> [])"

text \<open>
  \<open>cube.coord(name)\<close>: the one coordinate of that name; iris raises
  \<open>CoordinateNotFoundError\<close> when there is none, and when there are several.
\<close>

definition cube_coord :: "cube \<Rightarrow> string \<Rightarrow> exc + coord" where
  "cube_coord c nm =
     (case filter (\<lambda>k. coord_name k = nm) (coords c) of
        [k] \<Rightarrow> Inr k
      | _ \<Rightarrow> Inl CoordinateNotFoundError)"

text \<open>
  The coordinate objects are shared with the cube, so an assignment to a coordinate's
  attribute is visible in the cube: \<open>put_coord\<close> writes the changed coordinate back.
\<close>

definition put_coord :: "cube \<Rightarrow> coord \<Rightarrow> cube" where
  "put_coord c k =
     c\<lparr>coords := map (\<lambda>k'. if coord_name k' = coord_name k then k else k') (coords c)\<rparr>"

section \<open>Variable names (umami/um2nc.py, process, lines 307-317)\<close>

text \<open>The decimal digits of a natural number, as \<open>%d\<close> prints them.\<close>

fun dec :: "nat \<Rightarrow> string" where
  "dec n = (if n < 10 then [''0123456789'' ! n]
            else dec (n div 10) @ [''0123456789'' ! (n mod 10)])"

declare dec.simps [simp del]

text \<open>\<open>'%w.wd' % n\<close> for a natural number: at least \<open>w\<close> digits, padded with zeros.\<close>

definition fmt_d :: "nat \<Rightarrow> nat \<Rightarrow> string" where
  "fmt_d w n = replicate (w - length (dec n)) (CHR ''0'') @ dec n"

text \<open>
  What \<open>StashVar(itemcode)\<close> gives: the metadata of a STASH code.  The table itself is
  not part of the program text; every field may be empty.
\<close>

record stash_var =
  uniquename :: "string option"
  sv_standard_name :: "string option"
  sv_long_name :: "string option"
  sv_units :: string

text \<open>
  Lines 308-317 of \<open>process\<close>: the simple name or the unique name of the STASH code, and
  the suffixes for maxima and minima.
\<close>

definition set_var_name :: "bool \<Rightarrow> stash_var \<Rightarrow> cube \<Rightarrow> cube" where
  "set_var_name simple umvar c =
     (let c1 = (if simple then
                  c\<lparr>var_name := Some (''fld_s'' @ fmt_d 2 (stash_section c) @ ''i''
                                        @ fmt_d 3 (stash_item c))\<rparr>
                else if truthy (uniquename umvar) then c\<lparr>var_name := uniquename umvar\<rparr>
                else c)
      in if truthy (var_name c1) then
           (let c2 = (if list_ex (\<lambda>m. cm_method m = ''maximum'') (cell_methods c1)
                      then c1\<lparr>var_name := Some (the (var_name c1) @ ''_max'')\<rparr> else c1)
            in if list_ex (\<lambda>m. cm_method m = ''minimum'') (cell_methods c2)
               then c2\<lparr>var_name := Some (the (var_name c2) @ ''_min'')\<rparr> else c2)
         else c1)"

text \<open>
  The suffix rule in the words of the specification: \<open>_max\<close> when some cell method is a
  maximum, then \<open>_min\<close> when some cell method is a minimum, each independently of the other.
\<close>

definition name_suffix :: "string list \<Rightarrow> string" where
  "name_suffix ops = (if ''maximum'' \<in> set ops then ''_max'' else [])
                @ (if ''minimum'' \<in> set ops then ''_min'' else [])"

text \<open>The simple name of a STASH code, \<open>fld_sSSiIII\<close>.\<close>

definition simple_name :: "nat \<Rightarrow> nat \<Rightarrow> string" where
  "simple_name sec item = ''fld_s'' @ fmt_d 2 sec @ ''i'' @ fmt_d 3 item"

section \<open>Latitude and longitude (umami/um2nc.py, fix_latlon_coord)\<close>

text \<open>
  The inner function \<open>_add_coord_bounds\<close>.  The bounds that iris's \<open>guess_bounds\<close> derives
  from the spacing of the points are a parameter, \<open>guess\<close>: that method belongs to the
  coordinate class of iris, not to this program.
\<close>

definition add_coord_bounds :: "(real list \<Rightarrow> (real \<times> real) list) \<Rightarrow> coord \<Rightarrow> coord" where
  "add_coord_bounds guess k =
     (if length (points k) > 1 then
        (if bounds k = None then k\<lparr>bounds := Some (guess (points k))\<rparr> else k)
      else if coord_name k = ''latitude'' then
        (if bounds k = None then k\<lparr>bounds := Some [(- 90, 90)]\<rparr> else k)
      else if coord_name k = ''longitude'' then
        (if bounds k = None then k\<lparr>bounds := Some [(0, 360)]\<rparr> else k)
      else k)"

text \<open>
  Lines 62-68: the latitude, then the longitude, is looked up, its points are cast to
  \<open>float64\<close> and its bounds are added.
\<close>

definition latlon_bounds :: "(real list \<Rightarrow> (real \<times> real) list) \<Rightarrow> cube \<Rightarrow> exc + cube" where
  "latlon_bounds guess c =
     (case cube_coord c ''latitude'' of
        Inl e \<Rightarrow> Inl e
      | Inr lat \<Rightarrow>
          (let c1 = put_coord c (add_coord_bounds guess (lat\<lparr>points_dtype := float64\<rparr>))
           in case cube_coord c1 ''longitude'' of
                Inl e \<Rightarrow> Inl e
              | Inr lon \<Rightarrow>
                  Inr (put_coord c1
                         (add_coord_bounds guess (lon\<lparr>points_dtype := float64\<rparr>)))))"

text \<open>\<open>np.allclose(a, b)\<close> on two numbers, with numpy's default tolerances.\<close>

definition allclose :: "real \<Rightarrow> real \<Rightarrow> bool" where
  "allclose a b \<longleftrightarrow> \<bar>a - b\<bar> \<le> 1 / 10 ^ 8 + 1 / 10 ^ 5 * \<bar>b\<bar>"

text \<open>
  Lines 70-77 and 79-86: the variable name of the latitude and of the longitude.  Python
  evaluates \<open>points[0]\<close> first and \<open>points[1]\<close> only when the first alternative of the
  \<open>or\<close> fails; an index out of range raises \<open>IndexError\<close>.
\<close>

definition lat_var_name :: "real list \<Rightarrow> string \<Rightarrow> exc + string" where
  "lat_var_name pts grid_type =
     (if length pts = 180 then Inr ''lat_river''
      else case pts of
             [] \<Rightarrow> Inl IndexError
           | p0 # rest \<Rightarrow>
               if p0 = - 90 \<and> grid_type = ''EG'' then Inr ''lat_v''
               else (case rest of
                       [] \<Rightarrow> Inl IndexError
                     | p1 # _ \<Rightarrow>
                         if allclose (- 90 + \<bar>0.5 * (p1 - p0)\<bar>) p0 \<and> grid_type = ''ND''
                         then Inr ''lat_v'' else Inr ''lat''))"

definition lon_var_name :: "real list \<Rightarrow> string \<Rightarrow> exc + string" where
  "lon_var_name pts grid_type =
     (if length pts = 360 then Inr ''lon_river''
      else case pts of
             [] \<Rightarrow> Inl IndexError
           | p0 # rest \<Rightarrow>
               if p0 = 0 \<and> grid_type = ''EG'' then Inr ''lon_u''
               else (case rest of
                       [] \<Rightarrow> Inl IndexError
                     | p1 # _ \<Rightarrow>
                         if allclose \<bar>0.5 * (p1 - p0)\<bar> p0 \<and> grid_type = ''ND''
                         then Inr ''lon_u'' else Inr ''lon''))"

definition latlon_names :: "cube \<Rightarrow> string \<Rightarrow> exc + cube" where
  "latlon_names c grid_type =
     (case cube_coord c ''latitude'' of
        Inl e \<Rightarrow> Inl e
      | Inr lat \<Rightarrow>
          (case lat_var_name (points lat) grid_type of
             Inl e \<Rightarrow> Inl e
           | Inr v \<Rightarrow>
               (let c1 = put_coord c (lat\<lparr>coord_var_name := Some v\<rparr>)
                in case cube_coord c1 ''longitude'' of
                     Inl e \<Rightarrow> Inl e
                   | Inr lon \<Rightarrow>
                       (case lon_var_name (points lon) grid_type of
                          Inl e \<Rightarrow> Inl e
                        | Inr w \<Rightarrow> Inr (put_coord c1 (lon\<lparr>coord_var_name := Some w\<rparr>))))))"

definition fix_latlon_coord ::
  "(real list \<Rightarrow> (real \<times> real) list) \<Rightarrow> cube \<Rightarrow> string \<Rightarrow> exc + cube" where
  "fix_latlon_coord guess c grid_type =
     (case latlon_bounds guess c of
        Inl e \<Rightarrow> Inl e
      | Inr c1 \<Rightarrow> latlon_names c1 grid_type)"

section \<open>Masking of pressure-level fields (umami/um2nc.py, apply_mask)\<close>

text \<open>
  Floating-point division as numpy does it with the warnings for \<open>x/0\<close> and \<open>0/0\<close> turned
  off: the quotient of two finite numbers is the exact quotient rounded to the
  floating-point type of the result, which is the parameter \<open>rnd\<close> (it gives an infinity
  when the quotient overflows); a division by zero gives an infinity or a NaN.  The
  comparison \<open>x <= hcrit\<close> of an array element with the (finite) critical value is false
  for a NaN.
\<close>

fun fdiv :: "(real \<Rightarrow> fl) \<Rightarrow> fl \<Rightarrow> fl \<Rightarrow> fl" where
  "fdiv rnd NaN y = NaN"
| "fdiv rnd x NaN = NaN"
| "fdiv rnd (Fin a) (Fin b) =
     (if b \<noteq> 0 then rnd (a / b) else if a > 0 then PInf else if a < 0 then NInf else NaN)"
| "fdiv rnd (Fin a) y = Fin 0"
| "fdiv rnd PInf (Fin b) = (if b \<ge> 0 then PInf else NInf)"
| "fdiv rnd NInf (Fin b) = (if b \<ge> 0 then NInf else PInf)"
| "fdiv rnd x y = NaN"

fun fle :: "fl \<Rightarrow> real \<Rightarrow> bool" where
  "fle (Fin a) h = (a \<le> h)"
| "fle NInf h = True"
| "fle PInf h = False"
| "fle NaN h = False"

fun is_finite :: "fl \<Rightarrow> bool" where
  "is_finite (Fin a) = True"
| "is_finite x = False"

text \<open>
  The division of numpy.ma, which is used as soon as one operand is a masked array, masks
  the quotient outside its domain: where \<open>abs(a) * tiny >= abs(b)\<close> holds in floating-point
  arithmetic, \<open>tiny\<close> being the smallest normal double \<open>2^-1022\<close>.  This holds for every
  zero divisor; a comparison with a NaN is false.
\<close>

fun div_domain :: "(real \<Rightarrow> fl) \<Rightarrow> fl \<Rightarrow> fl \<Rightarrow> bool" where
  "div_domain rnd NaN y = False"
| "div_domain rnd x NaN = False"
| "div_domain rnd (Fin a) (Fin b) =
     (case rnd (\<bar>a\<bar> / 2 ^ 1022) of
        Fin t \<Rightarrow> \<bar>b\<bar> \<le> t
      | PInf \<Rightarrow> True
      | _ \<Rightarrow> False)"
| "div_domain rnd (Fin a) y = False"
| "div_domain rnd x y = True"

text \<open>
  \<open>astype(np.float32)\<close> on one value.  The rounding of a finite value to single precision
  is the parameter \<open>narrow\<close>; it gives an infinity for a value beyond the range of single
  precision.
\<close>

fun cast32 :: "(real \<Rightarrow> fl) \<Rightarrow> fl \<Rightarrow> fl" where
  "cast32 narrow (Fin a) = narrow a"
| "cast32 narrow x = x"

text \<open>
  One element of \<open>np.ma.masked_array(c.data/h, h <= hcrit).astype(np.float32)\<close>, from the
  element \<open>c\<close> of the field and the element \<open>h\<close> of the divisor; \<open>ma\<close> tells whether one of
  the two arrays is a masked array.

  On plain arrays the quotient is the plain one and the mask is \<open>h <= hcrit\<close>.

  With a masked array the quotient is that of numpy.ma: it is masked where it is not finite,
  where the division is outside its domain and where an operand is masked, and there the
  value of \<open>c\<close> is put back under the mask (for arrays without dimensions, \<open>zero_d\<close>, the
  quotient is then the constant \<open>masked\<close>, whose value is 0); the comparison \<open>h <= hcrit\<close> is
  made on the values of \<open>h\<close>, also under its mask, and the mask of the quotient is kept
  beside it.
\<close>

definition mask_element ::
  "(real \<Rightarrow> fl) \<Rightarrow> (real \<Rightarrow> fl) \<Rightarrow> bool \<Rightarrow> bool \<Rightarrow> real \<Rightarrow> fl \<times> bool \<Rightarrow> fl \<times> bool
     \<Rightarrow> fl \<times> bool" where
  "mask_element rnd narrow ma zero_d hcrit c h =
     (let q = fdiv rnd (fst c) (fst h) in
      if ma then
        (let m = ((\<not> is_finite q \<or> div_domain rnd (fst c) (fst h)) \<or> snd c \<or> snd h)
         in (cast32 narrow (if m then (if zero_d then Fin 0 else fst c) else q),
             m \<or> fle (fst h) hcrit))
      else (cast32 narrow q, fle (fst h) hcrit))"

text \<open>
  The assignment to \<open>c.data\<close>, where \<open>h\<close> is the divisor, already in the shape of \<open>c.data\<close>,
  and \<open>h_ma\<close> tells whether it is a masked array.  The result is a masked array of 32-bit
  floats.
\<close>

definition masked_divide ::
  "(real \<Rightarrow> fl) \<Rightarrow> (real \<Rightarrow> fl) \<Rightarrow> cube \<Rightarrow> bool \<Rightarrow> (nat list \<Rightarrow> fl \<times> bool) \<Rightarrow> real \<Rightarrow> cube" where
  "masked_divide rnd narrow c h_ma h hcrit =
     c\<lparr>data := (\<lambda>idx. mask_element rnd narrow (is_ma c \<or> h_ma) (shape c = []) hcrit
                        (data c idx) (h idx)),
       is_ma := True, dtype := float32\<rparr>"

text \<open>
  \<open>np.all(a == b)\<close> on two one-dimensional arrays: element by element on equal lengths,
  and against the single element when one array has length one.  On lengths that do not
  broadcast, numpy before version 1.25 compares the arrays as objects, which is false.
\<close>

definition np_all_eq :: "real list \<Rightarrow> real list \<Rightarrow> bool" where
  "np_all_eq xs ys =
     (if length xs = length ys then xs = ys
      else if length xs = 1 then list_all (\<lambda>y. hd xs = y) ys
      else if length ys = 1 then list_all (\<lambda>x. x = hd ys) xs
      else False)"

text \<open>
  \<open>heaviside.extract(iris.Constraint(pressure=c_p.points))\<close>: the levels of the mask whose
  pressure is one of the given points are kept, in the order of the mask (pressure levels
  of a fieldsfile have no bounds; a level is compared by its point).  Of the extracted
  cube, \<open>apply_mask\<close> reads the pressure points, and the data with its shape, so these three
  are the result.  For a pressure coordinate along a dimension, \<open>extract\<close> returns \<open>None\<close>
  when no level is kept (the attribute access on it then fails), it indexes the dimension
  with the one position when exactly one level is kept, which drops the dimension, and
  with the positions otherwise.  For a scalar pressure coordinate the cube is returned as
  it is when its level is kept, and \<open>None\<close> otherwise.
\<close>

definition level_positions :: "real list \<Rightarrow> real list \<Rightarrow> nat list" where
  "level_positions cp hp = filter (\<lambda>i. hp ! i \<in> set cp) [0..<length hp]"

definition extract_pressure ::
  "real list \<Rightarrow> cube \<Rightarrow> coord \<Rightarrow> exc + (real list \<times> nat list \<times> (nat list \<Rightarrow> fl \<times> bool))" where
  "extract_pressure cp h h_p =
     (let keep = level_positions cp (points h_p) in
      case coord_dims h_p of
        [] \<Rightarrow>
          if length keep = length (points h_p) then Inr (points h_p, shape h, data h)
          else Inl AttributeError
      | [d] \<Rightarrow>
          if keep = [] then Inl AttributeError
          else if length keep = 1 then
            Inr ([points h_p ! hd keep], take d (shape h) @ drop (Suc d) (shape h),
                 \<lambda>idx. data h (take d idx @ [hd keep] @ drop d idx))
          else
            Inr (map (\<lambda>i. points h_p ! i) keep, (shape h)[d := length keep],
                 \<lambda>idx. data h (idx[d := keep ! (idx ! d)]))
      | _ \<Rightarrow> Inl CoordinateMultiDimError)"

text \<open>
  numpy broadcasting of the divisor against \<open>c.data\<close>.  The cube accepts the quotient as
  its new data only in its own shape, so every dimension of the divisor, aligned from the
  right, is that of \<open>c.data\<close> or one; anything else is a \<open>ValueError\<close>, of numpy when the
  shapes do not broadcast and of iris when the quotient has another shape than the cube.
  \<open>bcast_index\<close> is the element of the divisor that meets the element \<open>idx\<close> of \<open>c.data\<close>.
\<close>

definition bcast_ok :: "nat list \<Rightarrow> nat list \<Rightarrow> bool" where
  "bcast_ok cs hs \<longleftrightarrow>
     length hs \<le> length cs
     \<and> list_all2 (\<lambda>h c. h = c \<or> h = 1) hs (drop (length cs - length hs) cs)"

definition bcast_index :: "nat list \<Rightarrow> nat list \<Rightarrow> nat list" where
  "bcast_index hs idx =
     map2 (\<lambda>h i. if h = 1 then 0 else i) hs (drop (length idx - length hs) idx)"

text \<open>
  \<open>cube.name()\<close>: the standard name, else the long name, else the variable name, else the
  STASH code as a string, \<open>m01s30i201\<close>.
\<close>

definition cube_name :: "cube \<Rightarrow> string" where
  "cube_name c =
     (if truthy (standard_name c) then the (standard_name c)
      else if truthy (long_name c) then the (long_name c)
      else if truthy (var_name c) then the (var_name c)
      else ''m'' @ fmt_d 2 (stash_model c) @ ''s'' @ fmt_d 2 (stash_section c)
           @ ''i'' @ fmt_d 3 (stash_item c))"

text \<open>
  \<open>apply_mask\<close>.  The one reshaping that a cube accepts is that of a cube without
  dimensions, which takes data of the shape \<open>(1,)\<close>.
\<close>

definition apply_mask ::
  "(real \<Rightarrow> fl) \<Rightarrow> (real \<Rightarrow> fl) \<Rightarrow> cube \<Rightarrow> cube \<Rightarrow> real \<Rightarrow> exc + cube" where
  "apply_mask rnd narrow c heaviside hcrit =
     (if shape c = shape heaviside
      then Inr (masked_divide rnd narrow c (is_ma heaviside) (data heaviside) hcrit)
      else
        case cube_coord c ''pressure'' of
          Inl e \<Rightarrow> Inl e
        | Inr c_p \<Rightarrow>
            (case cube_coord heaviside ''pressure'' of
               Inl e \<Rightarrow> Inl e
             | Inr h_p \<Rightarrow>
                 if set (points c_p) \<subseteq> set (points h_p) then
                   (case extract_pressure (points c_p) heaviside h_p of
                      Inl e \<Rightarrow> Inl e
                    | Inr (h_tmp_points, h_tmp_shape, h_tmp_data) \<Rightarrow>
                        if \<not> np_all_eq (points c_p) h_tmp_points then
                          Inl (QValueError
                            ''Unexpected mismatch in levels of extracted heaviside function'')
                        else if bcast_ok (shape c) h_tmp_shape then
                          Inr (masked_divide rnd narrow c (is_ma heaviside)
                                 (\<lambda>idx. h_tmp_data (bcast_index h_tmp_shape idx)) hcrit)
                        else if shape c = [] \<and> h_tmp_shape = [1] then
                          Inr (masked_divide rnd narrow
                                 (c\<lparr>shape := [1], data := (\<lambda>idx. data c [])\<rparr>)
                                 (is_ma heaviside) (\<lambda>idx. h_tmp_data [0]) hcrit)
                        else Inl ValueError)
                 else
                   Inl (QValueError
                     (''Unable to match levels of heaviside function to variable ''
                      @ cube_name c))))"

text \<open>An index lies in an array of shape \<open>shp\<close>.\<close>

definition in_range :: "nat list \<Rightarrow> nat list \<Rightarrow> bool" where
  "in_range shp idx \<longleftrightarrow> list_all2 (\<lambda>i n. i < n) idx shp"

section \<open>Writing a field (umami/um2nc.py, cubewrite)\<close>

subsection \<open>The pressure coordinate (lines 111-121)\<close>

text \<open>
  \<open>iris.util.reverse(cube, 'pressure')\<close>: the data, and every coordinate that lies along a
  dimension of the pressure coordinate, are reversed along it.  A dimension coordinate
  keeps the two bounds of a cell in the direction of its points, so the two bounds of each
  cell are swapped as well; an auxiliary coordinate keeps them as they are.  Coordinates
  are scalar or one-dimensional here.
\<close>

definition reverse_data :: "nat \<Rightarrow> nat list \<Rightarrow> (nat list \<Rightarrow> fl \<times> bool) \<Rightarrow> nat list \<Rightarrow> fl \<times> bool" where
  "reverse_data d shp dat = (\<lambda>idx. dat (idx[d := shp ! d - 1 - idx ! d]))"

definition reverse_coord :: "nat \<Rightarrow> coord \<Rightarrow> coord" where
  "reverse_coord d k =
     (if coord_dims k = [d]
      then k\<lparr>points := rev (points k),
             bounds := map_option (\<lambda>b. if dim_coord k then rev (map (\<lambda>(lo, hi). (hi, lo)) b)
                                        else rev b) (bounds k)\<rparr>
      else k)"

fun reverse_cube :: "cube \<Rightarrow> nat list \<Rightarrow> cube" where
  "reverse_cube c [] = c"
| "reverse_cube c (d # ds) =
     reverse_cube (c\<lparr>data := reverse_data d (shape c) (data c),
                      coords := map (reverse_coord d) (coords c)\<rparr>) ds"

text \<open>
  The first \<open>try\<close> block of \<open>cubewrite\<close>.  Two functions of the libraries are parameters:
  \<open>to_pa u\<close> is the conversion of a value in the unit \<open>u\<close> to Pa that \<open>convert_units\<close>
  applies to points and bounds, absent when the unit does not convert to Pa (cf_units
  then raises a \<open>ValueError\<close>; for the unit \<open>unknown\<close> iris raises its
  \<open>UnitConversionError\<close> before), and \<open>round5\<close> is \<open>np.round(x, 5)\<close> on one number.  The
  handler catches \<open>CoordinateNotFoundError\<close> only.
\<close>

definition pressure_step ::
  "(string \<Rightarrow> (real \<Rightarrow> real) option) \<Rightarrow> (real \<Rightarrow> real) \<Rightarrow> cube \<Rightarrow> exc + cube" where
  "pressure_step to_pa round5 c =
     (case cube_coord c ''pressure'' of
        Inl e \<Rightarrow> Inr c
      | Inr plevs \<Rightarrow>
          if coord_units plevs = ''unknown'' then Inl UnitConversionError
          else
            (case to_pa (coord_units plevs) of
               None \<Rightarrow> Inl ValueError
             | Some conv \<Rightarrow>
                 (let plevs' = plevs\<lparr>positive := Some ''down'', coord_units := ''Pa'',
                          points := map (\<lambda>p. round5 (conv p)) (points plevs),
                          bounds := map_option (map (\<lambda>(lo, hi). (conv lo, conv hi)))
                                      (bounds plevs)\<rparr>;
                      c' = put_coord c plevs'
                  in if points plevs' = [] then Inl IndexError
                     else if hd (points plevs') < last (points plevs')
                     then Inr (reverse_cube c' (coord_dims plevs'))
                     else Inr c')))"

subsection \<open>The time coordinate (convert_proleptic, and lines 138-160 of cubewrite)\<close>

text \<open>
  A calendar date as \<open>num2date\<close> returns it.  The decoding of a number to a date and the
  encoding of a date as a number belong to cf_units and cftime; they are the parameters
  \<open>n2d\<close> and \<open>d2n\<close>, which take the unit string and the calendar of the unit.
\<close>

record date =
  year :: int
  month :: nat
  day :: nat
  hour :: nat
  minute :: nat
  second :: nat
  microsecond :: nat

type_synonym num2date = "string \<Rightarrow> string \<Rightarrow> real \<Rightarrow> date"
type_synonym date2num = "string \<Rightarrow> string \<Rightarrow> date \<Rightarrow> real"

text \<open>
  One value of \<open>convert_proleptic\<close>: decoded in the unit of the coordinate, rebuilt as a
  proleptic-Gregorian date from its year, month, day, hour, minute and second, and encoded
  in days since 0001-01-01.
\<close>

definition proleptic_value :: "num2date \<Rightarrow> date2num \<Rightarrow> coord \<Rightarrow> real \<Rightarrow> real" where
  "proleptic_value n2d d2n time v =
     (let date = n2d (coord_units time) (calendar time) v;
          newdate = \<lparr>year = year date, month = month date, day = day date,
                     hour = hour date, minute = minute date, second = second date,
                     microsecond = 0\<rparr>
      in d2n ''days since 0001-01-01 00:00'' ''proleptic_gregorian'' newdate)"

text \<open>
  The loop of \<open>convert_proleptic\<close> over the indices of the points: \<open>tvals[i]\<close> is replaced,
  and with bounds both \<open>tbnds[i][0]\<close> and \<open>tbnds[i][1]\<close>; a row of bounds that is not
  there is an \<open>IndexError\<close>.
\<close>

fun convert_proleptic_loop ::
  "(real \<Rightarrow> real) \<Rightarrow> nat list \<Rightarrow> real list \<Rightarrow> (real \<times> real) list option
     \<Rightarrow> exc + real list \<times> (real \<times> real) list option" where
  "convert_proleptic_loop f [] tvals tbnds = Inr (tvals, tbnds)"
| "convert_proleptic_loop f (i # rest) tvals tbnds =
     (let tvals' = tvals[i := f (tvals ! i)]
      in case tbnds of
           None \<Rightarrow> convert_proleptic_loop f rest tvals' None
         | Some b \<Rightarrow>
             if i < length b
             then convert_proleptic_loop f rest tvals'
                    (Some (b[i := (f (fst (b ! i)), f (snd (b ! i)))]))
             else Inl IndexError)"

definition convert_proleptic :: "num2date \<Rightarrow> date2num \<Rightarrow> coord \<Rightarrow> exc + coord" where
  "convert_proleptic n2d d2n time =
     (case convert_proleptic_loop (proleptic_value n2d d2n time)
             [0..<length (points time)] (points time) (bounds time) of
        Inl e \<Rightarrow> Inl e
      | Inr (tvals, tbnds) \<Rightarrow>
          Inr (time\<lparr>points := tvals, bounds := tbnds,
                    coord_units := ''days since 0001-01-01 00:00'',
                    calendar := ''proleptic_gregorian''\<rparr>))"

text \<open>\<open>cube.remove_coord(name)\<close>; the name is looked up first.\<close>

definition remove_coord :: "cube \<Rightarrow> string \<Rightarrow> exc + cube" where
  "remove_coord c nm =
     (case cube_coord c nm of
        Inl e \<Rightarrow> Inl e
      | Inr k \<Rightarrow> Inr (c\<lparr>coords := filter (\<lambda>k'. coord_name k' \<noteq> nm) (coords c)\<rparr>))"

text \<open>
  The \<open>else\<close> branch of line 147: days since 1970 in the calendar of the unit, with
  \<open>gregorian\<close> renamed, and points and bounds divided by 24.
\<close>

definition hours_to_days :: "coord \<Rightarrow> coord" where
  "hours_to_days time =
     (let new_calendar = (if calendar time = ''gregorian'' then ''proleptic_gregorian''
                          else calendar time)
      in time\<lparr>coord_units := ''days since 1970-01-01 00:00'', calendar := new_calendar,
              points := map (\<lambda>p. p / 24) (points time),
              bounds := map_option (map (\<lambda>(lo, hi). (lo / 24, hi / 24))) (bounds time)\<rparr>)"

text \<open>
  The second \<open>try\<close> block of \<open>cubewrite\<close>.  Its handler catches \<open>CoordinateNotFoundError\<close>
  only, wherever in the block it is raised: the cube is then as the block left it.
\<close>

definition time_step :: "num2date \<Rightarrow> date2num \<Rightarrow> cube \<Rightarrow> exc + cube" where
  "time_step n2d d2n c =
     (case cube_coord c ''forecast_reference_time'' of
        Inl e \<Rightarrow> Inr c
      | Inr reftime \<Rightarrow>
          (case cube_coord c ''time'' of
             Inl e \<Rightarrow> Inr c
           | Inr time \<Rightarrow>
               (case points reftime of
                  [] \<Rightarrow> Inl IndexError
                | p0 # ps \<Rightarrow>
                    (let refdate = n2d (coord_units reftime) (calendar reftime) p0
                     in if coord_units time \<noteq> ''hours since 1970-01-01 00:00:00''
                        then Inl AssertionError
                        else
                          case (if calendar time = ''proleptic_gregorian'' \<and> year refdate < 1600
                                then convert_proleptic n2d d2n time
                                else Inr (hours_to_days time)) of
                            Inl e \<Rightarrow> Inl e
                          | Inr time' \<Rightarrow>
                              (let c1 = put_coord c time'
                               in case remove_coord c1 ''forecast_period'' of
                                    Inl e \<Rightarrow> Inr c1
                                  | Inr c2 \<Rightarrow>
                                      (case remove_coord c2 ''forecast_reference_time'' of
                                         Inl e \<Rightarrow> Inr c2
                                       | Inr c3 \<Rightarrow> Inr c3))))))"

subsection \<open>Data type, missing value and integer coordinates (lines 122-136, 162-167)\<close>

text \<open>
  \<open>astype(np.int32)\<close> on one 64-bit integer: the value modulo \<open>2^32\<close>, in the range of the
  32-bit integers.
\<close>

definition wrap32 :: "real \<Rightarrow> real" where
  "wrap32 x = of_int ((\<lfloor>x\<rfloor> + 2 ^ 31) mod 2 ^ 32 - 2 ^ 31)"

fun cast_int32 :: "fl \<Rightarrow> fl" where
  "cast_int32 (Fin a) = Fin (wrap32 a)"
| "cast_int32 x = x"

text \<open>
  Without \<open>--64\<close>, 64-bit floats become 32-bit floats (the rounding is the parameter
  \<open>narrow\<close>) and 64-bit integers become 32-bit integers.
\<close>

definition narrow_step :: "(real \<Rightarrow> fl) \<Rightarrow> bool \<Rightarrow> cube \<Rightarrow> cube" where
  "narrow_step narrow use64bit c =
     (if \<not> use64bit then
        (if dtype c = float64 then
           c\<lparr>data := (\<lambda>idx. (cast32 narrow (fst (data c idx)), snd (data c idx))),
             dtype := float32\<rparr>
         else if dtype c = int64 then
           c\<lparr>data := (\<lambda>idx. (cast_int32 (fst (data c idx)), snd (data c idx))),
             dtype := int32\<rparr>
         else c)
      else c)"

text \<open>
  The fill value: \<open>1e20\<close> for floats, otherwise the entry of netCDF4's table
  \<open>default_fillvals\<close> (a parameter) under the key made of the kind and the item size; a
  key that is not in the table is a \<open>KeyError\<close>.
\<close>

definition fill_step :: "(string \<Rightarrow> real option) \<Rightarrow> cube \<Rightarrow> exc + real \<times> cube" where
  "fill_step default_fillvals c =
     (if fst (dtype c) = CHR ''f''
      then Inr (10 ^ 20, c\<lparr>missing_value := Some (10 ^ 20, dtype c)\<rparr>)
      else case default_fillvals (fst (dtype c) # dec (snd (dtype c))) of
             None \<Rightarrow> Inl KeyError
           | Some v \<Rightarrow> Inr (v, c\<lparr>missing_value := Some (v, dtype c)\<rparr>))"

definition int_coords_step :: "cube \<Rightarrow> cube" where
  "int_coords_step c =
     c\<lparr>coords := map (\<lambda>k. if points_dtype k = int64
                          then k\<lparr>points := map wrap32 (points k), points_dtype := int32\<rparr>
                          else k)
                     (coords c)\<rparr>"

subsection \<open>The order of the dimensions (lines 169-188)\<close>

text \<open>
  \<open>neworder\<close>: the list of the dimensions, with \<open>tdim\<close> removed and inserted in front.
  \<open>list.remove\<close> raises \<open>ValueError\<close> when the element is not in the list.
\<close>

definition neworder :: "nat \<Rightarrow> nat \<Rightarrow> exc + nat list" where
  "neworder ndim tdim =
     (if tdim \<in> set [0..<ndim] then Inr (tdim # remove1 tdim [0..<ndim]) else Inl ValueError)"

text \<open>The position of the first occurrence of \<open>a\<close> in a list.\<close>

fun index_of :: "nat list \<Rightarrow> nat \<Rightarrow> nat" where
  "index_of [] a = 0"
| "index_of (x # xs) a = (if x = a then 0 else Suc (index_of xs a))"

text \<open>
  \<open>cube.transpose(order)\<close>: dimension \<open>k\<close> of the result is dimension \<open>order[k]\<close> of the cube,
  for the shape, for the data and for the dimensions that the coordinates span.
\<close>

definition transpose_cube :: "cube \<Rightarrow> nat list \<Rightarrow> cube" where
  "transpose_cube c order =
     c\<lparr>shape := map (\<lambda>a. shape c ! a) order,
       data := (\<lambda>idx. data c (map (\<lambda>a. idx ! index_of order a) [0..<length (shape c)])),
       coords := map (\<lambda>k. k\<lparr>coord_dims := map (index_of order) (coord_dims k)\<rparr>) (coords c)\<rparr>"

text \<open>
  \<open>iris.util.new_axis(cube, coord)\<close>: a new leading dimension of length one, spanned by
  the given scalar coordinate; the other dimensions move up by one.
\<close>

definition new_axis :: "cube \<Rightarrow> coord \<Rightarrow> cube" where
  "new_axis c k0 =
     c\<lparr>shape := 1 # shape c,
       data := (\<lambda>idx. data c (tl idx)),
       coords := map (\<lambda>k. if coord_name k = coord_name k0 then k\<lparr>coord_dims := [0]\<rparr>
                            else k\<lparr>coord_dims := map Suc (coord_dims k)\<rparr>) (coords c)\<rparr>"

text \<open>
  The last \<open>try\<close> block, up to the call of the writer: the cube that is written and the
  unlimited dimensions it is written with.  Without a time coordinate the lookup raises
  \<open>CoordinateNotFoundError\<close> and the cube is written as it is.
\<close>

definition dimension_step :: "cube \<Rightarrow> exc + cube \<times> string list" where
  "dimension_step c =
     (case cube_coord c ''time'' of
        Inl e \<Rightarrow> Inr (c, [])
      | Inr time \<Rightarrow>
          if coord_dims time \<noteq> [] then
            (if coord_dims time \<noteq> [0] then
               (case neworder (length (shape c)) (hd (coord_dims time)) of
                  Inl e \<Rightarrow> Inl e
                | Inr order \<Rightarrow> Inr (transpose_cube c order, [''time'']))
             else Inr (c, [''time'']))
          else Inr (new_axis c time, [''time'']))"

subsection \<open>The writer and cubewrite as a whole\<close>

text \<open>
  The functions of the libraries that the program calls and whose code is not part of
  it, as parameters: the bounds guess of iris, the rounding of a quotient to its
  floating-point type and the rounding to single precision, the unit conversion to Pa,
  the rounding to five decimals of numpy, netCDF4's table of fill values, the calendar
  functions, and the table of STASH codes.
\<close>

record lib =
  lib_guess :: "real list \<Rightarrow> (real \<times> real) list"
  lib_rnd :: "real \<Rightarrow> fl"
  lib_narrow :: "real \<Rightarrow> fl"
  lib_to_pa :: "string \<Rightarrow> (real \<Rightarrow> real) option"
  lib_round5 :: "real \<Rightarrow> real"
  lib_fillvals :: "string \<Rightarrow> real option"
  lib_n2d :: num2date
  lib_d2n :: date2num
  lib_stashvar :: "nat \<Rightarrow> stash_var"

text \<open>
  The netCDF saver \<open>sman\<close>: the global attributes it was given and the calls of \<open>write\<close>
  it received, each with the cube, the compression level, the unlimited dimensions and the
  fill value.
\<close>

record written =
  w_cube :: cube
  w_complevel :: int
  w_unlimited :: "string list"
  w_fill_value :: real

record saver =
  global_attributes :: "(string \<times> string) list"
  writes :: "written list"

definition sman_write :: "saver \<Rightarrow> cube \<Rightarrow> int \<Rightarrow> string list \<Rightarrow> real \<Rightarrow> saver" where
  "sman_write sman c complevel unlimited fill_value =
     sman\<lparr>writes := writes sman @ [\<lparr>w_cube = c, w_complevel = complevel,
                                      w_unlimited = unlimited, w_fill_value = fill_value\<rparr>]\<rparr>"

text \<open>
  \<open>cubewrite\<close> changes the cube it is given in place, except that the reversed cube and
  the cube with the new axis are new objects.  The caller keeps the cube as changed in
  place; this matters because the heaviside fields are written themselves and are used
  as masks afterwards.  \<open>pressure_in_place\<close> is the cube of the caller after the first
  \<open>try\<close> block, \<open>pressure_reverses\<close> tells whether the local name was bound to a reversed
  copy there, and \<open>dimension_kept\<close> is the cube after the last block when it was not.
\<close>

definition pressure_in_place ::
  "(string \<Rightarrow> (real \<Rightarrow> real) option) \<Rightarrow> (real \<Rightarrow> real) \<Rightarrow> cube \<Rightarrow> cube" where
  "pressure_in_place to_pa round5 c =
     (case cube_coord c ''pressure'' of
        Inl e \<Rightarrow> c
      | Inr plevs \<Rightarrow>
          (case to_pa (coord_units plevs) of
             None \<Rightarrow> c
           | Some conv \<Rightarrow>
               put_coord c
                 (plevs\<lparr>positive := Some ''down'', coord_units := ''Pa'',
                        points := map (\<lambda>p. round5 (conv p)) (points plevs),
                        bounds := map_option (map (\<lambda>(lo, hi). (conv lo, conv hi)))
                                    (bounds plevs)\<rparr>)))"

definition pressure_reverses ::
  "(string \<Rightarrow> (real \<Rightarrow> real) option) \<Rightarrow> (real \<Rightarrow> real) \<Rightarrow> cube \<Rightarrow> bool" where
  "pressure_reverses to_pa round5 c =
     (case cube_coord c ''pressure'' of
        Inl e \<Rightarrow> False
      | Inr plevs \<Rightarrow>
          (case to_pa (coord_units plevs) of
             None \<Rightarrow> False
           | Some conv \<Rightarrow>
               points plevs \<noteq> []
               \<and> hd (map (\<lambda>p. round5 (conv p)) (points plevs))
                   < last (map (\<lambda>p. round5 (conv p)) (points plevs))))"

definition dimension_kept :: "cube \<Rightarrow> cube" where
  "dimension_kept c =
     (case cube_coord c ''time'' of
        Inl e \<Rightarrow> c
      | Inr time \<Rightarrow>
          if coord_dims time = [] then c
          else (case dimension_step c of Inl e \<Rightarrow> c | Inr (c', unlimited) \<Rightarrow> c'))"

text \<open>\<open>cubewrite\<close>: the saver after the call, and the cube that the caller keeps.\<close>

definition cubewrite :: "lib \<Rightarrow> cube \<Rightarrow> saver \<Rightarrow> int \<Rightarrow> bool \<Rightarrow> exc + saver \<times> cube" where
  "cubewrite l c sman compression use64bit =
     (case pressure_step (lib_to_pa l) (lib_round5 l) c of
        Inl e \<Rightarrow> Inl e
      | Inr c1 \<Rightarrow>
          (case fill_step (lib_fillvals l) (narrow_step (lib_narrow l) use64bit c1) of
             Inl e \<Rightarrow> Inl e
           | Inr (fill_value, c2) \<Rightarrow>
               (case time_step (lib_n2d l) (lib_d2n l) c2 of
                  Inl e \<Rightarrow> Inl e
                | Inr c3 \<Rightarrow>
                    (case dimension_step (int_coords_step c3) of
                       Inl e \<Rightarrow> Inl e
                     | Inr (c4, unlimited) \<Rightarrow>
                         Inr (sman_write sman c4 compression unlimited fill_value,
                              if pressure_reverses (lib_to_pa l) (lib_round5 l) c
                              then pressure_in_place (lib_to_pa l) (lib_round5 l) c
                              else dimension_kept (int_coords_step c3))))))"

section \<open>The output path (amami/helpers.py, amami/parsers/um2nc_parser.py, umami/um2nc.py)\<close>

text \<open>
  \<open>create_unexistent_file\<close> of amami/helpers.py.  The file system is the list \<open>fs\<close> of the
  paths that exist.  The loop keeps the counter \<open>n\<close> and the candidate \<open>newpath\<close>.
\<close>

function create_unexistent_file_loop :: "string list \<Rightarrow> string \<Rightarrow> nat \<Rightarrow> string \<Rightarrow> string" where
  "create_unexistent_file_loop fs path n newpath =
     (if newpath \<in> set fs
      then create_unexistent_file_loop fs path (n + 1) (path @ ''_'' @ dec (n + 1))
      else newpath)"
  by pat_completeness auto

definition create_unexistent_file :: "string list \<Rightarrow> string \<Rightarrow> string" where
  "create_unexistent_file fs path = create_unexistent_file_loop fs path 1 path"

text \<open>
  \<open>callback_function\<close> of the parser of amami: the options \<open>-i\<close> and \<open>-o\<close> (absent:
  \<open>None\<close>) and the positional arguments give the input and the output path.
\<close>

definition callback_function ::
  "string list \<Rightarrow> string option \<Rightarrow> string option \<Rightarrow> string list \<Rightarrow> exc + string \<times> string" where
  "callback_function fs infile outfile unknown_args =
     (if length unknown_args > 2
         \<or> (infile \<noteq> None \<and> outfile \<noteq> None \<and> length unknown_args > 0)
         \<or> ((infile = None) \<noteq> (outfile = None) \<and> length unknown_args > 1)
      then Inl (ParsingError ''Too many arguments.'')
      else if infile = None \<and> length unknown_args = 0
      then Inl (ParsingError ''No input file provided.'')
      else if infile = None then
        (if outfile = None then
           (if length unknown_args = 2 then Inr (unknown_args ! 0, unknown_args ! 1)
            else Inr (unknown_args ! 0,
                      create_unexistent_file fs (unknown_args ! 0 @ ''.nc'')))
         else Inr (unknown_args ! 0, the outfile))
      else if outfile = None then
        (if length unknown_args = 1 then Inr (the infile, unknown_args ! 0)
         else Inr (the infile, create_unexistent_file fs (the infile @ ''.nc'')))
      else Inr (the infile, the outfile))"

text \<open>
  The same decision in the script umami/um2nc.py (lines 423-443), from the options \<open>-i\<close>
  and \<open>-o\<close> and the two positional arguments \<open>infile_\<close> and \<open>outfile_\<close>.  The name
  \<open>outfile\<close> is bound in the first part only when the first positional argument is taken
  as the output.
\<close>

definition um2nc_paths ::
  "string option \<Rightarrow> string option \<Rightarrow> string option \<Rightarrow> string option \<Rightarrow> exc + string \<times> string" where
  "um2nc_paths infile infile_pos outfile outfile_pos =
     (case (if infile \<noteq> None then
              (if infile_pos \<noteq> None then
                 (if outfile = None \<and> outfile_pos = None
                  then Inr (the infile, infile_pos)
                  else Inl (QParseError ''Too many input files.''))
               else Inr (the infile, None))
            else if infile_pos \<noteq> None then Inr (the infile_pos, None)
            else Inl (QParseError ''The input file is required.'')) of
        Inl e \<Rightarrow> Inl e
      | Inr (inp, Some out) \<Rightarrow> Inr (inp, out)
      | Inr (inp, None) \<Rightarrow>
          if outfile \<noteq> None then
            (if outfile_pos \<noteq> None then Inl (QParseError ''Too many input files.'')
             else Inr (inp, the outfile))
          else if outfile_pos \<noteq> None then Inr (inp, the outfile_pos)
          else Inr (inp, inp @ ''.nc''))"

section \<open>Vertical levels (umami/um2nc.py, fix_level_coord)\<close>

text \<open>
  \<open>z_rho\<close> and \<open>z_theta\<close> are the heights of the rho and theta levels from the header of
  the fieldsfile (the single value 0 when the header has none).  The minimum of an empty
  array is a \<open>ValueError\<close>.
\<close>

definition near_level :: "real \<Rightarrow> real list \<Rightarrow> exc + bool" where
  "near_level h zs =
     (if zs = [] then Inl ValueError
      else Inr (Min (set (map (\<lambda>z. \<bar>h - z\<bar>) zs)) < 1 / 10 ^ 6))"

definition rename_levels :: "cube \<Rightarrow> string \<Rightarrow> string \<Rightarrow> string \<Rightarrow> cube" where
  "rename_levels c lev height sigma =
     c\<lparr>coords := map (\<lambda>k. if coord_name k = ''model_level_number''
                            then k\<lparr>coord_var_name := Some lev\<rparr>
                          else if coord_name k = ''level_height''
                            then k\<lparr>coord_var_name := Some height\<rparr>
                          else if coord_name k = ''sigma''
                            then k\<lparr>coord_var_name := Some sigma\<rparr>
                          else k) (coords c)\<rparr>"

definition fix_level_coord :: "cube \<Rightarrow> real list \<Rightarrow> real list \<Rightarrow> exc + cube" where
  "fix_level_coord c z_rho z_theta =
     (case (cube_coord c ''model_level_number'', cube_coord c ''level_height'',
            cube_coord c ''sigma'') of
        (Inr c_lev, Inr c_height, Inr c_sigma) \<Rightarrow>
          (case points c_height of
             [] \<Rightarrow> Inl IndexError
           | h # rest \<Rightarrow>
               (case near_level h z_rho of
                  Inl e \<Rightarrow> Inl e
                | Inr True \<Rightarrow>
                    Inr (rename_levels c ''model_rho_level_number'' ''rho_level_height''
                           ''sigma_rho'')
                | Inr False \<Rightarrow>
                    (case near_level h z_theta of
                       Inl e \<Rightarrow> Inl e
                     | Inr True \<Rightarrow>
                         Inr (rename_levels c ''model_theta_level_number''
                                ''theta_level_height'' ''sigma_theta'')
                     | Inr False \<Rightarrow> Inr c)))
      | _ \<Rightarrow> Inr c)"

section \<open>The conversion of a file (umami/um2nc.py, process and the script)\<close>

text \<open>
  The arguments that \<open>process\<close> reads.  \<open>--format\<close> is a name or a number: the two
  constructors stand for the two outcomes of \<open>int(format_arg)\<close>.
\<close>

datatype format_arg = FormatNumber int | FormatName string

record args =
  arg_format :: format_arg
  arg_compression :: int
  arg_use64bit :: bool
  arg_include_list :: "nat list option"
  arg_exclude_list :: "nat list option"
  arg_nomask :: bool
  arg_nohist :: bool
  arg_simple :: bool
  arg_hcrit :: real

text \<open>
  What \<open>read_fieldsfile\<close> gives of the header: the grid staggering and, when the header
  has them, the heights of the rho and theta levels.
\<close>

record header =
  grid_staggering :: int
  zsea_at_rho :: "real list option"
  zsea_at_theta :: "real list option"

definition get_nc_format :: "format_arg \<Rightarrow> exc + string" where
  "get_nc_format format_arg =
     (case format_arg of
        FormatNumber fmt \<Rightarrow>
          if fmt = 1 then Inr ''NETCDF4''
          else if fmt = 2 then Inr ''NETCDF4_CLASSIC''
          else if fmt = 3 then Inr ''NETCDF3_CLASSIC''
          else if fmt = 4 then Inr ''NETCDF3_64BIT''
          else Inl KeyError
      | FormatName nm \<Rightarrow> Inr nm)"

text \<open>
  Opening the saver of iris: it refuses a format that is not one of the four names with a
  \<open>ValueError\<close>; otherwise the output file exists from here on.
\<close>

definition open_saver :: "string \<Rightarrow> exc + saver" where
  "open_saver fmt =
     (if fmt \<in> set [''NETCDF4'', ''NETCDF4_CLASSIC'', ''NETCDF3_CLASSIC'', ''NETCDF3_64BIT'']
      then Inr \<lparr>global_attributes = [], writes = []\<rparr>
      else Inl ValueError)"

definition update_global_attributes :: "saver \<Rightarrow> string \<Rightarrow> string \<Rightarrow> saver" where
  "update_global_attributes sman key val =
     sman\<lparr>global_attributes :=
            filter (\<lambda>(k, v). k \<noteq> key) (global_attributes sman) @ [(key, val)]\<rparr>"

text \<open>
  Lines 307-343: the variable name, the two wind names, the standard name, units and long
  name from the STASH entry, and the clean-up of the cell methods.
\<close>

definition field_metadata :: "stash_var \<Rightarrow> bool \<Rightarrow> cube \<Rightarrow> cube" where
  "field_metadata umvar simple c =
     (let c1 = set_var_name simple umvar c;
          c2 = (if standard_name c1 = Some ''x_wind''
                then c1\<lparr>standard_name := Some ''eastward_wind''\<rparr> else c1);
          c3 = (if standard_name c2 = Some ''y_wind''
                then c2\<lparr>standard_name := Some ''northward_wind''\<rparr> else c2);
          c4 = (if truthy (standard_name c3) \<and> truthy (sv_standard_name umvar)
                   \<and> standard_name c3 \<noteq> sv_standard_name umvar
                then c3\<lparr>standard_name := sv_standard_name umvar\<rparr> else c3);
          c5 = (if units c4 \<noteq> sv_units umvar then c4\<lparr>units := sv_units umvar\<rparr> else c4);
          c6 = (if \<not> truthy (standard_name c5) \<and> truthy (sv_standard_name umvar)
                then c5\<lparr>standard_name := sv_standard_name umvar\<rparr> else c5);
          c7 = (if \<not> truthy (long_name c6) \<and> truthy (sv_long_name umvar)
                then c6\<lparr>long_name := sv_long_name umvar\<rparr> else c6)
      in c7\<lparr>cell_methods := fix_cell_methods (cell_methods c7)\<rparr>)"

text \<open>Python's truth value of an optional list: \<open>None\<close> and \<open>[]\<close> are false.\<close>

fun truthy_list :: "nat list option \<Rightarrow> bool" where
  "truthy_list None = False"
| "truthy_list (Some xs) = (xs \<noteq> [])"

text \<open>
  The masking of lines 353-366 for one of the two kinds: \<open>Inr None\<close> is the \<open>continue\<close> of
  a field whose heaviside field is missing.
\<close>

definition mask_if ::
  "bool \<Rightarrow> (real \<Rightarrow> fl) \<Rightarrow> (real \<Rightarrow> fl) \<Rightarrow> cube \<Rightarrow> cube option \<Rightarrow> real \<Rightarrow> exc + cube option" where
  "mask_if needed rnd narrow c heaviside hcrit =
     (if needed then
        (case heaviside of
           Some h \<Rightarrow> (case apply_mask rnd narrow c h hcrit of
                        Inl e \<Rightarrow> Inl e
                      | Inr c' \<Rightarrow> Inr (Some c'))
         | None \<Rightarrow> Inr None)
      else Inr (Some c))"

text \<open>
  One turn of the loop over the cubes: the saver afterwards and the cube as the turn left
  it.  A \<open>CoordinateNotFoundError\<close> of \<open>fix_latlon_coord\<close> is turned into \<open>SystemExit\<close>.
\<close>

definition process_field ::
  "lib \<Rightarrow> args \<Rightarrow> string \<Rightarrow> real list \<Rightarrow> real list \<Rightarrow> cube option \<Rightarrow> cube option
     \<Rightarrow> saver \<Rightarrow> cube \<Rightarrow> exc + saver \<times> cube" where
  "process_field l a grid_type z_rho z_theta heaviside_uv heaviside_t sman c =
     (let itemcode = 1000 * stash_section c + stash_item c in
      if truthy_list (arg_include_list a) \<and> itemcode \<notin> set (the (arg_include_list a))
      then Inr (sman, c)
      else if truthy_list (arg_exclude_list a) \<and> itemcode \<in> set (the (arg_exclude_list a))
      then Inr (sman, c)
      else
        case fix_latlon_coord (lib_guess l)
               (field_metadata (lib_stashvar l itemcode) (arg_simple a) c) grid_type of
          Inl e \<Rightarrow>
            if e = CoordinateNotFoundError
            then Inl (SystemExit ''File can not be processed. UM files with time series currently not supported.'')
            else Inl e
        | Inr c1 \<Rightarrow>
            (case fix_level_coord c1 z_rho z_theta of
               Inl e \<Rightarrow> Inl e
             | Inr c2 \<Rightarrow>
                 (case mask_if (\<not> arg_nomask a \<and> stash_section c = 30
                                \<and> ((201 \<le> stash_item c \<and> stash_item c \<le> 288)
                                    \<or> (302 \<le> stash_item c \<and> stash_item c \<le> 303)))
                         (lib_rnd l) (lib_narrow l) c2 heaviside_uv (arg_hcrit a) of
                    Inl e \<Rightarrow> Inl e
                  | Inr None \<Rightarrow> Inr (sman, c2)
                  | Inr (Some c3) \<Rightarrow>
                      (case mask_if (\<not> arg_nomask a \<and> stash_section c = 30
                                     \<and> (293 \<le> stash_item c \<and> stash_item c \<le> 298))
                              (lib_rnd l) (lib_narrow l) c3 heaviside_t (arg_hcrit a) of
                         Inl e \<Rightarrow> Inl e
                       | Inr None \<Rightarrow> Inr (sman, c3)
                       | Inr (Some c4) \<Rightarrow>
                           cubewrite l c4 sman (arg_compression a) (arg_use64bit a)))))"

text \<open>
  The loop.  The cubes are objects that the turns change in place, and the heaviside
  fields are two of them: \<open>store\<close> holds the cubes, the loop runs over their positions
  and the masks are read from the store at the positions \<open>huv\<close> and \<open>ht\<close>.
\<close>

fun process_loop ::
  "lib \<Rightarrow> args \<Rightarrow> string \<Rightarrow> real list \<Rightarrow> real list \<Rightarrow> nat option \<Rightarrow> nat option
     \<Rightarrow> nat list \<Rightarrow> cube list \<Rightarrow> saver \<Rightarrow> exc + saver" where
  "process_loop l a grid_type z_rho z_theta huv ht [] store sman = Inr sman"
| "process_loop l a grid_type z_rho z_theta huv ht (i # rest) store sman =
     (case process_field l a grid_type z_rho z_theta
             (map_option (\<lambda>h. store ! h) huv) (map_option (\<lambda>h. store ! h) ht)
             sman (store ! i) of
        Inl e \<Rightarrow> Inl e
      | Inr (sman', c') \<Rightarrow>
          process_loop l a grid_type z_rho z_theta huv ht rest (store[i := c']) sman')"

text \<open>
  The scan of lines 270-282: the position of the last cube of section 30 with the given
  item, if there is one.
\<close>

definition heaviside_index :: "nat \<Rightarrow> cube list \<Rightarrow> nat option" where
  "heaviside_index item cubes =
     (case filter (\<lambda>i. stash_section (cubes ! i) = 30 \<and> stash_item (cubes ! i) = item)
             [0..<length cubes] of
        [] \<Rightarrow> None
      | i # rest \<Rightarrow> Some (last (i # rest)))"

text \<open>
  The outcome of \<open>process\<close>: the exception that leaves it (none when it returns), the
  exception whose traceback the handler printed (none when the handler did not run), the
  files that exist afterwards, and what the saver received when the conversion went
  through.
\<close>

record outcome =
  raised :: "exc option"
  traceback :: "exc option"
  files :: "string list"
  saved :: "saver option"

text \<open>
  The handler of line 370: an exception that derives from \<open>Exception\<close> is caught, the
  output file is removed if it is there, the traceback is printed and \<open>process\<close> returns;
  \<open>SystemExit\<close> passes.
\<close>

definition on_error :: "exc \<Rightarrow> string list \<Rightarrow> string \<Rightarrow> outcome" where
  "on_error e fs outfile =
     (if is_Exception e
      then \<lparr>raised = None, traceback = Some e, files = filter (\<lambda>f. f \<noteq> outfile) fs,
            saved = None\<rparr>
      else \<lparr>raised = Some e, traceback = None, files = fs, saved = None\<rparr>)"

text \<open>
  The body of the \<open>with\<close> statement, from the opened saver on: the global attributes and
  the loop over the sorted cubes.  \<open>now\<close> is the time stamp of the history attribute.
\<close>

definition write_fields ::
  "lib \<Rightarrow> args \<Rightarrow> string \<Rightarrow> string \<Rightarrow> string \<Rightarrow> real list \<Rightarrow> real list \<Rightarrow> cube list
     \<Rightarrow> saver \<Rightarrow> exc + saver" where
  "write_fields l a infile now grid_type z_rho z_theta cubes sman =
     (let sman1 = (if \<not> arg_nohist a
                   then update_global_attributes sman ''history''
                          (''File '' @ infile @ '' converted with um2netcdf_iris.py v2.1 at ''
                           @ now)
                   else sman);
          sman2 = update_global_attributes sman1 ''Conventions'' ''CF-1.6''
      in process_loop l a grid_type z_rho z_theta
           (heaviside_index 301 cubes) (heaviside_index 304 cubes)
           [0..<length cubes] cubes sman2)"

text \<open>
  \<open>process\<close>.  \<open>ff\<close> is what \<open>read_fieldsfile(infile)\<close> gives and \<open>loaded\<close> what
  \<open>iris.load(infile)\<close> gives, either of them an exception or a value; \<open>fs\<close> is the list of
  the files that exist.
\<close>

definition process ::
  "lib \<Rightarrow> args \<Rightarrow> string list \<Rightarrow> string \<Rightarrow> string \<Rightarrow> string \<Rightarrow> exc + header
     \<Rightarrow> exc + cube list \<Rightarrow> outcome" where
  "process l a fs infile outfile now ff loaded =
     (case ff of
        Inl e \<Rightarrow> \<lparr>raised = Some e, traceback = None, files = fs, saved = None\<rparr>
      | Inr hdr \<Rightarrow>
          if grid_staggering hdr \<noteq> 6 \<and> grid_staggering hdr \<noteq> 3
          then \<lparr>raised = Some (QValueError ''Unable to determine grid staggering from header.''),
                traceback = None, files = fs, saved = None\<rparr>
          else
            (let grid_type = (if grid_staggering hdr = 6 then ''EG'' else ''ND'');
                 z_rho = (case zsea_at_rho hdr of None \<Rightarrow> [0] | Some zs \<Rightarrow> zs);
                 z_theta = (case zsea_at_theta hdr of None \<Rightarrow> [0] | Some zs \<Rightarrow> zs)
             in case loaded of
                  Inl e \<Rightarrow>
                    \<lparr>raised = Some (if e = CannotAddError
                                    then SystemExit ''File can not be processed. UM files with time series currently not supported.''
                                    else e),
                      traceback = None, files = fs, saved = None\<rparr>
                | Inr cubes \<Rightarrow>
                    (case get_nc_format (arg_format a) of
                       Inl e \<Rightarrow> on_error e fs outfile
                     | Inr fmt \<Rightarrow>
                         (case open_saver fmt of
                            Inl e \<Rightarrow> on_error e fs outfile
                          | Inr sman \<Rightarrow>
                              (case write_fields l a infile now grid_type z_rho z_theta
                                      (sort_key (\<lambda>c. (stash_model c, stash_section c,
                                                       stash_item c)) cubes)
                                      sman of
                                 Inl e \<Rightarrow> on_error e (List.insert outfile fs) outfile
                               | Inr sman' \<Rightarrow>
                                   \<lparr>raised = None, traceback = None,
                                     files = List.insert outfile fs,
                                     saved = Some sman'\<rparr>)))))"

text \<open>
  The script: the paths, the check that the input exists, and \<open>process\<close>.  The exit
  status of the interpreter is 0 when the script runs to its end and 1 when an exception
  leaves it.
\<close>

definition um2nc_main ::
  "lib \<Rightarrow> args \<Rightarrow> string list \<Rightarrow> string option \<Rightarrow> string option \<Rightarrow> string option
     \<Rightarrow> string option \<Rightarrow> string \<Rightarrow> exc + header \<Rightarrow> exc + cube list \<Rightarrow> nat \<times> string list" where
  "um2nc_main l a fs infile infile_pos outfile outfile_pos now ff loaded =
     (case um2nc_paths infile infile_pos outfile outfile_pos of
        Inl e \<Rightarrow> (1, fs)
      | Inr (inp, out) \<Rightarrow>
          if inp \<notin> set fs then (1, fs)
          else (let r = process l a fs inp out now ff loaded
                in (if raised r = None then 0 else 1, files r)))"

section \<open>Example fields\<close>

text \<open>
  A field of section 30, item 201 on two pressure levels and three columns, with a
  maximum and a minimum cell method, and a STASH entry without a unique name.
\<close>

definition cm_max :: cell_method where
  "cm_max = \<lparr>cm_method = ''maximum'', coord_names = [''time''],
             intervals = [''1 hour''], comments = []\<rparr>"

definition cm_min :: cell_method where
  "cm_min = \<lparr>cm_method = ''minimum'', coord_names = [''time''],
             intervals = [], comments = []\<rparr>"

definition ex_cube :: cube where
  "ex_cube = \<lparr>stash_model = 1, stash_section = 30, stash_item = 201, var_name = None,
               standard_name = None, long_name = None, units = ''m s-1'',
               cell_methods = [cm_max, cm_min], coords = [],
               shape = [2, 3], data = (\<lambda>idx. (Fin 1, False)), is_ma = False,
               dtype = float64, missing_value = None\<rparr>"

definition sv_unnamed :: stash_var where
  "sv_unnamed = \<lparr>uniquename = None, sv_standard_name = None, sv_long_name = None,
                  sv_units = ''m s-1''\<rparr>"

text \<open>
  A single-column field: one latitude, two longitudes, neither with bounds; and a bounds
  guess that puts a cell of width one around every point.
\<close>

definition ex_lat :: coord where
  "ex_lat = \<lparr>coord_name = ''latitude'', coord_var_name = None, points = [- 35],
             points_dtype = float32, bounds = None, coord_units = ''degrees'',
             calendar = [], positive = None, coord_dims = [0], dim_coord = True\<rparr>"

definition ex_lon :: coord where
  "ex_lon = \<lparr>coord_name = ''longitude'', coord_var_name = None, points = [10, 20],
             points_dtype = float32, bounds = None, coord_units = ''degrees'',
             calendar = [], positive = None, coord_dims = [1], dim_coord = True\<rparr>"

definition ex_column :: cube where
  "ex_column = ex_cube\<lparr>coords := [ex_lat, ex_lon], shape := [1, 2]\<rparr>"

text \<open>The same field with the single latitude -90 and the single longitude 0.\<close>

definition ex_pole :: cube where
  "ex_pole = ex_column\<lparr>coords := [ex_lat\<lparr>points := [- 90]\<rparr>, ex_lon\<lparr>points := [0]\<rparr>],
                        shape := [1, 1]\<rparr>"

definition ex_guess :: "real list \<Rightarrow> (real \<times> real) list" where
  "ex_guess pts = map (\<lambda>p. (p - 1 / 2, p + 1 / 2)) pts"

text \<open>
  A heaviside field of the shape of \<open>ex_cube\<close>: zero in its first element, two elsewhere.
\<close>

definition ex_heaviside :: cube where
  "ex_heaviside = ex_cube\<lparr>stash_item := 301, cell_methods := [],
     data := (\<lambda>idx. if idx = [0, 0] then (Fin 0, False) else (Fin 2, False))\<rparr>"

text \<open>
  A field of the same shape that is a masked array with a missing element, whose value
  under the mask is \<open>10^20\<close>; a field of the value \<open>10^39\<close>, beyond the range of single
  precision; and, for the examples, a cast to single precision that keeps a number in the
  range of single precision as it is and gives an infinity beyond.
\<close>

definition ex_masked_cube :: cube where
  "ex_masked_cube = ex_cube\<lparr>is_ma := True,
     data := (\<lambda>idx. if idx = [0, 1] then (Fin (10 ^ 20), True) else (Fin 1, False))\<rparr>"

definition ex_big :: cube where
  "ex_big = ex_cube\<lparr>data := (\<lambda>idx. (Fin (10 ^ 39), False))\<rparr>"

definition ex_narrow :: "real \<Rightarrow> fl" where
  "ex_narrow x = (if \<bar>x\<bar> < 2 ^ 128 then Fin x else if 0 < x then PInf else NInf)"

text \<open>
  The example of the specification: a mask on the levels 1000, 850, 500 and 250 whose
  value is the number of its level (0 to 3), a target on the levels 850 and 500, and a
  target on the levels 850 and 300.
\<close>

definition ex_plev :: "real list \<Rightarrow> coord" where
  "ex_plev pts = \<lparr>coord_name = ''pressure'', coord_var_name = None, points = pts,
             points_dtype = float64, bounds = None, coord_units = ''hPa'',
             calendar = [], positive = None, coord_dims = [0], dim_coord = True\<rparr>"

definition ex_mask4 :: cube where
  "ex_mask4 = ex_heaviside\<lparr>coords := [ex_plev [1000, 850, 500, 250]], shape := [4, 3],
     data := (\<lambda>idx. (Fin (real (hd idx)), False))\<rparr>"

definition ex_target :: cube where
  "ex_target = ex_cube\<lparr>coords := [ex_plev [850, 500]], shape := [2, 3]\<rparr>"

definition ex_target_300 :: cube where
  "ex_target_300 = ex_cube\<lparr>coords := [ex_plev [850, 300]], shape := [2, 3]\<rparr>"

definition ex_target_rev :: cube where
  "ex_target_rev = ex_cube\<lparr>coords := [ex_plev [500, 850]], shape := [2, 3]\<rparr>"

text \<open>
  A target of the shape (2, 2, 3) on the levels 850 and 500 with a mask of the shape
  (4, 1, 3), which broadcasts along the second dimension and whose value is ten times the
  number of the level plus the position along the last dimension; a target on the single
  level 500, whose pressure coordinate is scalar; a target and a mask with the pressure
  along the second dimension, the target on the single level 500; and a mask of another
  width than the target.
\<close>

definition ex_target3 :: cube where
  "ex_target3 = ex_target\<lparr>shape := [2, 2, 3]\<rparr>"

definition ex_mask_row :: cube where
  "ex_mask_row = ex_mask4\<lparr>shape := [4, 1, 3],
     data := (\<lambda>idx. (Fin (real (hd idx) * 10 + real (idx ! 2)), False))\<rparr>"

definition ex_target_single :: cube where
  "ex_target_single = ex_cube\<lparr>coords := [(ex_plev [500])\<lparr>coord_dims := []\<rparr>], shape := [3]\<rparr>"

definition ex_target_213 :: cube where
  "ex_target_213 = ex_cube\<lparr>coords := [(ex_plev [500])\<lparr>coord_dims := [1]\<rparr>],
                            shape := [2, 1, 3]\<rparr>"

definition ex_mask_243 :: cube where
  "ex_mask_243 = ex_heaviside\<lparr>coords := [(ex_plev [1000, 850, 500, 250])\<lparr>coord_dims := [1]\<rparr>],
                               shape := [2, 4, 3]\<rparr>"

definition ex_mask_wide :: cube where
  "ex_mask_wide = ex_mask4\<lparr>shape := [4, 4]\<rparr>"

text \<open>
  A field on the pressure levels 250, 500 and 850 hPa (increasing), whose value is the
  number of its level, the conversion of hPa and Pa to Pa, and a rounding to five decimals
  for the examples: to the nearest multiple of \<open>10^-5\<close>, a tie to the even one, on exact
  numbers.
\<close>

definition ex_to_pa :: "string \<Rightarrow> (real \<Rightarrow> real) option" where
  "ex_to_pa u = (if u = ''hPa'' then Some (\<lambda>x. x * 100)
                 else if u = ''Pa'' then Some (\<lambda>x. x) else None)"

definition rint :: "real \<Rightarrow> int" where
  "rint x =
     (let f = \<lfloor>x\<rfloor>; r = x - of_int f
      in if r < 1 / 2 then f else if 1 / 2 < r then f + 1
         else if even f then f else f + 1)"

definition ex_round5 :: "real \<Rightarrow> real" where
  "ex_round5 x = of_int (rint (x * 100000)) / 100000"




text \<open>
  A field with a time coordinate with bounds, a forecast reference time and a forecast
  period; and, for the examples, a calendar of twelve months of thirty days: a number of
  hours since 1970-01-01 is decoded to its date, and a date is encoded as its number of
  days since 0001-01-01.
\<close>

definition ex_time :: "string \<Rightarrow> coord" where
  "ex_time cal = \<lparr>coord_name = ''time'', coord_var_name = None, points = [24, 48],
             points_dtype = float64, bounds = Some [(0, 24), (24, 48)],
             coord_units = ''hours since 1970-01-01 00:00:00'',
             calendar = cal, positive = None, coord_dims = [0], dim_coord = True\<rparr>"

definition ex_reftime :: "real \<Rightarrow> coord" where
  "ex_reftime p = \<lparr>coord_name = ''forecast_reference_time'', coord_var_name = None,
             points = [p], points_dtype = float64, bounds = None,
             coord_units = ''hours since 1970-01-01 00:00:00'',
             calendar = ''gregorian'', positive = None, coord_dims = [],
             dim_coord = False\<rparr>"

definition ex_period :: coord where
  "ex_period = \<lparr>coord_name = ''forecast_period'', coord_var_name = None,
             points = [0], points_dtype = float64, bounds = None,
             coord_units = ''hours'', calendar = [], positive = None, coord_dims = [],
             dim_coord = False\<rparr>"

definition ex_time_field :: "string \<Rightarrow> real \<Rightarrow> cube" where
  "ex_time_field cal p = ex_cube\<lparr>coords := [ex_time cal, ex_reftime p, ex_period]\<rparr>"

definition ex_n2d :: num2date where
  "ex_n2d u cal v =
     (let h = \<lfloor>v\<rfloor>; days = h div 24
      in \<lparr>year = 1970 + days div 360, month = nat ((days mod 360) div 30) + 1,
          day = nat (days mod 30) + 1, hour = nat (h mod 24), minute = 0, second = 0,
          microsecond = 0\<rparr>)"

definition ex_d2n :: date2num where
  "ex_d2n u cal d =
     of_int ((year d - 1) * 360) + real ((month d - 1) * 30 + (day d - 1))
     + real (hour d) / 24 + real (minute d) / 1440 + real (second d) / 86400"

text \<open>
  A field with the dimensions (level, time, latitude, longitude), whose value at an index
  is its position along the time dimension; and its time coordinate.
\<close>

definition ex_dim_coord :: "string \<Rightarrow> nat list \<Rightarrow> coord" where
  "ex_dim_coord nm dims = \<lparr>coord_name = nm, coord_var_name = None, points = [0, 1],
             points_dtype = float64, bounds = None, coord_units = ''1'',
             calendar = [], positive = None, coord_dims = dims, dim_coord = True\<rparr>"

definition ex_4d :: cube where
  "ex_4d = ex_cube\<lparr>coords := [ex_dim_coord ''level'' [0], ex_dim_coord ''time'' [1],
                              ex_dim_coord ''latitude'' [2], ex_dim_coord ''longitude'' [3]],
                    shape := [5, 2, 3, 4],
                    data := (\<lambda>idx. (Fin (real (idx ! 1)), False))\<rparr>"

definition ex_scalar_time :: cube where
  "ex_scalar_time = ex_cube\<lparr>coords := [ex_dim_coord ''time'' [],
                                       ex_dim_coord ''latitude'' [0]],
                    shape := [3],
                    data := (\<lambda>idx. (Fin (real (hd idx)), False))\<rparr>"

text \<open>
  A run of the script: the libraries of the examples, the default arguments, an ND grid,
  and a file with a wind field of section 30 on the levels 850 and 300 and the heaviside
  field on the levels 1000, 850, 500 and 250, both on a grid of two latitudes and two
  longitudes; and a file whose only field has no latitude.
\<close>

definition ex_lib :: lib where
  "ex_lib = \<lparr>lib_guess = ex_guess, lib_rnd = Fin, lib_narrow = Fin, lib_to_pa = ex_to_pa,
              lib_round5 = ex_round5, lib_fillvals = (\<lambda>key. None), lib_n2d = ex_n2d,
              lib_d2n = ex_d2n, lib_stashvar = (\<lambda>itemcode. sv_unnamed)\<rparr>"

definition ex_args :: args where
  "ex_args = \<lparr>arg_format = FormatName ''NETCDF4'', arg_compression = 4,
               arg_use64bit = False, arg_include_list = None, arg_exclude_list = None,
               arg_nomask = False, arg_nohist = False, arg_simple = False,
               arg_hcrit = 1 / 2\<rparr>"

definition ex_header :: header where
  "ex_header = \<lparr>grid_staggering = 3, zsea_at_rho = None, zsea_at_theta = None\<rparr>"

definition ex_axis :: "string \<Rightarrow> real list \<Rightarrow> nat \<Rightarrow> coord" where
  "ex_axis nm pts d = \<lparr>coord_name = nm, coord_var_name = None, points = pts,
             points_dtype = float32, bounds = None, coord_units = ''degrees'',
             calendar = [], positive = None, coord_dims = [d], dim_coord = True\<rparr>"

definition ex_wind :: cube where
  "ex_wind = ex_cube\<lparr>coords := [ex_plev [850, 300], ex_axis ''latitude'' [- 45, 45] 1,
                                ex_axis ''longitude'' [0, 180] 2],
                      shape := [2, 2, 2]\<rparr>"

definition ex_wind_mask :: cube where
  "ex_wind_mask = ex_heaviside\<lparr>coords := [ex_plev [1000, 850, 500, 250],
                                           ex_axis ''latitude'' [- 45, 45] 1,
                                           ex_axis ''longitude'' [0, 180] 2],
                                shape := [4, 2, 2]\<rparr>"

section \<open>Coordinates of a cube\<close>

lemma filter_put_coord_same:
  "filter (\<lambda>k'. coord_name k' = coord_name k)
     (map (\<lambda>k'. if coord_name k' = coord_name k then k else k') xs) =
   map (\<lambda>_. k) (filter (\<lambda>k'. coord_name k' = coord_name k) xs)"
  by (induction xs) simp_all

lemma filter_put_coord_other:
  "nm \<noteq> coord_name k \<Longrightarrow>
   filter (\<lambda>k'. coord_name k' = nm)
     (map (\<lambda>k'. if coord_name k' = coord_name k then k else k') xs) =
   filter (\<lambda>k'. coord_name k' = nm) xs"
  by (induction xs) simp_all

lemma cube_coord_name: "cube_coord c nm = Inr k \<Longrightarrow> coord_name k = nm"
proof -
  assume a: "cube_coord c nm = Inr k"
  then have "filter (\<lambda>k. coord_name k = nm) (coords c) = [k]"
    by (auto simp: cube_coord_def split: list.splits)
  then have "k \<in> set (filter (\<lambda>k. coord_name k = nm) (coords c))" by simp
  then show ?thesis by simp
qed

lemma cube_coord_put_same:
  assumes "cube_coord c nm = Inr k0" and "coord_name k = nm"
  shows "cube_coord (put_coord c k) nm = Inr k"
proof -
  from assms(1) have "filter (\<lambda>k. coord_name k = nm) (coords c) = [k0]"
    by (auto simp: cube_coord_def split: list.splits)
  with assms(2) show ?thesis
    using filter_put_coord_same [of k "coords c"]
    by (simp add: cube_coord_def put_coord_def)
qed

lemma cube_coord_put_other:
  "nm \<noteq> coord_name k \<Longrightarrow> cube_coord (put_coord c k) nm = cube_coord c nm"
  by (simp add: cube_coord_def put_coord_def filter_put_coord_other)

lemma cube_coord_map:
  assumes "\<And>k. coord_name (f k) = coord_name k"
  shows "cube_coord (c\<lparr>coords := map f (coords c)\<rparr>) nm = map_sum id f (cube_coord c nm)"
proof -
  have "filter (\<lambda>k. coord_name k = nm) (map f xs) = map f (filter (\<lambda>k. coord_name k = nm) xs)" for xs
    by (induction xs) (simp_all add: assms)
  then show ?thesis
    by (simp add: cube_coord_def split: list.splits)
qed

lemma cube_coord_filter_other:
  "nm' \<noteq> nm \<Longrightarrow>
   cube_coord (c\<lparr>coords := filter (\<lambda>k. coord_name k \<noteq> nm) (coords c)\<rparr>) nm' = cube_coord c nm'"
proof -
  assume ne: "nm' \<noteq> nm"
  have "filter (\<lambda>k. coord_name k = nm') (filter (\<lambda>k. coord_name k \<noteq> nm) xs)
        = filter (\<lambda>k. coord_name k = nm') xs" for xs :: "coord list"
    using ne by (induction xs) auto
  then show ?thesis by (simp add: cube_coord_def)
qed

lemma remove_coord_keeps:
  assumes "remove_coord c nm = Inr c'" and "nm' \<noteq> nm"
  shows "cube_coord c' nm' = cube_coord c nm'"
  using assms cube_coord_filter_other [of nm' nm c]
  by (auto simp: remove_coord_def split: sum.splits)

section \<open>Properties of the cell-method clean-up\<close>

lemma find_from_lower: "find_from sub s k = - 1 \<or> int k \<le> find_from sub s k"
  by (induction s arbitrary: k) (auto, force)

lemma find_from_absent: "find_from sub s k = - 1 \<longleftrightarrow> \<not> sublist sub s"
proof (induction s arbitrary: k)
  case Nil
  show ?case by simp
next
  case (Cons c cs)
  show ?case
    using Cons.IH [of "Suc k"] by (simp add: sublist_Cons_right)
qed

lemma py_find_absent: "py_find s sub = - 1 \<longleftrightarrow> \<not> sublist sub s"
  by (simp add: py_find_def find_from_absent)

lemma skip_hour_intervals_filter:
  "skip_hour_intervals xs newi = newi @ filter (\<lambda>i. \<not> sublist ''hour'' i) xs"
  by (induction xs arbitrary: newi) (simp_all add: py_find_absent)

lemma fix_cell_methods_loop_map:
  "fix_cell_methods_loop ms newm =
     newm @ map (\<lambda>m. m\<lparr>intervals := filter (\<lambda>i. \<not> sublist ''hour'' i) (intervals m)\<rparr>) ms"
  by (induction ms arbitrary: newm) (simp_all add: skip_hour_intervals_filter)

text \<open>
  C5.  Sanitising a sequence of cell methods returns a sequence of the same length, in the
  same order, in which every cell method keeps its operator, coordinate names and comments
  and keeps, in their order, exactly the interval descriptors that do not contain the
  substring \<open>hour\<close>; sanitising a second time changes nothing.  The function is total: it
  has no failure path.
\<close>

theorem fix_cell_methods_spec:
  "fix_cell_methods ms =
     map (\<lambda>m. m\<lparr>intervals := filter (\<lambda>i. \<not> sublist ''hour'' i) (intervals m)\<rparr>) ms
   \<and> fix_cell_methods (fix_cell_methods ms) = fix_cell_methods ms"
  by (simp add: fix_cell_methods_def fix_cell_methods_loop_map o_def)

section \<open>Properties of the variable names\<close>

lemma truthy_the: "truthy x \<Longrightarrow> x = Some (the x)"
  by (cases x) simp_all

lemma list_ex_op: "list_ex (\<lambda>m. cm_method m = s) ms \<longleftrightarrow> s \<in> set (map cm_method ms)"
  by (auto simp: list_ex_iff)

lemma set_var_name_cases:
  "var_name (set_var_name simple umvar c) =
     (let base = (if simple then Some (simple_name (stash_section c) (stash_item c))
                  else if truthy (uniquename umvar) then uniquename umvar
                  else var_name c)
      in if truthy base
         then Some (the base @ name_suffix (map cm_method (cell_methods c)))
         else base)"
  unfolding set_var_name_def Let_def list_ex_op name_suffix_def simple_name_def
  by (simp add: truthy_the [symmetric])

lemma simple_name_nonempty: "simple_name a b \<noteq> []"
  by (simp add: simple_name_def)

lemma length_dec_2: "n < 100 \<Longrightarrow> length (dec n) \<le> 2"
  by (subst dec.simps, subst dec.simps) auto

lemma length_dec_3: "n < 1000 \<Longrightarrow> length (dec n) \<le> 3"
  by (subst dec.simps, subst dec.simps, subst dec.simps) auto

lemma length_simple_name:
  assumes "sec < 100" and "item < 1000"
  shows "length (simple_name sec item) = 11"
  using length_dec_2 [OF assms(1)] length_dec_3 [OF assms(2)]
  by (simp add: simple_name_def fmt_d_def)

lemma simple_name_30_201: "simple_name 30 201 = ''fld_s30i201''"
  by (simp add: simple_name_def fmt_d_def dec.simps)

text \<open>
  C6, as the code has it.  In simple-naming mode the name is \<open>fld_sSSiIII\<close> (eleven
  characters for a section below 100 and an item below 1000) followed by the name_suffix;
  otherwise, when the STASH entry has a non-empty unique name, it is that name followed by
  the name_suffix; otherwise the field keeps the variable name it came with, followed by the
  name_suffix when that name is non-empty and left as it is (no suffix) when the field has
  no name.  The name_suffix are \<open>_max\<close> when some cell method is a maximum and then \<open>_min\<close>
  when some cell method is a minimum, independently.  The name depends on nothing but the
  section and item, the simple-naming flag, the operators of the cell methods, the unique
  name of the STASH entry and the name the field came with.
\<close>

theorem set_var_name_spec:
  "(simple \<longrightarrow>
      var_name (set_var_name simple umvar c) =
        Some (simple_name (stash_section c) (stash_item c)
              @ name_suffix (map cm_method (cell_methods c))))
   \<and> (stash_section c < 100 \<and> stash_item c < 1000 \<longrightarrow>
        length (simple_name (stash_section c) (stash_item c)) = 11)
   \<and> (\<not> simple \<and> truthy (uniquename umvar) \<longrightarrow>
        var_name (set_var_name simple umvar c) =
          Some (the (uniquename umvar) @ name_suffix (map cm_method (cell_methods c))))
   \<and> (\<not> simple \<and> \<not> truthy (uniquename umvar) \<and> truthy (var_name c) \<longrightarrow>
        var_name (set_var_name simple umvar c) =
          Some (the (var_name c) @ name_suffix (map cm_method (cell_methods c))))
   \<and> (\<not> simple \<and> \<not> truthy (uniquename umvar) \<and> \<not> truthy (var_name c) \<longrightarrow>
        var_name (set_var_name simple umvar c) = var_name c)
   \<and> (\<forall>umvar' c'.
         stash_section c' = stash_section c \<and> stash_item c' = stash_item c
         \<and> map cm_method (cell_methods c') = map cm_method (cell_methods c)
         \<and> uniquename umvar' = uniquename umvar \<and> var_name c' = var_name c \<longrightarrow>
         var_name (set_var_name simple umvar' c') = var_name (set_var_name simple umvar c))"
proof -
  have simple_len: "stash_section c < 100 \<and> stash_item c < 1000 \<longrightarrow>
      length (simple_name (stash_section c) (stash_item c)) = 11"
    by (simp add: length_simple_name)
  have same: "\<forall>umvar' c'.
         stash_section c' = stash_section c \<and> stash_item c' = stash_item c
         \<and> map cm_method (cell_methods c') = map cm_method (cell_methods c)
         \<and> uniquename umvar' = uniquename umvar \<and> var_name c' = var_name c \<longrightarrow>
         var_name (set_var_name simple umvar' c') = var_name (set_var_name simple umvar c)"
    by (intro allI impI, elim conjE) (simp only: set_var_name_cases)
  have cases: "(simple \<longrightarrow>
      var_name (set_var_name simple umvar c) =
        Some (simple_name (stash_section c) (stash_item c)
              @ name_suffix (map cm_method (cell_methods c))))
   \<and> (\<not> simple \<and> truthy (uniquename umvar) \<longrightarrow>
        var_name (set_var_name simple umvar c) =
          Some (the (uniquename umvar) @ name_suffix (map cm_method (cell_methods c))))
   \<and> (\<not> simple \<and> \<not> truthy (uniquename umvar) \<and> truthy (var_name c) \<longrightarrow>
        var_name (set_var_name simple umvar c) =
          Some (the (var_name c) @ name_suffix (map cm_method (cell_methods c))))
   \<and> (\<not> simple \<and> \<not> truthy (uniquename umvar) \<and> \<not> truthy (var_name c) \<longrightarrow>
        var_name (set_var_name simple umvar c) = var_name c)"
    by (simp add: set_var_name_cases Let_def simple_name_nonempty)
  from simple_len same cases show ?thesis by blast
qed

theorem set_var_name_spec_witness:
  "var_name (set_var_name True sv_unnamed ex_cube) = Some ''fld_s30i201_max_min''
   \<and> length (simple_name 30 201) = 11
   \<and> var_name (set_var_name False (sv_unnamed\<lparr>uniquename := Some ''ua_plev''\<rparr>) ex_cube)
       = Some ''ua_plev_max_min''
   \<and> var_name (set_var_name False sv_unnamed (ex_cube\<lparr>var_name := Some ''u''\<rparr>))
       = Some ''u_max_min''
   \<and> var_name (set_var_name False sv_unnamed ex_cube) = None"
proof -
  have ops: "map cm_method (cell_methods ex_cube) = [''maximum'', ''minimum'']"
    and sec: "stash_section ex_cube = 30" and item: "stash_item ex_cube = 201"
    and nm: "var_name ex_cube = None" and uq: "uniquename sv_unnamed = None"
    by (simp_all add: ex_cube_def cm_max_def cm_min_def sv_unnamed_def)
  have sfx: "name_suffix [''maximum'', ''minimum''] = ''_max_min''"
    by (simp add: name_suffix_def)
  note a = set_var_name_spec [of True sv_unnamed ex_cube]
  note b = set_var_name_spec [of False "sv_unnamed\<lparr>uniquename := Some ''ua_plev''\<rparr>" ex_cube]
  note c = set_var_name_spec [of False sv_unnamed "ex_cube\<lparr>var_name := Some ''u''\<rparr>"]
  from a have 1: "var_name (set_var_name True sv_unnamed ex_cube) = Some ''fld_s30i201_max_min''"
    and 2: "length (simple_name 30 201) = 11"
    by (simp_all add: ops sec item sfx simple_name_30_201)
  from b have 3: "var_name (set_var_name False (sv_unnamed\<lparr>uniquename := Some ''ua_plev''\<rparr>) ex_cube)
       = Some ''ua_plev_max_min''"
    by (simp add: ops sfx)
  from c have 4: "var_name (set_var_name False sv_unnamed (ex_cube\<lparr>var_name := Some ''u''\<rparr>))
       = Some ''u_max_min''"
    by (simp add: ops sfx uq ex_cube_def cm_max_def cm_min_def)
  from a have 5: "var_name (set_var_name False sv_unnamed ex_cube) = None"
    using set_var_name_spec [of False sv_unnamed ex_cube] by (simp add: uq nm)
  from 1 2 3 4 5 show ?thesis by simp
qed

text \<open>
  The claim as written fails on a field that comes without a name and whose STASH entry
  has no unique name: it has a maximum cell method and gets no \<open>_max\<close> (it stays without
  a name); and two fields that agree on item code, naming flag, cell methods and STASH
  metadata get different names when they came with different names.
\<close>

theorem set_var_name_counterexample:
  "var_name (set_var_name False sv_unnamed ex_cube) = None
   \<and> list_ex (\<lambda>m. cm_method m = ''maximum'') (cell_methods ex_cube)
   \<and> var_name (set_var_name False sv_unnamed (ex_cube\<lparr>var_name := Some ''a''\<rparr>))
       \<noteq> var_name (set_var_name False sv_unnamed (ex_cube\<lparr>var_name := Some ''b''\<rparr>))"
  by (simp add: set_var_name_def ex_cube_def sv_unnamed_def cm_max_def cm_min_def)

section \<open>Properties of the latitude and longitude repair\<close>

lemma add_coord_bounds_name [simp]: "coord_name (add_coord_bounds guess k) = coord_name k"
  by (simp add: add_coord_bounds_def)

lemma latlon_bounds_result:
  assumes lat: "cube_coord c ''latitude'' = Inr lat"
      and lon: "cube_coord c ''longitude'' = Inr lon"
  shows "\<exists>c'. latlon_bounds guess c = Inr c'
           \<and> cube_coord c' ''latitude'' = Inr (add_coord_bounds guess (lat\<lparr>points_dtype := float64\<rparr>))
           \<and> cube_coord c' ''longitude'' = Inr (add_coord_bounds guess (lon\<lparr>points_dtype := float64\<rparr>))"
proof -
  let ?lat' = "add_coord_bounds guess (lat\<lparr>points_dtype := float64\<rparr>)"
  let ?lon' = "add_coord_bounds guess (lon\<lparr>points_dtype := float64\<rparr>)"
  let ?c1 = "put_coord c ?lat'"
  have nlat: "coord_name ?lat' = ''latitude''" using cube_coord_name [OF lat] by simp
  have nlon: "coord_name ?lon' = ''longitude''" using cube_coord_name [OF lon] by simp
  have 1: "cube_coord ?c1 ''latitude'' = Inr ?lat'"
    by (rule cube_coord_put_same [OF lat nlat])
  have 2: "cube_coord ?c1 ''longitude'' = Inr lon"
    using cube_coord_put_other [of "''longitude''" ?lat' c] nlat lon by simp
  have 3: "cube_coord (put_coord ?c1 ?lon') ''longitude'' = Inr ?lon'"
    by (rule cube_coord_put_same [OF 2 nlon])
  have 4: "cube_coord (put_coord ?c1 ?lon') ''latitude'' = Inr ?lat'"
    using cube_coord_put_other [of "''latitude''" ?lon' ?c1] nlon 1 by simp
  have "latlon_bounds guess c = Inr (put_coord ?c1 ?lon')"
    by (simp add: latlon_bounds_def lat 2 Let_def)
  with 3 4 show ?thesis by simp
qed

lemma latlon_names_result:
  assumes "latlon_names c grid_type = Inr c''"
      and lat: "cube_coord c ''latitude'' = Inr lat"
      and lon: "cube_coord c ''longitude'' = Inr lon"
  shows "\<exists>v w. cube_coord c'' ''latitude'' = Inr (lat\<lparr>coord_var_name := Some v\<rparr>)
             \<and> cube_coord c'' ''longitude'' = Inr (lon\<lparr>coord_var_name := Some w\<rparr>)"
proof -
  from assms(1) lat obtain v where v: "lat_var_name (points lat) grid_type = Inr v"
    by (auto simp: latlon_names_def split: sum.splits)
  let ?lat' = "lat\<lparr>coord_var_name := Some v\<rparr>"
  let ?c1 = "put_coord c ?lat'"
  have nlat: "coord_name ?lat' = ''latitude''" using cube_coord_name [OF lat] by simp
  have 1: "cube_coord ?c1 ''latitude'' = Inr ?lat'"
    by (rule cube_coord_put_same [OF lat nlat])
  have 2: "cube_coord ?c1 ''longitude'' = Inr lon"
    using cube_coord_put_other [of "''longitude''" ?lat' c] nlat lon by simp
  from assms(1) lat v 2 obtain w where w: "lon_var_name (points lon) grid_type = Inr w"
    and c'': "c'' = put_coord ?c1 (lon\<lparr>coord_var_name := Some w\<rparr>)"
    by (auto simp: latlon_names_def Let_def split: sum.splits)
  let ?lon' = "lon\<lparr>coord_var_name := Some w\<rparr>"
  have nlon: "coord_name ?lon' = ''longitude''" using cube_coord_name [OF lon] by simp
  have 3: "cube_coord (put_coord ?c1 ?lon') ''longitude'' = Inr ?lon'"
    by (rule cube_coord_put_same [OF 2 nlon])
  have 4: "cube_coord (put_coord ?c1 ?lon') ''latitude'' = Inr ?lat'"
    using cube_coord_put_other [of "''latitude''" ?lon' ?c1] nlon 1 by simp
  from 3 4 c'' show ?thesis by blast
qed

lemma add_coord_bounds_lat:
  assumes "coord_name k = ''latitude''"
  shows "points (add_coord_bounds guess k) = points k
       \<and> points_dtype (add_coord_bounds guess k) = points_dtype k
       \<and> (length (points k) > 1 \<and> bounds k = None \<longrightarrow>
            bounds (add_coord_bounds guess k) = Some (guess (points k)))
       \<and> (length (points k) = 1 \<and> bounds k = None \<longrightarrow>
            bounds (add_coord_bounds guess k) = Some [(- 90, 90)])
       \<and> (bounds k \<noteq> None \<longrightarrow> bounds (add_coord_bounds guess k) = bounds k)"
  using assms by (simp add: add_coord_bounds_def)

lemma add_coord_bounds_lon:
  assumes "coord_name k = ''longitude''"
  shows "points (add_coord_bounds guess k) = points k
       \<and> points_dtype (add_coord_bounds guess k) = points_dtype k
       \<and> (length (points k) > 1 \<and> bounds k = None \<longrightarrow>
            bounds (add_coord_bounds guess k) = Some (guess (points k)))
       \<and> (length (points k) = 1 \<and> bounds k = None \<longrightarrow>
            bounds (add_coord_bounds guess k) = Some [(0, 360)])
       \<and> (bounds k \<noteq> None \<longrightarrow> bounds (add_coord_bounds guess k) = bounds k)"
  using assms by (simp add: add_coord_bounds_def)

lemma add_coord_bounds_points [simp]: "points (add_coord_bounds guess k) = points k"
  by (simp add: add_coord_bounds_def)

text \<open>
  What lines 62-68 do on a field that has a latitude and a longitude: they do not fail,
  both coordinates keep their points, now of dtype \<open>float64\<close>; a coordinate that had no
  bounds and more than one point has the bounds guessed from its points, one that had no
  bounds and exactly one point has the bounds \<open>[-90, 90]\<close> (latitude) or \<open>[0, 360]\<close>
  (longitude), and one that had bounds keeps them.
\<close>

lemma latlon_bounds_set:
  assumes lat: "cube_coord c ''latitude'' = Inr lat"
      and lon: "cube_coord c ''longitude'' = Inr lon"
  shows "\<exists>c' lat' lon'.
           latlon_bounds guess c = Inr c'
         \<and> cube_coord c' ''latitude'' = Inr lat' \<and> cube_coord c' ''longitude'' = Inr lon'
         \<and> points lat' = points lat \<and> points_dtype lat' = float64
         \<and> points lon' = points lon \<and> points_dtype lon' = float64
         \<and> (length (points lat) > 1 \<and> bounds lat = None \<longrightarrow>
              bounds lat' = Some (guess (points lat)))
         \<and> (length (points lat) = 1 \<and> bounds lat = None \<longrightarrow>
              bounds lat' = Some [(- 90, 90)])
         \<and> (bounds lat \<noteq> None \<longrightarrow> bounds lat' = bounds lat)
         \<and> (length (points lon) > 1 \<and> bounds lon = None \<longrightarrow>
              bounds lon' = Some (guess (points lon)))
         \<and> (length (points lon) = 1 \<and> bounds lon = None \<longrightarrow>
              bounds lon' = Some [(0, 360)])
         \<and> (bounds lon \<noteq> None \<longrightarrow> bounds lon' = bounds lon)"
proof -
  let ?lat' = "add_coord_bounds guess (lat\<lparr>points_dtype := float64\<rparr>)"
  let ?lon' = "add_coord_bounds guess (lon\<lparr>points_dtype := float64\<rparr>)"
  from latlon_bounds_result [OF lat lon, of guess] obtain c' where
    c': "latlon_bounds guess c = Inr c'"
    and lat': "cube_coord c' ''latitude'' = Inr ?lat'"
    and lon': "cube_coord c' ''longitude'' = Inr ?lon'"
    by blast
  have nlat: "coord_name (lat\<lparr>points_dtype := float64\<rparr>) = ''latitude''"
    using cube_coord_name [OF lat] by simp
  have nlon: "coord_name (lon\<lparr>points_dtype := float64\<rparr>) = ''longitude''"
    using cube_coord_name [OF lon] by simp
  show ?thesis
    using c' lat' lon' add_coord_bounds_lat [OF nlat, of guess]
      add_coord_bounds_lon [OF nlon, of guess]
    by (intro exI [of _ c'] exI [of _ ?lat'] exI [of _ ?lon']) simp
qed

lemma ex_column_lat: "cube_coord ex_column ''latitude'' = Inr ex_lat"
  by (simp add: cube_coord_def ex_column_def ex_lat_def ex_lon_def)

lemma ex_column_lon: "cube_coord ex_column ''longitude'' = Inr ex_lon"
  by (simp add: cube_coord_def ex_column_def ex_lat_def ex_lon_def)

lemma ex_column_bounds_set:
  "\<exists>c' lat' lon'.
     latlon_bounds ex_guess ex_column = Inr c'
     \<and> cube_coord c' ''latitude'' = Inr lat' \<and> cube_coord c' ''longitude'' = Inr lon'
     \<and> points_dtype lat' = float64 \<and> points_dtype lon' = float64
     \<and> bounds lat' = Some [(- 90, 90)]
     \<and> bounds lon' = Some [(19 / 2, 21 / 2), (39 / 2, 41 / 2)]"
  using latlon_bounds_set [OF ex_column_lat ex_column_lon, of ex_guess]
  by (auto simp: ex_lat_def ex_lon_def ex_guess_def)

lemma fix_latlon_coord_names:
  assumes lat: "cube_coord c ''latitude'' = Inr lat"
      and lon: "cube_coord c ''longitude'' = Inr lon"
  shows "fix_latlon_coord guess c grid_type =
           (case lat_var_name (points lat) grid_type of
              Inl e \<Rightarrow> Inl e
            | Inr v \<Rightarrow>
                (case lon_var_name (points lon) grid_type of
                   Inl e \<Rightarrow> Inl e
                 | Inr w \<Rightarrow>
                     Inr (put_coord
                            (put_coord (projr (latlon_bounds guess c))
                               ((add_coord_bounds guess (lat\<lparr>points_dtype := float64\<rparr>))
                                  \<lparr>coord_var_name := Some v\<rparr>))
                            ((add_coord_bounds guess (lon\<lparr>points_dtype := float64\<rparr>))
                               \<lparr>coord_var_name := Some w\<rparr>))))"
proof -
  let ?lat' = "add_coord_bounds guess (lat\<lparr>points_dtype := float64\<rparr>)"
  let ?lon' = "add_coord_bounds guess (lon\<lparr>points_dtype := float64\<rparr>)"
  from latlon_bounds_result [OF lat lon, of guess] obtain c' where
    c': "latlon_bounds guess c = Inr c'"
    and lat': "cube_coord c' ''latitude'' = Inr ?lat'"
    and lon': "cube_coord c' ''longitude'' = Inr ?lon'"
    by blast
  have nlat: "coord_name ?lat' = ''latitude''" using cube_coord_name [OF lat] by simp
  have 2: "cube_coord (put_coord c' (?lat'\<lparr>coord_var_name := Some v\<rparr>)) ''longitude''
             = Inr ?lon'" for v
    using cube_coord_put_other [of "''longitude''" "?lat'\<lparr>coord_var_name := Some v\<rparr>" c']
      nlat lon' by simp
  show ?thesis
    by (simp add: fix_latlon_coord_def c' latlon_names_def lat' 2 Let_def
        split: sum.splits)
qed

text \<open>
  C7.  The repair step \<open>fix_latlon_coord\<close> fails on a coordinate of exactly one point.  On
  a field that has a latitude and a longitude, after the bounds were set, the naming code
  of lines 70-86 reads the second point of the coordinate: a latitude of the single point
  \<open>p\<close> raises \<open>IndexError\<close> unless \<open>p\<close> is -90 on an EG grid, and so does a longitude of
  the single point \<open>q\<close>, when the latitude got its name, unless \<open>q\<close> is 0 on an EG grid.
  The only single-point coordinates that the step repairs are those: a latitude -90 and a
  longitude 0 on an EG grid are named \<open>lat_v\<close> and \<open>lon_u\<close>.
\<close>

theorem fix_latlon_coord_single_point:
  assumes lat: "cube_coord c ''latitude'' = Inr lat"
      and lon: "cube_coord c ''longitude'' = Inr lon"
  shows "(points lat = [p] \<and> \<not> (p = - 90 \<and> grid_type = ''EG'') \<longrightarrow>
            fix_latlon_coord guess c grid_type = Inl IndexError)
       \<and> (2 \<le> length (points lat) \<and> points lon = [q] \<and> \<not> (q = 0 \<and> grid_type = ''EG'') \<longrightarrow>
            fix_latlon_coord guess c grid_type = Inl IndexError)
       \<and> (points lat = [- 90] \<and> points lon = [0] \<and> grid_type = ''EG'' \<longrightarrow>
            (\<exists>c' lat' lon'.
               fix_latlon_coord guess c grid_type = Inr c'
             \<and> cube_coord c' ''latitude'' = Inr lat' \<and> cube_coord c' ''longitude'' = Inr lon'
             \<and> coord_var_name lat' = Some ''lat_v'' \<and> coord_var_name lon' = Some ''lon_u''
             \<and> points lat' = [- 90] \<and> points lon' = [0]
             \<and> points_dtype lat' = float64 \<and> points_dtype lon' = float64
             \<and> (bounds lat = None \<longrightarrow> bounds lat' = Some [(- 90, 90)])
             \<and> (bounds lon = None \<longrightarrow> bounds lon' = Some [(0, 360)])))"
proof (intro conjI impI)
  assume "points lat = [p] \<and> \<not> (p = - 90 \<and> grid_type = ''EG'')"
  then have "lat_var_name (points lat) grid_type = Inl IndexError"
    by (auto simp: lat_var_name_def)
  then show "fix_latlon_coord guess c grid_type = Inl IndexError"
    by (simp add: fix_latlon_coord_names [OF lat lon])
next
  assume a: "2 \<le> length (points lat) \<and> points lon = [q] \<and> \<not> (q = 0 \<and> grid_type = ''EG'')"
  then obtain p0 p1 rest where "points lat = p0 # p1 # rest"
    by (cases "points lat"; cases "tl (points lat)") auto
  then have "\<exists>v. lat_var_name (points lat) grid_type = Inr v"
    by (simp add: lat_var_name_def)
  moreover from a have "lon_var_name (points lon) grid_type = Inl IndexError"
    by (auto simp: lon_var_name_def)
  ultimately show "fix_latlon_coord guess c grid_type = Inl IndexError"
    by (auto simp: fix_latlon_coord_names [OF lat lon])
next
  assume a: "points lat = [- 90] \<and> points lon = [0] \<and> grid_type = ''EG''"
  let ?lat' = "add_coord_bounds guess (lat\<lparr>points_dtype := float64\<rparr>)"
  let ?lon' = "add_coord_bounds guess (lon\<lparr>points_dtype := float64\<rparr>)"
  let ?lat'' = "?lat'\<lparr>coord_var_name := Some ''lat_v''\<rparr>"
  let ?lon'' = "?lon'\<lparr>coord_var_name := Some ''lon_u''\<rparr>"
  let ?c1 = "put_coord (projr (latlon_bounds guess c)) ?lat''"
  let ?c' = "put_coord ?c1 ?lon''"
  from latlon_bounds_result [OF lat lon, of guess] obtain c0 where
    c0: "latlon_bounds guess c = Inr c0"
    and lat0: "cube_coord c0 ''latitude'' = Inr ?lat'"
    and lon0: "cube_coord c0 ''longitude'' = Inr ?lon'"
    by blast
  have nlat: "coord_name ?lat'' = ''latitude''" using cube_coord_name [OF lat] by simp
  have nlon: "coord_name ?lon'' = ''longitude''" using cube_coord_name [OF lon] by simp
  from a have v: "lat_var_name (points lat) grid_type = Inr ''lat_v''"
    and w: "lon_var_name (points lon) grid_type = Inr ''lon_u''"
    by (simp_all add: lat_var_name_def lon_var_name_def)
  have r: "fix_latlon_coord guess c grid_type = Inr ?c'"
    by (simp add: fix_latlon_coord_names [OF lat lon] v w)
  have 1: "cube_coord ?c1 ''latitude'' = Inr ?lat''"
    using cube_coord_put_same [OF lat0 nlat] by (simp add: c0)
  have 2: "cube_coord ?c1 ''longitude'' = Inr ?lon'"
    using cube_coord_put_other [of "''longitude''" ?lat'' c0] nlat lon0 by (simp add: c0)
  have 3: "cube_coord ?c' ''longitude'' = Inr ?lon''"
    by (rule cube_coord_put_same [OF 2 nlon])
  have 4: "cube_coord ?c' ''latitude'' = Inr ?lat''"
    using cube_coord_put_other [of "''latitude''" ?lon'' ?c1] nlon 1 by simp
  have nl: "coord_name (lat\<lparr>points_dtype := float64\<rparr>) = ''latitude''"
    using cube_coord_name [OF lat] by simp
  have nn: "coord_name (lon\<lparr>points_dtype := float64\<rparr>) = ''longitude''"
    using cube_coord_name [OF lon] by simp
  show "\<exists>c' lat' lon'.
               fix_latlon_coord guess c grid_type = Inr c'
             \<and> cube_coord c' ''latitude'' = Inr lat' \<and> cube_coord c' ''longitude'' = Inr lon'
             \<and> coord_var_name lat' = Some ''lat_v'' \<and> coord_var_name lon' = Some ''lon_u''
             \<and> points lat' = [- 90] \<and> points lon' = [0]
             \<and> points_dtype lat' = float64 \<and> points_dtype lon' = float64
             \<and> (bounds lat = None \<longrightarrow> bounds lat' = Some [(- 90, 90)])
             \<and> (bounds lon = None \<longrightarrow> bounds lon' = Some [(0, 360)])"
    using r 3 4 a add_coord_bounds_lat [OF nl, of guess] add_coord_bounds_lon [OF nn, of guess]
    by (intro exI [of _ ?c'] exI [of _ ?lat''] exI [of _ ?lon'']) simp
qed

text \<open>
  The single-column field of the examples, with the latitude -35 and two longitudes: the
  step raises \<open>IndexError\<close> on both grids.  With the latitude -90 and the longitude 0 it
  names the coordinates on an EG grid, and raises on an ND grid.
\<close>

theorem fix_latlon_coord_single_point_witness:
  "fix_latlon_coord ex_guess ex_column ''ND'' = Inl IndexError
   \<and> fix_latlon_coord ex_guess ex_column ''EG'' = Inl IndexError
   \<and> fix_latlon_coord ex_guess ex_pole ''ND'' = Inl IndexError
   \<and> (\<exists>c' lat' lon'.
         fix_latlon_coord ex_guess ex_pole ''EG'' = Inr c'
       \<and> cube_coord c' ''latitude'' = Inr lat' \<and> cube_coord c' ''longitude'' = Inr lon'
       \<and> coord_var_name lat' = Some ''lat_v'' \<and> coord_var_name lon' = Some ''lon_u''
       \<and> bounds lat' = Some [(- 90, 90)] \<and> bounds lon' = Some [(0, 360)])"
proof -
  have lat: "cube_coord ex_pole ''latitude'' = Inr (ex_lat\<lparr>points := [- 90]\<rparr>)"
    and lon: "cube_coord ex_pole ''longitude'' = Inr (ex_lon\<lparr>points := [0]\<rparr>)"
    by (simp_all add: cube_coord_def ex_pole_def ex_column_def ex_lat_def ex_lon_def)
  note col = fix_latlon_coord_single_point [OF ex_column_lat ex_column_lon,
      where p = "- 35" and guess = ex_guess]
  note pole = fix_latlon_coord_single_point [OF lat lon, where p = "- 90" and guess = ex_guess]
  have 1: "fix_latlon_coord ex_guess ex_column ''ND'' = Inl IndexError"
    using col [where grid_type = "''ND''", THEN conjunct1] by (simp add: ex_lat_def)
  have 2: "fix_latlon_coord ex_guess ex_column ''EG'' = Inl IndexError"
    using col [where grid_type = "''EG''", THEN conjunct1] by (simp add: ex_lat_def)
  have 3: "fix_latlon_coord ex_guess ex_pole ''ND'' = Inl IndexError"
    using pole [where grid_type = "''ND''", THEN conjunct1] by (simp add: ex_lat_def)
  have 4: "\<exists>c' lat' lon'.
         fix_latlon_coord ex_guess ex_pole ''EG'' = Inr c'
       \<and> cube_coord c' ''latitude'' = Inr lat' \<and> cube_coord c' ''longitude'' = Inr lon'
       \<and> coord_var_name lat' = Some ''lat_v'' \<and> coord_var_name lon' = Some ''lon_u''
       \<and> bounds lat' = Some [(- 90, 90)] \<and> bounds lon' = Some [(0, 360)]"
    using pole [where grid_type = "''EG''", THEN conjunct2, THEN conjunct2]
    by (simp add: ex_lat_def ex_lon_def) blast
  from 1 2 3 4 show ?thesis by blast
qed

section \<open>Properties of the masking\<close>

lemma masked_divide_simps [simp]:
  "dtype (masked_divide rnd narrow c h_ma h hcrit) = float32"
  "is_ma (masked_divide rnd narrow c h_ma h hcrit)"
  "shape (masked_divide rnd narrow c h_ma h hcrit) = shape c"
  "coords (masked_divide rnd narrow c h_ma h hcrit) = coords c"
  "data (masked_divide rnd narrow c h_ma h hcrit) idx =
     mask_element rnd narrow (is_ma c \<or> h_ma) (shape c = []) hcrit (data c idx) (h idx)"
  by (simp_all add: masked_divide_def)

text \<open>The element of the result, case by case.\<close>

lemma mask_element_threshold:
  "fst h = Fin b \<Longrightarrow> b \<le> hcrit \<Longrightarrow> snd (mask_element rnd narrow ma z hcrit c h)"
  by (simp add: mask_element_def Let_def)

lemma mask_element_plain:
  "fst c = Fin a \<Longrightarrow> fst h = Fin b \<Longrightarrow> b \<noteq> 0 \<Longrightarrow>
   mask_element rnd narrow False z hcrit c h =
     (case rnd (a / b) of Fin q \<Rightarrow> narrow q | x \<Rightarrow> x, b \<le> hcrit)"
  by (cases "rnd (a / b)") (simp_all add: mask_element_def Let_def)

lemma mask_element_plain_zero:
  "fst c = Fin a \<Longrightarrow> fst h = Fin 0 \<Longrightarrow>
   mask_element rnd narrow False z hcrit c h =
     (if 0 < a then PInf else if a < 0 then NInf else NaN, 0 \<le> hcrit)"
  by (simp add: mask_element_def Let_def)

lemma mask_element_ma_operand:
  "snd c \<or> snd h \<Longrightarrow> snd (mask_element rnd narrow True z hcrit c h)"
  by (auto simp: mask_element_def Let_def)

lemma mask_element_ma_zero:
  "fst c = Fin a \<Longrightarrow> fst h = Fin 0 \<Longrightarrow> snd (mask_element rnd narrow True z hcrit c h)"
  by (simp add: mask_element_def Let_def)

lemma mask_element_ma_overflow:
  "fst c = Fin a \<Longrightarrow> fst h = Fin b \<Longrightarrow> b \<noteq> 0 \<Longrightarrow> \<forall>q. rnd (a / b) \<noteq> Fin q \<Longrightarrow>
   snd (mask_element rnd narrow True z hcrit c h)"
  by (cases "rnd (a / b)") (simp_all add: mask_element_def Let_def)

lemma mask_element_ma_domain:
  "fst c = Fin a \<Longrightarrow> fst h = Fin b \<Longrightarrow> rnd (\<bar>a\<bar> / 2 ^ 1022) = Fin t \<Longrightarrow> \<bar>b\<bar> \<le> t \<Longrightarrow>
   snd (mask_element rnd narrow True z hcrit c h)"
  by (simp add: mask_element_def Let_def)

lemma mask_element_ma_value:
  "fst c = Fin a \<Longrightarrow> fst h = Fin b \<Longrightarrow> b \<noteq> 0 \<Longrightarrow> \<not> snd c \<Longrightarrow> \<not> snd h \<Longrightarrow>
   rnd (a / b) = Fin q \<Longrightarrow> rnd (\<bar>a\<bar> / 2 ^ 1022) = Fin t \<Longrightarrow> t < \<bar>b\<bar> \<Longrightarrow>
   mask_element rnd narrow True z hcrit c h = (narrow q, b \<le> hcrit)"
  by (simp add: mask_element_def Let_def)

lemma tiny_less:
  fixes a b :: real
  assumes a: "\<bar>a\<bar> \<le> 1" and b: "1 \<le> \<bar>b\<bar>"
  shows "\<bar>a\<bar> / 2 ^ 1022 < \<bar>b\<bar>"
proof -
  define big :: real where "big = 2 ^ 1022"
  have "1 < big" unfolding big_def by (rule one_less_power) simp_all
  then have "\<bar>a\<bar> / big < 1" using a by (simp add: field_simps)
  with b show ?thesis unfolding big_def by linarith
qed

text \<open>
  C3.  On a target and a mask of identical shape, masking never fails and replaces the
  data of the target by a masked array of single-precision data of the same shape, in
  which every element whose mask value is at most the threshold is missing, a zero mask
  value included.  The other elements depend on the kind of the arrays.

  On two plain arrays the element at a finite target value \<open>a\<close> and a finite non-zero mask
  value \<open>b\<close> is the quotient \<open>a / b\<close>, rounded to the floating-point type of the arrays and
  then to single precision (an infinity when it overflows), and it is missing exactly
  when \<open>b\<close> is at most the threshold; a zero mask value gives an infinity or a NaN, missing
  exactly when the threshold is not negative.

  When the target or the mask is a masked array, an element is missing as well where the
  target or the mask is missing, where the mask value is zero, where the quotient is
  not finite, and where \<open>abs(a) * 2^-1022 >= abs(b)\<close>; in every other case it is the
  quotient rounded as before, and missing exactly when \<open>b\<close> is at most the threshold.
\<close>

theorem apply_mask_same_shape:
  assumes "shape c = shape heaviside"
  shows "\<exists>c'. apply_mask rnd narrow c heaviside hcrit = Inr c'
           \<and> dtype c' = float32 \<and> is_ma c' \<and> shape c' = shape c
           \<and> (\<forall>idx b. fst (data heaviside idx) = Fin b \<and> b \<le> hcrit \<longrightarrow> snd (data c' idx))
           \<and> (\<not> is_ma c \<and> \<not> is_ma heaviside \<longrightarrow>
                (\<forall>idx a b. fst (data c idx) = Fin a \<and> fst (data heaviside idx) = Fin b
                    \<and> b \<noteq> 0 \<longrightarrow>
                    data c' idx = (case rnd (a / b) of Fin q \<Rightarrow> narrow q | x \<Rightarrow> x, b \<le> hcrit))
              \<and> (\<forall>idx a. fst (data c idx) = Fin a \<and> fst (data heaviside idx) = Fin 0 \<longrightarrow>
                    data c' idx =
                      (if 0 < a then PInf else if a < 0 then NInf else NaN, 0 \<le> hcrit)))
           \<and> (is_ma c \<or> is_ma heaviside \<longrightarrow>
                (\<forall>idx. snd (data c idx) \<or> snd (data heaviside idx) \<longrightarrow> snd (data c' idx))
              \<and> (\<forall>idx a. fst (data c idx) = Fin a \<and> fst (data heaviside idx) = Fin 0 \<longrightarrow>
                    snd (data c' idx))
              \<and> (\<forall>idx a b. fst (data c idx) = Fin a \<and> fst (data heaviside idx) = Fin b
                    \<and> b \<noteq> 0 \<and> (\<forall>q. rnd (a / b) \<noteq> Fin q) \<longrightarrow>
                    snd (data c' idx))
              \<and> (\<forall>idx a b t. fst (data c idx) = Fin a \<and> fst (data heaviside idx) = Fin b
                    \<and> rnd (\<bar>a\<bar> / 2 ^ 1022) = Fin t \<and> \<bar>b\<bar> \<le> t \<longrightarrow>
                    snd (data c' idx))
              \<and> (\<forall>idx a b q t. fst (data c idx) = Fin a \<and> fst (data heaviside idx) = Fin b
                    \<and> b \<noteq> 0 \<and> \<not> snd (data c idx) \<and> \<not> snd (data heaviside idx)
                    \<and> rnd (a / b) = Fin q \<and> rnd (\<bar>a\<bar> / 2 ^ 1022) = Fin t \<and> t < \<bar>b\<bar> \<longrightarrow>
                    data c' idx = (narrow q, b \<le> hcrit)))"
proof -
  let ?c' = "masked_divide rnd narrow c (is_ma heaviside) (data heaviside) hcrit"
  have r: "apply_mask rnd narrow c heaviside hcrit = Inr ?c'"
    using assms by (simp add: apply_mask_def)
  have 1: "\<forall>idx b. fst (data heaviside idx) = Fin b \<and> b \<le> hcrit \<longrightarrow> snd (data ?c' idx)"
    by (simp add: mask_element_threshold)
  have 2: "\<not> is_ma c \<and> \<not> is_ma heaviside \<longrightarrow>
                (\<forall>idx a b. fst (data c idx) = Fin a \<and> fst (data heaviside idx) = Fin b
                    \<and> b \<noteq> 0 \<longrightarrow>
                    data ?c' idx = (case rnd (a / b) of Fin q \<Rightarrow> narrow q | x \<Rightarrow> x, b \<le> hcrit))
              \<and> (\<forall>idx a. fst (data c idx) = Fin a \<and> fst (data heaviside idx) = Fin 0 \<longrightarrow>
                    data ?c' idx =
                      (if 0 < a then PInf else if a < 0 then NInf else NaN, 0 \<le> hcrit))"
    by (simp add: mask_element_plain mask_element_plain_zero)
  have 3: "is_ma c \<or> is_ma heaviside \<longrightarrow>
                (\<forall>idx. snd (data c idx) \<or> snd (data heaviside idx) \<longrightarrow> snd (data ?c' idx))
              \<and> (\<forall>idx a. fst (data c idx) = Fin a \<and> fst (data heaviside idx) = Fin 0 \<longrightarrow>
                    snd (data ?c' idx))
              \<and> (\<forall>idx a b. fst (data c idx) = Fin a \<and> fst (data heaviside idx) = Fin b
                    \<and> b \<noteq> 0 \<and> (\<forall>q. rnd (a / b) \<noteq> Fin q) \<longrightarrow>
                    snd (data ?c' idx))
              \<and> (\<forall>idx a b t. fst (data c idx) = Fin a \<and> fst (data heaviside idx) = Fin b
                    \<and> rnd (\<bar>a\<bar> / 2 ^ 1022) = Fin t \<and> \<bar>b\<bar> \<le> t \<longrightarrow>
                    snd (data ?c' idx))
              \<and> (\<forall>idx a b q t. fst (data c idx) = Fin a \<and> fst (data heaviside idx) = Fin b
                    \<and> b \<noteq> 0 \<and> \<not> snd (data c idx) \<and> \<not> snd (data heaviside idx)
                    \<and> rnd (a / b) = Fin q \<and> rnd (\<bar>a\<bar> / 2 ^ 1022) = Fin t \<and> t < \<bar>b\<bar> \<longrightarrow>
                    data ?c' idx = (narrow q, b \<le> hcrit))"
  proof (intro impI conjI allI)
    fix idx assume "is_ma c \<or> is_ma heaviside"
      and "snd (data c idx) \<or> snd (data heaviside idx)"
    then show "snd (data ?c' idx)" by (simp add: mask_element_ma_operand)
  next
    fix idx a assume "is_ma c \<or> is_ma heaviside"
      and "fst (data c idx) = Fin a \<and> fst (data heaviside idx) = Fin 0"
    then show "snd (data ?c' idx)" by (simp add: mask_element_ma_zero)
  next
    fix idx a b assume "is_ma c \<or> is_ma heaviside"
      and "fst (data c idx) = Fin a \<and> fst (data heaviside idx) = Fin b
                    \<and> b \<noteq> 0 \<and> (\<forall>q. rnd (a / b) \<noteq> Fin q)"
    then show "snd (data ?c' idx)" by (simp add: mask_element_ma_overflow)
  next
    fix idx a b t assume "is_ma c \<or> is_ma heaviside"
      and "fst (data c idx) = Fin a \<and> fst (data heaviside idx) = Fin b
                    \<and> rnd (\<bar>a\<bar> / 2 ^ 1022) = Fin t \<and> \<bar>b\<bar> \<le> t"
    then show "snd (data ?c' idx)"
      using mask_element_ma_domain [of "data c idx" a "data heaviside idx" b rnd t]
      by simp
  next
    fix idx a b q t assume "is_ma c \<or> is_ma heaviside"
      and "fst (data c idx) = Fin a \<and> fst (data heaviside idx) = Fin b
                    \<and> b \<noteq> 0 \<and> \<not> snd (data c idx) \<and> \<not> snd (data heaviside idx)
                    \<and> rnd (a / b) = Fin q \<and> rnd (\<bar>a\<bar> / 2 ^ 1022) = Fin t \<and> t < \<bar>b\<bar>"
    then show "data ?c' idx = (narrow q, b \<le> hcrit)"
      using mask_element_ma_value [of "data c idx" a "data heaviside idx" b rnd q t]
      by simp
  qed
  from r 1 2 3 show ?thesis
    by (intro exI [of _ ?c']) (simp only: masked_divide_simps simp_thms)
qed

text \<open>
  The field of the value 1 and the mask that is 0 in its first element and 2 elsewhere,
  with the threshold 1/2: the first element is missing and the others are 1/2; with the
  masked array, the element that was missing stays missing.
\<close>

lemma ex_mask_shapes:
  "shape ex_cube = shape ex_heaviside" "shape ex_masked_cube = shape ex_heaviside"
  "shape ex_big = shape ex_heaviside"
  by (simp_all add: ex_heaviside_def ex_masked_cube_def ex_big_def)

theorem apply_mask_same_shape_witness:
  "(\<exists>c'. apply_mask Fin ex_narrow ex_cube ex_heaviside (1 / 2) = Inr c'
      \<and> dtype c' = float32 \<and> shape c' = [2, 3]
      \<and> snd (data c' [0, 0])
      \<and> data c' [0, 1] = (Fin (1 / 2), False))
   \<and> (\<exists>c'. apply_mask Fin ex_narrow ex_masked_cube ex_heaviside (1 / 2) = Inr c'
      \<and> dtype c' = float32 \<and> shape c' = [2, 3]
      \<and> snd (data c' [0, 0]) \<and> snd (data c' [0, 1])
      \<and> data c' [1, 2] = (Fin (1 / 2), False))"
proof -
  from apply_mask_same_shape [OF ex_mask_shapes(1), where rnd = Fin and narrow = ex_narrow
      and hcrit = "1 / 2"]
  obtain c' where
    c': "apply_mask Fin ex_narrow ex_cube ex_heaviside (1 / 2) = Inr c'"
    and dt: "dtype c' = float32" and shp: "shape c' = shape ex_cube"
    and m: "\<forall>idx b. fst (data ex_heaviside idx) = Fin b \<and> b \<le> 1 / 2 \<longrightarrow> snd (data c' idx)"
    and q: "\<not> is_ma ex_cube \<and> \<not> is_ma ex_heaviside \<longrightarrow>
              (\<forall>idx a b. fst (data ex_cube idx) = Fin a \<and> fst (data ex_heaviside idx) = Fin b
                    \<and> b \<noteq> 0 \<longrightarrow>
                    data c' idx = (case Fin (a / b) of Fin q \<Rightarrow> ex_narrow q | x \<Rightarrow> x, b \<le> 1 / 2))
              \<and> (\<forall>idx a. fst (data ex_cube idx) = Fin a \<and> fst (data ex_heaviside idx) = Fin 0 \<longrightarrow>
                    data c' idx =
                      (if 0 < a then PInf else if a < 0 then NInf else NaN, 0 \<le> (1 / 2 :: real)))"
    by (elim exE conjE) (rule that, assumption+)
  from m [rule_format, of "[0, 0]" 0] have 1: "snd (data c' [0, 0])"
    by (simp add: ex_heaviside_def)
  have plain: "\<not> is_ma ex_cube \<and> \<not> is_ma ex_heaviside"
    by (simp add: ex_heaviside_def ex_cube_def)
  from q [rule_format, OF plain, THEN conjunct1, rule_format, of "[0, 1]" 1 2]
  have 2: "data c' [0, 1] = (Fin (1 / 2), False)"
    by (simp add: ex_heaviside_def ex_cube_def ex_narrow_def)
  have A: "\<exists>c'. apply_mask Fin ex_narrow ex_cube ex_heaviside (1 / 2) = Inr c'
      \<and> dtype c' = float32 \<and> shape c' = [2, 3]
      \<and> snd (data c' [0, 0])
      \<and> data c' [0, 1] = (Fin (1 / 2), False)"
    using c' dt shp 1 2 by (simp add: ex_cube_def)
  from apply_mask_same_shape [OF ex_mask_shapes(2), where rnd = Fin and narrow = ex_narrow
      and hcrit = "1 / 2"]
  obtain c' where
    c': "apply_mask Fin ex_narrow ex_masked_cube ex_heaviside (1 / 2) = Inr c'"
    and dt: "dtype c' = float32" and shp: "shape c' = shape ex_masked_cube"
    and m: "\<forall>idx b. fst (data ex_heaviside idx) = Fin b \<and> b \<le> 1 / 2 \<longrightarrow> snd (data c' idx)"
    and q: "is_ma ex_masked_cube \<or> is_ma ex_heaviside \<longrightarrow>
                (\<forall>idx. snd (data ex_masked_cube idx) \<or> snd (data ex_heaviside idx) \<longrightarrow>
                    snd (data c' idx))
              \<and> (\<forall>idx a. fst (data ex_masked_cube idx) = Fin a
                    \<and> fst (data ex_heaviside idx) = Fin 0 \<longrightarrow> snd (data c' idx))
              \<and> (\<forall>idx a b. fst (data ex_masked_cube idx) = Fin a
                    \<and> fst (data ex_heaviside idx) = Fin b
                    \<and> b \<noteq> 0 \<and> (\<forall>q. Fin (a / b) \<noteq> Fin q) \<longrightarrow>
                    snd (data c' idx))
              \<and> (\<forall>idx a b t. fst (data ex_masked_cube idx) = Fin a
                    \<and> fst (data ex_heaviside idx) = Fin b
                    \<and> Fin (\<bar>a\<bar> / 2 ^ 1022) = Fin t \<and> \<bar>b\<bar> \<le> t \<longrightarrow>
                    snd (data c' idx))
              \<and> (\<forall>idx a b q t. fst (data ex_masked_cube idx) = Fin a
                    \<and> fst (data ex_heaviside idx) = Fin b
                    \<and> b \<noteq> 0 \<and> \<not> snd (data ex_masked_cube idx) \<and> \<not> snd (data ex_heaviside idx)
                    \<and> Fin (a / b) = Fin q \<and> Fin (\<bar>a\<bar> / 2 ^ 1022) = Fin t \<and> t < \<bar>b\<bar> \<longrightarrow>
                    data c' idx = (ex_narrow q, b \<le> 1 / 2))"
    by (elim exE conjE) (rule that, assumption+)
  have ma: "is_ma ex_masked_cube \<or> is_ma ex_heaviside" by (simp add: ex_masked_cube_def)
  note q' = q [rule_format, OF ma]
  from m [rule_format, of "[0, 0]" 0] have 1: "snd (data c' [0, 0])"
    by (simp add: ex_heaviside_def)
  from q' [THEN conjunct1, rule_format, of "[0, 1]"] have 2: "snd (data c' [0, 1])"
    by (simp add: ex_masked_cube_def)
  have t: "\<bar>1 :: real\<bar> / 2 ^ 1022 < \<bar>2 :: real\<bar>" by (rule tiny_less) simp_all
  have h: "fst (data ex_masked_cube [1, 2]) = Fin 1
         \<and> fst (data ex_heaviside [1, 2]) = Fin 2
         \<and> (2 :: real) \<noteq> 0 \<and> \<not> snd (data ex_masked_cube [1, 2])
         \<and> \<not> snd (data ex_heaviside [1, 2])
         \<and> Fin (1 / 2) = Fin (1 / 2) \<and> Fin (\<bar>1\<bar> / 2 ^ 1022) = Fin (\<bar>1\<bar> / 2 ^ 1022)
         \<and> \<bar>1 :: real\<bar> / 2 ^ 1022 < \<bar>2 :: real\<bar>"
    using t by (simp add: ex_masked_cube_def ex_heaviside_def del: power_numeral)
  from q' [THEN conjunct2, THEN conjunct2, THEN conjunct2, THEN conjunct2, rule_format, OF h]
  have 3: "data c' [1, 2] = (Fin (1 / 2), False)"
    by (simp add: ex_narrow_def)
  have B: "\<exists>c'. apply_mask Fin ex_narrow ex_masked_cube ex_heaviside (1 / 2) = Inr c'
      \<and> dtype c' = float32 \<and> shape c' = [2, 3]
      \<and> snd (data c' [0, 0]) \<and> snd (data c' [0, 1])
      \<and> data c' [1, 2] = (Fin (1 / 2), False)"
    using c' dt shp 1 2 3 by (simp add: ex_masked_cube_def ex_cube_def)
  from A B show ?thesis by blast
qed

text \<open>
  Elements whose mask value is above the threshold and that are not the quotient: with
  the masked array and the threshold 1/2, the element that was missing in the target stays
  missing although its mask value is 2; the value \<open>10^39\<close> divided by 2 is beyond single
  precision and becomes an infinity; with the threshold -1 the zero of the mask is above
  the threshold, and the element is an infinity that is not missing on plain arrays and
  is missing on the masked array.
\<close>

theorem apply_mask_same_shape_counterexample:
  "(\<exists>c'. apply_mask Fin ex_narrow ex_masked_cube ex_heaviside (1 / 2) = Inr c'
      \<and> data ex_heaviside [0, 1] = (Fin 2, False) \<and> (1 / 2 :: real) < 2
      \<and> snd (data c' [0, 1]))
   \<and> (\<exists>c'. apply_mask Fin ex_narrow ex_big ex_heaviside (1 / 2) = Inr c'
      \<and> data ex_big [0, 1] = (Fin (10 ^ 39), False)
      \<and> data ex_heaviside [0, 1] = (Fin 2, False) \<and> (1 / 2 :: real) < 2
      \<and> data c' [0, 1] = (PInf, False))
   \<and> (\<exists>c'. apply_mask Fin ex_narrow ex_cube ex_heaviside (- 1) = Inr c'
      \<and> data ex_cube [0, 0] = (Fin 1, False)
      \<and> data ex_heaviside [0, 0] = (Fin 0, False) \<and> (- 1 :: real) < 0
      \<and> data c' [0, 0] = (PInf, False))
   \<and> (\<exists>c'. apply_mask Fin ex_narrow ex_masked_cube ex_heaviside (- 1) = Inr c'
      \<and> data ex_masked_cube [0, 0] = (Fin 1, False)
      \<and> data ex_heaviside [0, 0] = (Fin 0, False) \<and> (- 1 :: real) < 0
      \<and> snd (data c' [0, 0]))"
  by (simp add: apply_mask_def masked_divide_def mask_element_def ex_masked_cube_def
      ex_big_def ex_heaviside_def ex_cube_def ex_narrow_def Let_def)

section \<open>Properties of the masking on a subset of the levels\<close>

lemma map_nth_filter_positions:
  "map (\<lambda>i. xs ! i) (filter (\<lambda>i. P (xs ! i)) [0..<length xs]) = filter P xs"
proof -
  have "filter P (map (\<lambda>i. xs ! i) [0..<length xs]) =
        map (\<lambda>i. xs ! i) (filter (P \<circ> (\<lambda>i. xs ! i)) [0..<length xs])"
    by (rule filter_map)
  then show ?thesis by (simp add: map_nth o_def)
qed

lemma level_positions_points:
  "map (\<lambda>i. hp ! i) (level_positions cp hp) = filter (\<lambda>p. p \<in> set cp) hp"
  unfolding level_positions_def by (rule map_nth_filter_positions)

lemma level_positions_nonempty:
  assumes "set cp \<subseteq> set hp" and "cp \<noteq> []"
  shows "level_positions cp hp \<noteq> []"
proof -
  from assms obtain p where p: "p \<in> set cp" "p \<in> set hp" by (cases cp) auto
  then have "filter (\<lambda>p. p \<in> set cp) hp \<noteq> []" by (auto simp: filter_empty_conv)
  then show ?thesis using level_positions_points [of hp cp] by auto
qed

lemma length_kept_levels:
  assumes "distinct cp" and "distinct hp" and "set cp \<subseteq> set hp"
  shows "length (level_positions cp hp) = length cp"
proof -
  have "length (filter (\<lambda>p. p \<in> set cp) hp) = card ({p. p \<in> set cp} \<inter> set hp)"
    using assms(2) by (rule distinct_length_filter)
  also have "{p. p \<in> set cp} \<inter> set hp = set cp" using assms(3) by auto
  also have "card (set cp) = length cp" using assms(1) by (rule distinct_card)
  finally show ?thesis using level_positions_points [of hp cp] by (metis length_map)
qed

lemma bcast_ok_iff:
  "bcast_ok cs hs \<longleftrightarrow>
     length hs \<le> length cs
     \<and> (\<forall>k < length hs. hs ! k = cs ! (k + (length cs - length hs)) \<or> hs ! k = 1)"
  by (auto simp: bcast_ok_def list_all2_conv_all_nth add.commute)

lemma extract_pressure_dim:
  assumes "coord_dims h_p = [d]" and "level_positions cp (points h_p) \<noteq> []"
  shows "extract_pressure cp h h_p =
           Inr (map (\<lambda>i. points h_p ! i) (level_positions cp (points h_p)),
                if length (level_positions cp (points h_p)) = 1
                then take d (shape h) @ drop (Suc d) (shape h)
                else (shape h)[d := length (level_positions cp (points h_p))],
                \<lambda>idx. data h (if length (level_positions cp (points h_p)) = 1
                               then take d idx @ [hd (level_positions cp (points h_p))]
                                    @ drop d idx
                               else idx[d := level_positions cp (points h_p) ! (idx ! d)]))"
proof (cases "length (level_positions cp (points h_p)) = 1")
  case True
  then obtain k where k: "level_positions cp (points h_p) = [k]"
    by (cases "level_positions cp (points h_p)") auto
  show ?thesis using assms by (simp add: extract_pressure_def Let_def k)
next
  case False
  then show ?thesis using assms by (simp add: extract_pressure_def Let_def)
qed

lemma apply_mask_extracted:
  assumes "shape c \<noteq> shape heaviside"
      and "cube_coord c ''pressure'' = Inr c_p"
      and "cube_coord heaviside ''pressure'' = Inr h_p"
      and "set (points c_p) \<subseteq> set (points h_p)"
      and "extract_pressure (points c_p) heaviside h_p = Inr (r, hs, hdata)"
  shows "apply_mask rnd narrow c heaviside hcrit =
           (if \<not> np_all_eq (points c_p) r then
              Inl (QValueError ''Unexpected mismatch in levels of extracted heaviside function'')
            else if bcast_ok (shape c) hs then
              Inr (masked_divide rnd narrow c (is_ma heaviside)
                     (\<lambda>idx. hdata (bcast_index hs idx)) hcrit)
            else if shape c = [] \<and> hs = [1] then
              Inr (masked_divide rnd narrow (c\<lparr>shape := [1], data := (\<lambda>idx. data c [])\<rparr>)
                     (is_ma heaviside) (\<lambda>idx. hdata [0]) hcrit)
            else Inl ValueError)"
  using assms by (simp add: apply_mask_def)

text \<open>
  C4.  The target and the mask have different shapes.  When the target or the mask has no
  pressure coordinate, masking fails with \<open>CoordinateNotFoundError\<close>.  When some pressure
  level of the target is not a level of the mask, it fails at once with the level-mismatch
  error, which names the field.

  Otherwise, with the pressure of the mask along its dimension \<open>d\<close>, let \<open>keep\<close> be the
  positions of the levels of the mask whose pressure is a level of the target, in the
  order of the mask (as many as the target has levels, when neither coordinate repeats a
  level).  When the levels at these positions are not the levels of the target in their
  order, masking fails with the level-mismatch error of the double check.  When they are,
  the restricted mask has the shape \<open>hs\<close>: that of the mask with \<open>d\<close> cut to the kept
  levels, or without \<open>d\<close> when a single level is kept.  If every dimension of \<open>hs\<close>, aligned
  from the right, is that of the target or is one, masking succeeds: the shape stays, the
  data is in single precision, and the element \<open>idx\<close> is the masked quotient of the
  element of the target by the element \<open>hidx idx\<close> of the mask, which lies on the kept
  level \<open>keep ! i\<close> for the position \<open>i\<close> of \<open>idx\<close> along the levels and is the first one
  along a dimension of length one; so it is missing where that element of the mask is at
  most the threshold, and on plain arrays it is the rounded quotient by that element.
  If not, masking fails with a \<open>ValueError\<close>, which is not a level-mismatch error.

  When the pressure of the mask is a scalar coordinate with the points of the target, the
  mask is used as it is, under the same condition on its shape.
\<close>

theorem apply_mask_subset_levels:
  assumes differ: "shape c \<noteq> shape heaviside"
  shows "(\<forall>e. cube_coord c ''pressure'' = Inl e \<longrightarrow>
            apply_mask rnd narrow c heaviside hcrit = Inl CoordinateNotFoundError)
       \<and> (\<forall>c_p e. cube_coord c ''pressure'' = Inr c_p
              \<and> cube_coord heaviside ''pressure'' = Inl e \<longrightarrow>
            apply_mask rnd narrow c heaviside hcrit = Inl CoordinateNotFoundError)
       \<and> (\<forall>c_p h_p. cube_coord c ''pressure'' = Inr c_p
              \<and> cube_coord heaviside ''pressure'' = Inr h_p
              \<and> \<not> set (points c_p) \<subseteq> set (points h_p) \<longrightarrow>
            apply_mask rnd narrow c heaviside hcrit =
              Inl (QValueError (''Unable to match levels of heaviside function to variable ''
                                @ cube_name c)))
       \<and> (\<forall>c_p h_p d keep hs hidx.
              cube_coord c ''pressure'' = Inr c_p
            \<and> cube_coord heaviside ''pressure'' = Inr h_p
            \<and> set (points c_p) \<subseteq> set (points h_p) \<and> points c_p \<noteq> []
            \<and> coord_dims h_p = [d]
            \<and> keep = filter (\<lambda>i. points h_p ! i \<in> set (points c_p)) [0..<length (points h_p)]
            \<and> hs = (if length keep = 1
                     then take d (shape heaviside) @ drop (Suc d) (shape heaviside)
                     else (shape heaviside)[d := length keep])
            \<and> hidx = (\<lambda>idx. if length keep = 1
                             then take d (map2 (\<lambda>n i. if n = 1 then 0 else i) hs
                                            (drop (length idx - length hs) idx))
                                  @ [hd keep]
                                  @ drop d (map2 (\<lambda>n i. if n = 1 then 0 else i) hs
                                              (drop (length idx - length hs) idx))
                             else (map2 (\<lambda>n i. if n = 1 then 0 else i) hs
                                     (drop (length idx - length hs) idx))
                                  [d := keep ! (map2 (\<lambda>n i. if n = 1 then 0 else i) hs
                                                  (drop (length idx - length hs) idx) ! d)])
            \<longrightarrow>
              (distinct (points c_p) \<and> distinct (points h_p) \<longrightarrow>
                 length keep = length (points c_p))
            \<and> (length keep = length (points c_p)
                 \<and> map (\<lambda>i. points h_p ! i) keep \<noteq> points c_p \<longrightarrow>
                 apply_mask rnd narrow c heaviside hcrit =
                   Inl (QValueError
                          ''Unexpected mismatch in levels of extracted heaviside function''))
            \<and> (map (\<lambda>i. points h_p ! i) keep = points c_p
                 \<and> \<not> (length hs \<le> length (shape c)
                       \<and> (\<forall>k < length hs.
                             hs ! k = shape c ! (k + (length (shape c) - length hs))
                             \<or> hs ! k = 1))
                 \<and> shape c \<noteq> [] \<longrightarrow>
                 apply_mask rnd narrow c heaviside hcrit = Inl ValueError)
            \<and> (map (\<lambda>i. points h_p ! i) keep = points c_p
                 \<and> length hs \<le> length (shape c)
                 \<and> (\<forall>k < length hs.
                       hs ! k = shape c ! (k + (length (shape c) - length hs))
                       \<or> hs ! k = 1) \<longrightarrow>
                 (\<exists>c'. apply_mask rnd narrow c heaviside hcrit = Inr c'
                     \<and> dtype c' = float32 \<and> shape c' = shape c
                     \<and> (\<forall>idx. data c' idx =
                           mask_element rnd narrow (is_ma c \<or> is_ma heaviside) (shape c = [])
                             hcrit (data c idx) (data heaviside (hidx idx)))
                     \<and> (\<forall>idx b. fst (data heaviside (hidx idx)) = Fin b \<and> b \<le> hcrit \<longrightarrow>
                           snd (data c' idx))
                     \<and> (\<not> is_ma c \<and> \<not> is_ma heaviside \<longrightarrow>
                          (\<forall>idx a b. fst (data c idx) = Fin a
                              \<and> fst (data heaviside (hidx idx)) = Fin b \<and> b \<noteq> 0 \<longrightarrow>
                              data c' idx =
                                (case rnd (a / b) of Fin q \<Rightarrow> narrow q | x \<Rightarrow> x,
                                 b \<le> hcrit))))))
       \<and> (\<forall>c_p h_p. cube_coord c ''pressure'' = Inr c_p
              \<and> cube_coord heaviside ''pressure'' = Inr h_p
              \<and> coord_dims h_p = [] \<and> points c_p = points h_p \<longrightarrow>
              (\<not> (length (shape heaviside) \<le> length (shape c)
                    \<and> (\<forall>k < length (shape heaviside).
                          shape heaviside ! k
                            = shape c ! (k + (length (shape c) - length (shape heaviside)))
                          \<or> shape heaviside ! k = 1))
                 \<and> shape c \<noteq> [] \<longrightarrow>
                 apply_mask rnd narrow c heaviside hcrit = Inl ValueError)
            \<and> (length (shape heaviside) \<le> length (shape c)
                 \<and> (\<forall>k < length (shape heaviside).
                       shape heaviside ! k
                         = shape c ! (k + (length (shape c) - length (shape heaviside)))
                       \<or> shape heaviside ! k = 1) \<longrightarrow>
                 (\<exists>c'. apply_mask rnd narrow c heaviside hcrit = Inr c'
                     \<and> dtype c' = float32 \<and> shape c' = shape c
                     \<and> (\<forall>idx. data c' idx =
                           mask_element rnd narrow (is_ma c \<or> is_ma heaviside) (shape c = [])
                             hcrit (data c idx)
                             (data heaviside
                                (map2 (\<lambda>n i. if n = 1 then 0 else i) (shape heaviside)
                                   (drop (length idx - length (shape heaviside)) idx)))))))"
proof (intro conjI allI impI)
  fix e assume "cube_coord c ''pressure'' = Inl e"
  then show "apply_mask rnd narrow c heaviside hcrit = Inl CoordinateNotFoundError"
    using differ by (auto simp: apply_mask_def cube_coord_def split: list.splits)
next
  fix c_p e
  assume "cube_coord c ''pressure'' = Inr c_p \<and> cube_coord heaviside ''pressure'' = Inl e"
  then show "apply_mask rnd narrow c heaviside hcrit = Inl CoordinateNotFoundError"
    using differ by (auto simp: apply_mask_def cube_coord_def split: list.splits)
next
  fix c_p h_p
  assume "cube_coord c ''pressure'' = Inr c_p \<and> cube_coord heaviside ''pressure'' = Inr h_p
              \<and> \<not> set (points c_p) \<subseteq> set (points h_p)"
  then show "apply_mask rnd narrow c heaviside hcrit =
              Inl (QValueError (''Unable to match levels of heaviside function to variable ''
                                @ cube_name c))"
    using differ by (simp add: apply_mask_def)
next
  fix c_p h_p
  assume a: "cube_coord c ''pressure'' = Inr c_p \<and> cube_coord heaviside ''pressure'' = Inr h_p
              \<and> coord_dims h_p = [] \<and> points c_p = points h_p"
  let ?hs = "shape heaviside"
  assume b: "\<not> (length ?hs \<le> length (shape c)
                    \<and> (\<forall>k < length ?hs.
                          ?hs ! k = shape c ! (k + (length (shape c) - length ?hs))
                          \<or> ?hs ! k = 1))
                 \<and> shape c \<noteq> []"
  have all: "level_positions (points h_p) (points h_p) = [0..<length (points h_p)]"
    by (simp add: level_positions_def)
  have ext: "extract_pressure (points c_p) heaviside h_p
               = Inr (points h_p, shape heaviside, data heaviside)"
    using a by (simp add: extract_pressure_def Let_def all)
  have sub: "set (points c_p) \<subseteq> set (points h_p)" using a by simp
  from a have cp: "cube_coord c ''pressure'' = Inr c_p"
    and hp: "cube_coord heaviside ''pressure'' = Inr h_p" by simp_all
  have no: "\<not> bcast_ok (shape c) ?hs" using b unfolding bcast_ok_iff by blast
  have ne: "shape c \<noteq> []" using b by blast
  show "apply_mask rnd narrow c heaviside hcrit = Inl ValueError"
    using no ne a by (simp add: apply_mask_extracted [OF differ cp hp sub ext] np_all_eq_def)
next
  fix c_p h_p
  assume a: "cube_coord c ''pressure'' = Inr c_p \<and> cube_coord heaviside ''pressure'' = Inr h_p
              \<and> coord_dims h_p = [] \<and> points c_p = points h_p"
  let ?hs = "shape heaviside"
  assume b: "length ?hs \<le> length (shape c)
                 \<and> (\<forall>k < length ?hs.
                       ?hs ! k = shape c ! (k + (length (shape c) - length ?hs))
                       \<or> ?hs ! k = 1)"
  have all: "level_positions (points h_p) (points h_p) = [0..<length (points h_p)]"
    by (simp add: level_positions_def)
  have ext: "extract_pressure (points c_p) heaviside h_p
               = Inr (points h_p, shape heaviside, data heaviside)"
    using a by (simp add: extract_pressure_def Let_def all)
  have sub: "set (points c_p) \<subseteq> set (points h_p)" using a by simp
  from a have cp: "cube_coord c ''pressure'' = Inr c_p"
    and hp: "cube_coord heaviside ''pressure'' = Inr h_p" by simp_all
  have ok: "bcast_ok (shape c) ?hs" using b unfolding bcast_ok_iff by blast
  show "\<exists>c'. apply_mask rnd narrow c heaviside hcrit = Inr c'
                     \<and> dtype c' = float32 \<and> shape c' = shape c
                     \<and> (\<forall>idx. data c' idx =
                           mask_element rnd narrow (is_ma c \<or> is_ma heaviside) (shape c = [])
                             hcrit (data c idx)
                             (data heaviside
                                (map2 (\<lambda>n i. if n = 1 then 0 else i) (shape heaviside)
                                   (drop (length idx - length (shape heaviside)) idx))))"
    using a ok by (simp add: apply_mask_extracted [OF differ cp hp sub ext] np_all_eq_def
        bcast_index_def)
next
  fix c_p h_p d keep hs hidx
  assume a: "cube_coord c ''pressure'' = Inr c_p
            \<and> cube_coord heaviside ''pressure'' = Inr h_p
            \<and> set (points c_p) \<subseteq> set (points h_p) \<and> points c_p \<noteq> []
            \<and> coord_dims h_p = [d]
            \<and> keep = filter (\<lambda>i. points h_p ! i \<in> set (points c_p)) [0..<length (points h_p)]
            \<and> hs = (if length keep = 1
                     then take d (shape heaviside) @ drop (Suc d) (shape heaviside)
                     else (shape heaviside)[d := length keep])
            \<and> hidx = (\<lambda>idx. if length keep = 1
                             then take d (map2 (\<lambda>n i. if n = 1 then 0 else i) hs
                                            (drop (length idx - length hs) idx))
                                  @ [hd keep]
                                  @ drop d (map2 (\<lambda>n i. if n = 1 then 0 else i) hs
                                              (drop (length idx - length hs) idx))
                             else (map2 (\<lambda>n i. if n = 1 then 0 else i) hs
                                     (drop (length idx - length hs) idx))
                                  [d := keep ! (map2 (\<lambda>n i. if n = 1 then 0 else i) hs
                                                  (drop (length idx - length hs) idx) ! d)])"
  assume "distinct (points c_p) \<and> distinct (points h_p)"
  then show "length keep = length (points c_p)"
    using a length_kept_levels [of "points c_p" "points h_p"]
    by (simp add: level_positions_def)
next
  fix c_p h_p d keep hs hidx
  assume a: "cube_coord c ''pressure'' = Inr c_p
            \<and> cube_coord heaviside ''pressure'' = Inr h_p
            \<and> set (points c_p) \<subseteq> set (points h_p) \<and> points c_p \<noteq> []
            \<and> coord_dims h_p = [d]
            \<and> keep = filter (\<lambda>i. points h_p ! i \<in> set (points c_p)) [0..<length (points h_p)]
            \<and> hs = (if length keep = 1
                     then take d (shape heaviside) @ drop (Suc d) (shape heaviside)
                     else (shape heaviside)[d := length keep])
            \<and> hidx = (\<lambda>idx. if length keep = 1
                             then take d (map2 (\<lambda>n i. if n = 1 then 0 else i) hs
                                            (drop (length idx - length hs) idx))
                                  @ [hd keep]
                                  @ drop d (map2 (\<lambda>n i. if n = 1 then 0 else i) hs
                                              (drop (length idx - length hs) idx))
                             else (map2 (\<lambda>n i. if n = 1 then 0 else i) hs
                                     (drop (length idx - length hs) idx))
                                  [d := keep ! (map2 (\<lambda>n i. if n = 1 then 0 else i) hs
                                                  (drop (length idx - length hs) idx) ! d)])"
  assume b: "length keep = length (points c_p)
                 \<and> map (\<lambda>i. points h_p ! i) keep \<noteq> points c_p"
  from a have cp: "cube_coord c ''pressure'' = Inr c_p"
    and hp: "cube_coord heaviside ''pressure'' = Inr h_p"
    and sub: "set (points c_p) \<subseteq> set (points h_p)"
    and keep: "keep = level_positions (points c_p) (points h_p)"
    and d: "coord_dims h_p = [d]" by (simp_all add: level_positions_def)
  have ne: "level_positions (points c_p) (points h_p) \<noteq> []"
    using a by (intro level_positions_nonempty) simp_all
  note ext = extract_pressure_dim [OF d ne, of heaviside]
  have "\<not> np_all_eq (points c_p) (map (\<lambda>i. points h_p ! i) keep)"
    using b by (auto simp: np_all_eq_def)
  then show "apply_mask rnd narrow c heaviside hcrit =
                   Inl (QValueError
                          ''Unexpected mismatch in levels of extracted heaviside function'')"
    by (simp add: apply_mask_extracted [OF differ cp hp sub ext] keep)
next
  fix c_p h_p d keep hs hidx
  assume a: "cube_coord c ''pressure'' = Inr c_p
            \<and> cube_coord heaviside ''pressure'' = Inr h_p
            \<and> set (points c_p) \<subseteq> set (points h_p) \<and> points c_p \<noteq> []
            \<and> coord_dims h_p = [d]
            \<and> keep = filter (\<lambda>i. points h_p ! i \<in> set (points c_p)) [0..<length (points h_p)]
            \<and> hs = (if length keep = 1
                     then take d (shape heaviside) @ drop (Suc d) (shape heaviside)
                     else (shape heaviside)[d := length keep])
            \<and> hidx = (\<lambda>idx. if length keep = 1
                             then take d (map2 (\<lambda>n i. if n = 1 then 0 else i) hs
                                            (drop (length idx - length hs) idx))
                                  @ [hd keep]
                                  @ drop d (map2 (\<lambda>n i. if n = 1 then 0 else i) hs
                                              (drop (length idx - length hs) idx))
                             else (map2 (\<lambda>n i. if n = 1 then 0 else i) hs
                                     (drop (length idx - length hs) idx))
                                  [d := keep ! (map2 (\<lambda>n i. if n = 1 then 0 else i) hs
                                                  (drop (length idx - length hs) idx) ! d)])"
  assume b: "map (\<lambda>i. points h_p ! i) keep = points c_p
                 \<and> \<not> (length hs \<le> length (shape c)
                       \<and> (\<forall>k < length hs.
                             hs ! k = shape c ! (k + (length (shape c) - length hs))
                             \<or> hs ! k = 1))
                 \<and> shape c \<noteq> []"
  from a have cp: "cube_coord c ''pressure'' = Inr c_p"
    and hp: "cube_coord heaviside ''pressure'' = Inr h_p"
    and sub: "set (points c_p) \<subseteq> set (points h_p)"
    and keep: "level_positions (points c_p) (points h_p) = keep"
    and d: "coord_dims h_p = [d]"
    and hs: "hs = (if length keep = 1
                     then take d (shape heaviside) @ drop (Suc d) (shape heaviside)
                     else (shape heaviside)[d := length keep])"
    by (simp_all add: level_positions_def)
  have ne: "level_positions (points c_p) (points h_p) \<noteq> []"
    using a by (intro level_positions_nonempty) simp_all
  note ext = extract_pressure_dim [OF d ne, of heaviside, unfolded keep, folded hs]
  have eq: "np_all_eq (points c_p) (map (\<lambda>i. points h_p ! i) keep)"
    using b by (simp add: np_all_eq_def)
  have no: "\<not> bcast_ok (shape c) hs" using b unfolding bcast_ok_iff by blast
  have nec: "shape c \<noteq> []" using b by blast
  show "apply_mask rnd narrow c heaviside hcrit = Inl ValueError"
    using eq no nec by (simp add: apply_mask_extracted [OF differ cp hp sub ext])
next
  fix c_p h_p d keep hs hidx
  assume a: "cube_coord c ''pressure'' = Inr c_p
            \<and> cube_coord heaviside ''pressure'' = Inr h_p
            \<and> set (points c_p) \<subseteq> set (points h_p) \<and> points c_p \<noteq> []
            \<and> coord_dims h_p = [d]
            \<and> keep = filter (\<lambda>i. points h_p ! i \<in> set (points c_p)) [0..<length (points h_p)]
            \<and> hs = (if length keep = 1
                     then take d (shape heaviside) @ drop (Suc d) (shape heaviside)
                     else (shape heaviside)[d := length keep])
            \<and> hidx = (\<lambda>idx. if length keep = 1
                             then take d (map2 (\<lambda>n i. if n = 1 then 0 else i) hs
                                            (drop (length idx - length hs) idx))
                                  @ [hd keep]
                                  @ drop d (map2 (\<lambda>n i. if n = 1 then 0 else i) hs
                                              (drop (length idx - length hs) idx))
                             else (map2 (\<lambda>n i. if n = 1 then 0 else i) hs
                                     (drop (length idx - length hs) idx))
                                  [d := keep ! (map2 (\<lambda>n i. if n = 1 then 0 else i) hs
                                                  (drop (length idx - length hs) idx) ! d)])"
  assume b: "map (\<lambda>i. points h_p ! i) keep = points c_p
                 \<and> length hs \<le> length (shape c)
                 \<and> (\<forall>k < length hs.
                       hs ! k = shape c ! (k + (length (shape c) - length hs))
                       \<or> hs ! k = 1)"
  from a have cp: "cube_coord c ''pressure'' = Inr c_p"
    and hp: "cube_coord heaviside ''pressure'' = Inr h_p"
    and sub: "set (points c_p) \<subseteq> set (points h_p)"
    and keep: "level_positions (points c_p) (points h_p) = keep"
    and d: "coord_dims h_p = [d]"
    and hs: "hs = (if length keep = 1
                     then take d (shape heaviside) @ drop (Suc d) (shape heaviside)
                     else (shape heaviside)[d := length keep])"
    by (simp_all add: level_positions_def)
  from a have "hidx = (\<lambda>idx. if length keep = 1
                             then take d (map2 (\<lambda>n i. if n = 1 then 0 else i) hs
                                            (drop (length idx - length hs) idx))
                                  @ [hd keep]
                                  @ drop d (map2 (\<lambda>n i. if n = 1 then 0 else i) hs
                                              (drop (length idx - length hs) idx))
                             else (map2 (\<lambda>n i. if n = 1 then 0 else i) hs
                                     (drop (length idx - length hs) idx))
                                  [d := keep ! (map2 (\<lambda>n i. if n = 1 then 0 else i) hs
                                                  (drop (length idx - length hs) idx) ! d)])"
    by blast
  then have hidx: "hidx = (\<lambda>idx. if length keep = 1
                             then take d (bcast_index hs idx) @ [hd keep]
                                  @ drop d (bcast_index hs idx)
                             else (bcast_index hs idx)[d := keep ! (bcast_index hs idx ! d)])"
    by (simp only: bcast_index_def)
  have ne: "level_positions (points c_p) (points h_p) \<noteq> []"
    using a by (intro level_positions_nonempty) simp_all
  note ext = extract_pressure_dim [OF d ne, of heaviside, unfolded keep, folded hs]
  have eq: "np_all_eq (points c_p) (map (\<lambda>i. points h_p ! i) keep)"
    using b by (simp add: np_all_eq_def)
  have ok: "bcast_ok (shape c) hs" using b unfolding bcast_ok_iff by blast
  let ?c' = "masked_divide rnd narrow c (is_ma heaviside)
               (\<lambda>idx. data heaviside (hidx idx)) hcrit"
  have res: "apply_mask rnd narrow c heaviside hcrit = Inr ?c'"
    using eq ok by (simp add: apply_mask_extracted [OF differ cp hp sub ext] hidx)
  have 1: "\<forall>idx b. fst (data heaviside (hidx idx)) = Fin b \<and> b \<le> hcrit \<longrightarrow>
             snd (data ?c' idx)"
    by (simp add: mask_element_threshold)
  have 2: "\<not> is_ma c \<and> \<not> is_ma heaviside \<longrightarrow>
                          (\<forall>idx a b. fst (data c idx) = Fin a
                              \<and> fst (data heaviside (hidx idx)) = Fin b \<and> b \<noteq> 0 \<longrightarrow>
                              data ?c' idx =
                                (case rnd (a / b) of Fin q \<Rightarrow> narrow q | x \<Rightarrow> x,
                                 b \<le> hcrit))"
    by (simp add: mask_element_plain)
  show "\<exists>c'. apply_mask rnd narrow c heaviside hcrit = Inr c'
                     \<and> dtype c' = float32 \<and> shape c' = shape c
                     \<and> (\<forall>idx. data c' idx =
                           mask_element rnd narrow (is_ma c \<or> is_ma heaviside) (shape c = [])
                             hcrit (data c idx) (data heaviside (hidx idx)))
                     \<and> (\<forall>idx b. fst (data heaviside (hidx idx)) = Fin b \<and> b \<le> hcrit \<longrightarrow>
                           snd (data c' idx))
                     \<and> (\<not> is_ma c \<and> \<not> is_ma heaviside \<longrightarrow>
                          (\<forall>idx a b. fst (data c idx) = Fin a
                              \<and> fst (data heaviside (hidx idx)) = Fin b \<and> b \<noteq> 0 \<longrightarrow>
                              data c' idx =
                                (case rnd (a / b) of Fin q \<Rightarrow> narrow q | x \<Rightarrow> x,
                                 b \<le> hcrit)))"
    using res 1 2 by (intro exI [of _ ?c']) (simp only: masked_divide_simps simp_thms)
qed

section \<open>Properties of the pressure step\<close>

lemma reverse_coord_name [simp]: "coord_name (reverse_coord d k) = coord_name k"
  by (simp add: reverse_coord_def)







section \<open>Properties of the time step\<close>

lemma convert_proleptic_loop_upt:
  assumes "length tvals = n" and "k \<le> n"
      and "case tbnds of None \<Rightarrow> True | Some b \<Rightarrow> length b = n"
  shows "convert_proleptic_loop f [k..<n] tvals tbnds =
           Inr (take k tvals @ map f (drop k tvals),
                map_option (\<lambda>b. take k b @ map (\<lambda>(lo, hi). (f lo, f hi)) (drop k b)) tbnds)"
  using assms
proof (induction "n - k" arbitrary: k tvals tbnds)
  case 0
  then show ?case by (cases tbnds) simp_all
next
  case (Suc m)
  then have k: "k < n" and m: "m = n - Suc k" by simp_all
  have upt: "[k..<n] = k # [Suc k..<n]" using k by (rule upt_conv_Cons)
  let ?tv = "tvals[k := f (tvals ! k)]"
  have tv: "take (Suc k) ?tv @ map f (drop (Suc k) ?tv) = take k tvals @ map f (drop k tvals)"
    using k Suc.prems(1)
    by (simp add: take_Suc_conv_app_nth Cons_nth_drop_Suc [symmetric])
  show ?case
  proof (cases tbnds)
    case None
    have "convert_proleptic_loop f [Suc k..<n] ?tv None =
            Inr (take (Suc k) ?tv @ map f (drop (Suc k) ?tv), None)"
      using Suc.hyps(1) [OF m, of ?tv None] Suc.prems(1) k by simp
    then show ?thesis using None tv by (simp add: upt)
  next
    case (Some b)
    with Suc.prems(3) have lb: "length b = n" by simp
    let ?b = "b[k := (f (fst (b ! k)), f (snd (b ! k)))]"
    have bb: "take (Suc k) ?b @ map (\<lambda>(lo, hi). (f lo, f hi)) (drop (Suc k) ?b)
              = take k b @ map (\<lambda>(lo, hi). (f lo, f hi)) (drop k b)"
      using k lb
      by (simp add: take_Suc_conv_app_nth Cons_nth_drop_Suc [symmetric] case_prod_beta)
    have "convert_proleptic_loop f [Suc k..<n] ?tv (Some ?b) =
            Inr (take (Suc k) ?tv @ map f (drop (Suc k) ?tv),
                 Some (take (Suc k) ?b @ map (\<lambda>(lo, hi). (f lo, f hi)) (drop (Suc k) ?b)))"
      using Suc.hyps(1) [OF m, of ?tv "Some ?b"] Suc.prems(1) k lb by simp
    then show ?thesis using Some tv bb k lb by (simp add: upt)
  qed
qed

lemma convert_proleptic_result:
  assumes "case bounds time of None \<Rightarrow> True | Some b \<Rightarrow> length b = length (points time)"
  shows "convert_proleptic n2d d2n time =
     Inr (time\<lparr>points := map (proleptic_value n2d d2n time) (points time),
               bounds := map_option (map (\<lambda>(lo, hi). (proleptic_value n2d d2n time lo,
                                                     proleptic_value n2d d2n time hi)))
                           (bounds time),
               coord_units := ''days since 0001-01-01 00:00'',
               calendar := ''proleptic_gregorian''\<rparr>)"
  using convert_proleptic_loop_upt [of "points time" "length (points time)" 0 "bounds time"
      "proleptic_value n2d d2n time"] assms
  by (simp add: convert_proleptic_def)


lemma time_step_after:
  assumes frt: "cube_coord c ''forecast_reference_time'' = Inr reftime"
      and time: "cube_coord c ''time'' = Inr time"
      and origin: "coord_units time = ''hours since 1970-01-01 00:00:00''"
      and refpts: "points reftime \<noteq> []"
      and conv: "(if calendar time = ''proleptic_gregorian''
                     \<and> year (n2d (coord_units reftime) (calendar reftime) (hd (points reftime))) < 1600
                  then convert_proleptic n2d d2n time else Inr (hours_to_days time)) = Inr time'"
      and name: "coord_name time' = ''time''"
  shows "\<exists>c'. time_step n2d d2n c = Inr c' \<and> cube_coord c' ''time'' = Inr time'"
proof -
  let ?c1 = "put_coord c time'"
  have c1: "cube_coord ?c1 ''time'' = Inr time'"
    by (rule cube_coord_put_same [OF time name])
  from refpts obtain p0 ps where ps: "points reftime = p0 # ps" by (cases "points reftime") auto
  have step: "time_step n2d d2n c =
      (case remove_coord ?c1 ''forecast_period'' of
         Inl e \<Rightarrow> Inr ?c1
       | Inr c2 \<Rightarrow> (case remove_coord c2 ''forecast_reference_time'' of
                      Inl e \<Rightarrow> Inr c2 | Inr c3 \<Rightarrow> Inr c3))"
    using conv ps origin by (simp add: time_step_def frt time Let_def)
  show ?thesis
  proof (cases "remove_coord ?c1 ''forecast_period''")
    case (Inl e)
    with step c1 show ?thesis by simp
  next
    case (Inr c2)
    then have c2: "cube_coord c2 ''time'' = Inr time'"
      using remove_coord_keeps [OF Inr, of "''time''"] c1 by simp
    show ?thesis
    proof (cases "remove_coord c2 ''forecast_reference_time''")
      case (Inl e)
      with step Inr c2 show ?thesis by simp
    next
      case (Inr c3)
      then have "cube_coord c3 ''time'' = Inr time'"
        using remove_coord_keeps [OF Inr, of "''time''"] c2 by simp
      with step Inr \<open>remove_coord ?c1 ''forecast_period'' = Inr c2\<close> show ?thesis by simp
    qed
  qed
qed

text \<open>
  C2.  The field has a forecast reference time (with a point) and a time coordinate in
  hours since 1970-01-01 00:00:00 whose bounds, when it has bounds, are one pair per
  point.  Then the step does not fail.  When the calendar of the time unit is
  \<open>proleptic_gregorian\<close> and the year of the reference date is below 1600, the unit becomes
  days since 0001-01-01 00:00 in the same calendar, and every point and every bound \<open>v\<close> is
  replaced by the number that encodes, in days since 0001-01-01 00:00 of the
  proleptic-Gregorian calendar, the date of the year, month, day, hour, minute and second
  that \<open>v\<close> decodes to in hours since 1970-01-01 00:00:00 of that calendar.  Otherwise the
  unit becomes days since 1970-01-01 00:00, the calendar \<open>gregorian\<close> becomes
  \<open>proleptic_gregorian\<close> and any other calendar stays, and every point and bound is
  divided by 24.  A coordinate without bounds stays without bounds.  The decoding and the
  encoding of cf_units are the parameters \<open>n2d\<close> and \<open>d2n\<close>.
\<close>

theorem time_step_spec:
  assumes frt: "cube_coord c ''forecast_reference_time'' = Inr reftime"
      and time: "cube_coord c ''time'' = Inr time"
      and origin: "coord_units time = ''hours since 1970-01-01 00:00:00''"
      and refpts: "points reftime \<noteq> []"
      and bnd: "case bounds time of None \<Rightarrow> True | Some b \<Rightarrow> length b = length (points time)"
  shows "\<exists>c' time'.
           time_step n2d d2n c = Inr c' \<and> cube_coord c' ''time'' = Inr time'
         \<and> (calendar time = ''proleptic_gregorian''
              \<and> year (n2d (coord_units reftime) (calendar reftime) (hd (points reftime))) < 1600 \<longrightarrow>
              coord_units time' = ''days since 0001-01-01 00:00''
            \<and> calendar time' = ''proleptic_gregorian''
            \<and> points time' =
                map (\<lambda>v. d2n ''days since 0001-01-01 00:00'' ''proleptic_gregorian''
                         \<lparr>year = year (n2d ''hours since 1970-01-01 00:00:00''
                                         ''proleptic_gregorian'' v),
                          month = month (n2d ''hours since 1970-01-01 00:00:00''
                                          ''proleptic_gregorian'' v),
                          day = day (n2d ''hours since 1970-01-01 00:00:00''
                                      ''proleptic_gregorian'' v),
                          hour = hour (n2d ''hours since 1970-01-01 00:00:00''
                                        ''proleptic_gregorian'' v),
                          minute = minute (n2d ''hours since 1970-01-01 00:00:00''
                                            ''proleptic_gregorian'' v),
                          second = second (n2d ''hours since 1970-01-01 00:00:00''
                                            ''proleptic_gregorian'' v),
                          microsecond = 0\<rparr>) (points time)
            \<and> (\<forall>b. bounds time = Some b \<longrightarrow>
                 (\<exists>b'. bounds time' = Some b' \<and> length b' = length b
                  \<and> (\<forall>i < length b.
                       fst (b' ! i) =
                         d2n ''days since 0001-01-01 00:00'' ''proleptic_gregorian''
                           \<lparr>year = year (n2d ''hours since 1970-01-01 00:00:00''
                                           ''proleptic_gregorian'' (fst (b ! i))),
                            month = month (n2d ''hours since 1970-01-01 00:00:00''
                                            ''proleptic_gregorian'' (fst (b ! i))),
                            day = day (n2d ''hours since 1970-01-01 00:00:00''
                                        ''proleptic_gregorian'' (fst (b ! i))),
                            hour = hour (n2d ''hours since 1970-01-01 00:00:00''
                                          ''proleptic_gregorian'' (fst (b ! i))),
                            minute = minute (n2d ''hours since 1970-01-01 00:00:00''
                                              ''proleptic_gregorian'' (fst (b ! i))),
                            second = second (n2d ''hours since 1970-01-01 00:00:00''
                                              ''proleptic_gregorian'' (fst (b ! i))),
                            microsecond = 0\<rparr>
                     \<and> snd (b' ! i) =
                         d2n ''days since 0001-01-01 00:00'' ''proleptic_gregorian''
                           \<lparr>year = year (n2d ''hours since 1970-01-01 00:00:00''
                                           ''proleptic_gregorian'' (snd (b ! i))),
                            month = month (n2d ''hours since 1970-01-01 00:00:00''
                                            ''proleptic_gregorian'' (snd (b ! i))),
                            day = day (n2d ''hours since 1970-01-01 00:00:00''
                                        ''proleptic_gregorian'' (snd (b ! i))),
                            hour = hour (n2d ''hours since 1970-01-01 00:00:00''
                                          ''proleptic_gregorian'' (snd (b ! i))),
                            minute = minute (n2d ''hours since 1970-01-01 00:00:00''
                                              ''proleptic_gregorian'' (snd (b ! i))),
                            second = second (n2d ''hours since 1970-01-01 00:00:00''
                                              ''proleptic_gregorian'' (snd (b ! i))),
                            microsecond = 0\<rparr>))))
         \<and> (\<not> (calendar time = ''proleptic_gregorian''
                 \<and> year (n2d (coord_units reftime) (calendar reftime) (hd (points reftime))) < 1600) \<longrightarrow>
              coord_units time' = ''days since 1970-01-01 00:00''
            \<and> calendar time' = (if calendar time = ''gregorian'' then ''proleptic_gregorian''
                                else calendar time)
            \<and> points time' = map (\<lambda>p. p / 24) (points time)
            \<and> bounds time' = map_option (map (\<lambda>(lo, hi). (lo / 24, hi / 24))) (bounds time))
         \<and> (bounds time = None \<longrightarrow> bounds time' = None)"
proof -
  let ?old = "calendar time = ''proleptic_gregorian''
              \<and> year (n2d (coord_units reftime) (calendar reftime) (hd (points reftime))) < 1600"
  let ?pg = "time\<lparr>points := map (proleptic_value n2d d2n time) (points time),
               bounds := map_option (map (\<lambda>(lo, hi). (proleptic_value n2d d2n time lo,
                                                     proleptic_value n2d d2n time hi)))
                           (bounds time),
               coord_units := ''days since 0001-01-01 00:00'',
               calendar := ''proleptic_gregorian''\<rparr>"
  have nm: "coord_name time = ''time''" by (rule cube_coord_name [OF time])
  show ?thesis
  proof (cases ?old)
    case True
    have conv: "(if ?old then convert_proleptic n2d d2n time else Inr (hours_to_days time)) = Inr ?pg"
      using True convert_proleptic_result [OF bnd] by simp
    from time_step_after [OF frt time origin refpts conv] nm
    obtain c' where "time_step n2d d2n c = Inr c'" "cube_coord c' ''time'' = Inr ?pg" by auto
    then show ?thesis using True origin
      by (intro exI [of _ c'] exI [of _ ?pg])
         (simp add: proleptic_value_def Let_def case_prod_beta)
  next
    case False
    have conv: "(if ?old then convert_proleptic n2d d2n time else Inr (hours_to_days time))
                  = Inr (hours_to_days time)"
      using False by auto
    have nm': "coord_name (hours_to_days time) = ''time''"
      using nm by (simp add: hours_to_days_def Let_def)
    from time_step_after [OF frt time origin refpts conv nm']
    obtain c' where "time_step n2d d2n c = Inr c'"
      "cube_coord c' ''time'' = Inr (hours_to_days time)" by auto
    then show ?thesis using False
      by (intro exI [of _ c'] exI [of _ "hours_to_days time"])
         (simp add: hours_to_days_def Let_def)
  qed
qed

text \<open>
  In the calendar of the examples, the points 24 and 48 hours after 1970-01-01 are the
  dates 1970-01-02 and 1970-01-03, which are the days 708841 and 708842 after 0001-01-01;
  the reference time -3240000 hours lies in the year 1595 and the reference time 0 in the
  year 1970.
\<close>

lemma ex_time_coords:
  "cube_coord (ex_time_field cal p) ''forecast_reference_time'' = Inr (ex_reftime p)"
  "cube_coord (ex_time_field cal p) ''time'' = Inr (ex_time cal)"
  by (simp_all add: cube_coord_def ex_time_field_def ex_time_def ex_reftime_def ex_period_def)

lemma ex_time_hyps:
  "coord_units (ex_time cal) = ''hours since 1970-01-01 00:00:00''"
  "points (ex_reftime p) \<noteq> []"
  "case bounds (ex_time cal) of None \<Rightarrow> True | Some b \<Rightarrow> length b = length (points (ex_time cal))"
  by (simp_all add: ex_time_def ex_reftime_def)

theorem time_step_spec_witness:
  "(\<exists>c' time'.
      time_step ex_n2d ex_d2n (ex_time_field ''proleptic_gregorian'' (- 3240000)) = Inr c'
    \<and> cube_coord c' ''time'' = Inr time'
    \<and> coord_units time' = ''days since 0001-01-01 00:00''
    \<and> calendar time' = ''proleptic_gregorian''
    \<and> points time' = [708841, 708842]
    \<and> bounds time' = Some [(708840, 708841), (708841, 708842)])
   \<and> (\<exists>c' time'.
      time_step ex_n2d ex_d2n (ex_time_field ''gregorian'' 0) = Inr c'
    \<and> cube_coord c' ''time'' = Inr time'
    \<and> coord_units time' = ''days since 1970-01-01 00:00''
    \<and> calendar time' = ''proleptic_gregorian''
    \<and> points time' = [1, 2] \<and> bounds time' = Some [(0, 1), (1, 2)])
   \<and> (\<exists>c' time'.
      time_step ex_n2d ex_d2n (ex_time_field ''proleptic_gregorian'' 0) = Inr c'
    \<and> cube_coord c' ''time'' = Inr time'
    \<and> coord_units time' = ''days since 1970-01-01 00:00''
    \<and> calendar time' = ''proleptic_gregorian''
    \<and> points time' = [1, 2] \<and> bounds time' = Some [(0, 1), (1, 2)])
   \<and> (\<exists>c' time'.
      time_step ex_n2d ex_d2n (ex_time_field ''360_day'' (- 3240000)) = Inr c'
    \<and> cube_coord c' ''time'' = Inr time'
    \<and> coord_units time' = ''days since 1970-01-01 00:00''
    \<and> calendar time' = ''360_day''
    \<and> points time' = [1, 2] \<and> bounds time' = Some [(0, 1), (1, 2)])"
proof -
  have yr: "year (ex_n2d u cal (- 3240000)) = 1595" "year (ex_n2d u cal 0) = 1970" for u cal
    by (simp_all add: ex_n2d_def Let_def)
  have old: "\<exists>c' time'.
      time_step ex_n2d ex_d2n (ex_time_field ''proleptic_gregorian'' (- 3240000)) = Inr c'
    \<and> cube_coord c' ''time'' = Inr time'
    \<and> coord_units time' = ''days since 0001-01-01 00:00''
    \<and> calendar time' = ''proleptic_gregorian''
    \<and> points time' = [708841, 708842]
    \<and> bounds time' = Some [(708840, 708841), (708841, 708842)]"
  proof -
    from time_step_spec [OF ex_time_coords [of "''proleptic_gregorian''" "- 3240000"]
        ex_time_hyps, where n2d = ex_n2d and d2n = ex_d2n]
    obtain c' time' where r:
      "time_step ex_n2d ex_d2n (ex_time_field ''proleptic_gregorian'' (- 3240000)) = Inr c'"
      "cube_coord c' ''time'' = Inr time'"
      "coord_units time' = ''days since 0001-01-01 00:00''"
      "calendar time' = ''proleptic_gregorian''"
      "points time' = [708841, 708842]"
      and b: "\<exists>b'. bounds time' = Some b' \<and> length b' = 2
           \<and> (\<forall>i < 2. fst (b' ! i) = (if i = 0 then 708840 else 708841)
                     \<and> snd (b' ! i) = (if i = 0 then 708841 else 708842))"
      by (auto simp: ex_n2d_def ex_d2n_def Let_def ex_time_def ex_reftime_def less_Suc_eq
          numeral_2_eq_2)
    from b obtain b' where b': "bounds time' = Some b'" "length b' = 2"
      "fst (b' ! 0) = 708840" "snd (b' ! 0) = 708841"
      "fst (b' ! 1) = 708841" "snd (b' ! 1) = 708842"
      by (auto simp: less_Suc_eq numeral_2_eq_2)
    then have "b' = [(708840, 708841), (708841, 708842)]"
      by (cases b'; cases "tl b'") (auto simp: prod_eq_iff)
    with r b' show ?thesis by (intro exI [of _ c'] exI [of _ time']) simp
  qed
  have new: "\<exists>c' time'.
      time_step ex_n2d ex_d2n (ex_time_field ''gregorian'' 0) = Inr c'
    \<and> cube_coord c' ''time'' = Inr time'
    \<and> coord_units time' = ''days since 1970-01-01 00:00''
    \<and> calendar time' = ''proleptic_gregorian''
    \<and> points time' = [1, 2] \<and> bounds time' = Some [(0, 1), (1, 2)]"
    using time_step_spec [OF ex_time_coords [of "''gregorian''" 0] ex_time_hyps,
        where n2d = ex_n2d and d2n = ex_d2n]
    by (simp add: yr ex_time_def ex_reftime_def)
  have late: "\<exists>c' time'.
      time_step ex_n2d ex_d2n (ex_time_field ''proleptic_gregorian'' 0) = Inr c'
    \<and> cube_coord c' ''time'' = Inr time'
    \<and> coord_units time' = ''days since 1970-01-01 00:00''
    \<and> calendar time' = ''proleptic_gregorian''
    \<and> points time' = [1, 2] \<and> bounds time' = Some [(0, 1), (1, 2)]"
    using time_step_spec [OF ex_time_coords [of "''proleptic_gregorian''" 0] ex_time_hyps,
        where n2d = ex_n2d and d2n = ex_d2n]
    by (simp add: yr ex_time_def ex_reftime_def)
  have cal360: "\<exists>c' time'.
      time_step ex_n2d ex_d2n (ex_time_field ''360_day'' (- 3240000)) = Inr c'
    \<and> cube_coord c' ''time'' = Inr time'
    \<and> coord_units time' = ''days since 1970-01-01 00:00''
    \<and> calendar time' = ''360_day''
    \<and> points time' = [1, 2] \<and> bounds time' = Some [(0, 1), (1, 2)]"
    using time_step_spec [OF ex_time_coords [of "''360_day''" "- 3240000"] ex_time_hyps,
        where n2d = ex_n2d and d2n = ex_d2n]
    by (simp add: yr ex_time_def ex_reftime_def)
  from old new late cal360 show ?thesis by blast
qed

section \<open>Properties of the order of the dimensions\<close>

lemma remove1_upt: "t < n \<Longrightarrow> remove1 t [0..<n] = [0..<t] @ [Suc t..<n]"
proof -
  assume t: "t < n"
  then have "[0..<n] = [0..<t] @ t # [Suc t..<n]"
    by (metis le0 less_imp_le_nat upt_add_eq_append upt_conv_Cons le_add_diff_inverse plus_nat.add_0)
  moreover have "t \<notin> set [0..<t]" by simp
  ultimately show ?thesis by (simp add: remove1_append)
qed

lemma neworder_eq: "t < n \<Longrightarrow> neworder n t = Inr (t # [0..<t] @ [Suc t..<n])"
  by (simp add: neworder_def remove1_upt)

lemma index_of_append:
  "index_of (xs @ ys) a = (if a \<in> set xs then index_of xs a else length xs + index_of ys a)"
  by (induction xs) auto

lemma index_of_upt: "m \<le> a \<Longrightarrow> a < n \<Longrightarrow> index_of [m..<n] a = a - m"
proof (induction "n - m" arbitrary: m)
  case 0
  then show ?case by simp
next
  case (Suc k)
  then have "[m..<n] = m # [Suc m..<n]" by (simp add: upt_conv_Cons)
  moreover have "m \<noteq> a \<Longrightarrow> index_of [Suc m..<n] a = a - Suc m"
    using Suc.hyps(1) [of "Suc m"] Suc.hyps(2) Suc.prems by simp
  ultimately show ?case using Suc.prems by auto
qed

lemma index_of_neworder:
  assumes "t < n" and "a < n"
  shows "index_of (t # [0..<t] @ [Suc t..<n]) a =
           (if a = t then 0 else if a < t then Suc a else a)"
proof (cases "a = t")
  case True
  then show ?thesis by simp
next
  case False
  show ?thesis
  proof (cases "a < t")
    case True
    with False show ?thesis by (simp add: index_of_append index_of_upt)
  next
    case ge: False
    with False assms have "Suc t \<le> a" by simp
    with False ge assms show ?thesis by (simp add: index_of_append index_of_upt)
  qed
qed

lemma moved_index:
  assumes "t < length j"
  shows "map (\<lambda>a. (j ! t # take t j @ drop (Suc t) j)
                    ! (if a = t then 0 else if a < t then Suc a else a)) [0..<length j] = j"
proof -
  define g where "g = (\<lambda>a. (j ! t # take t j @ drop (Suc t) j)
                    ! (if a = t then 0 else if a < t then Suc a else a))"
  have elem: "g i = j ! i" if i: "i < length j" for i
  proof (cases "i = t")
    case True then show ?thesis by (simp add: g_def)
  next
    case False
    show ?thesis
    proof (cases "i < t")
      case True
      with False assms show ?thesis by (simp add: g_def nth_append)
    next
      case ge: False
      with False have gt: "t < i" by simp
      then obtain m where m: "i = Suc m" by (cases i) auto
      with gt have tm: "t \<le> m" by simp
      have "(take t j @ drop (Suc t) j) ! m = j ! Suc m"
        using tm assms i m by (simp add: nth_append min_def)
      with False ge m show ?thesis by (simp add: g_def)
    qed
  qed
  have "map g [0..<length j] = j"
    by (rule nth_equalityI) (simp_all add: elem)
  then show ?thesis by (simp only: g_def)
qed


lemma map_shape_neworder:
  assumes "t < length shp"
  shows "map (\<lambda>a. shp ! a) (t # [0..<t] @ [Suc t..<length shp])
           = shp ! t # take t shp @ drop (Suc t) shp"
proof -
  have "map (\<lambda>a. shp ! a) [0..<t] = take t shp"
    using assms by (intro nth_equalityI) simp_all
  moreover have "map (\<lambda>a. shp ! a) [Suc t..<length shp] = drop (Suc t) shp"
    using assms by (intro nth_equalityI) simp_all
  ultimately show ?thesis by simp
qed

lemma transpose_cube_coord:
  "cube_coord (transpose_cube c order) nm =
     map_sum id (\<lambda>k. k\<lparr>coord_dims := map (index_of order) (coord_dims k)\<rparr>) (cube_coord c nm)"
proof -
  have "cube_coord (c\<lparr>coords := map (\<lambda>k. k\<lparr>coord_dims := map (index_of order) (coord_dims k)\<rparr>)
                                   (coords c)\<rparr>) nm =
     map_sum id (\<lambda>k. k\<lparr>coord_dims := map (index_of order) (coord_dims k)\<rparr>) (cube_coord c nm)"
    by (rule cube_coord_map) simp
  then show ?thesis by (simp add: transpose_cube_def cube_coord_def)
qed

lemma new_axis_coord:
  "cube_coord (new_axis c k0) nm =
     map_sum id (\<lambda>k. if coord_name k = coord_name k0 then k\<lparr>coord_dims := [0]\<rparr>
                      else k\<lparr>coord_dims := map Suc (coord_dims k)\<rparr>) (cube_coord c nm)"
proof -
  let ?f = "\<lambda>k. if coord_name k = coord_name k0 then k\<lparr>coord_dims := [0]\<rparr>
                      else k\<lparr>coord_dims := map Suc (coord_dims k)\<rparr>"
  have "cube_coord (c\<lparr>coords := map ?f (coords c)\<rparr>) nm = map_sum id ?f (cube_coord c nm)"
    by (rule cube_coord_map) simp
  then show ?thesis by (simp add: new_axis_def cube_coord_def)
qed

text \<open>
  C8.  When the time coordinate of a field lies along a dimension \<open>t\<close> that is not the
  first, the field is transposed before it is written: the time dimension is first and the
  other dimensions follow in their former order, in the shape, in the data (the element
  at an index of the field is found at the index with the time position moved to the
  front) and in the dimensions of every coordinate (time along dimension 0, a dimension
  before \<open>t\<close> one further, a dimension after \<open>t\<close> where it was).  When the time coordinate
  is scalar, the field that is written has a new first dimension of length one spanned by
  the time coordinate, and the other coordinates lie one dimension further.  A field with
  the time first is written as it is.  In all three cases the field is written with the
  unlimited dimension \<open>time\<close>.
\<close>

theorem dimension_step_spec:
  assumes time: "cube_coord c ''time'' = Inr time"
  shows "(\<forall>t. coord_dims time = [t] \<and> 0 < t \<and> t < length (shape c) \<longrightarrow>
            (\<exists>c'. dimension_step c = Inr (c', [''time''])
                \<and> shape c' = shape c ! t # take t (shape c) @ drop (Suc t) (shape c)
                \<and> (\<forall>j. length j = length (shape c) \<longrightarrow>
                      data c' (j ! t # take t j @ drop (Suc t) j) = data c j)
                \<and> (\<forall>nm k. cube_coord c nm = Inr k \<and> (\<forall>a \<in> set (coord_dims k). a < length (shape c)) \<longrightarrow>
                      cube_coord c' nm =
                        Inr (k\<lparr>coord_dims :=
                               map (\<lambda>a. if a = t then 0 else if a < t then Suc a else a)
                                   (coord_dims k)\<rparr>))
                \<and> (\<exists>time'. cube_coord c' ''time'' = Inr time' \<and> coord_dims time' = [0])))
       \<and> (coord_dims time = [] \<longrightarrow>
            (\<exists>c'. dimension_step c = Inr (c', [''time''])
                \<and> shape c' = 1 # shape c
                \<and> (\<forall>idx. data c' (0 # idx) = data c idx)
                \<and> (\<forall>nm k. cube_coord c nm = Inr k \<and> nm \<noteq> ''time'' \<longrightarrow>
                      cube_coord c' nm = Inr (k\<lparr>coord_dims := map Suc (coord_dims k)\<rparr>))
                \<and> (\<exists>time'. cube_coord c' ''time'' = Inr time' \<and> coord_dims time' = [0])))
       \<and> (coord_dims time = [0] \<longrightarrow> dimension_step c = Inr (c, [''time'']))"
proof (intro conjI allI impI)
  assume "coord_dims time = [0]"
  then show "dimension_step c = Inr (c, [''time''])"
    by (simp add: dimension_step_def time)
next
  assume scalar: "coord_dims time = []"
  have nm: "coord_name time = ''time''" by (rule cube_coord_name [OF time])
  have res: "dimension_step c = Inr (new_axis c time, [''time''])"
    using scalar by (simp add: dimension_step_def time)
  have others: "\<forall>nm k. cube_coord c nm = Inr k \<and> nm \<noteq> ''time'' \<longrightarrow>
        cube_coord (new_axis c time) nm = Inr (k\<lparr>coord_dims := map Suc (coord_dims k)\<rparr>)"
  proof (intro allI impI, elim conjE)
    fix nm' k assume k: "cube_coord c nm' = Inr k" and ne: "nm' \<noteq> ''time''"
    from cube_coord_name [OF k] ne nm have "coord_name k \<noteq> coord_name time" by simp
    then show "cube_coord (new_axis c time) nm' = Inr (k\<lparr>coord_dims := map Suc (coord_dims k)\<rparr>)"
      by (simp add: new_axis_coord k)
  qed
  have tm: "cube_coord (new_axis c time) ''time'' = Inr (time\<lparr>coord_dims := [0]\<rparr>)"
    by (simp add: new_axis_coord time)
  show "\<exists>c'. dimension_step c = Inr (c', [''time''])
                \<and> shape c' = 1 # shape c
                \<and> (\<forall>idx. data c' (0 # idx) = data c idx)
                \<and> (\<forall>nm k. cube_coord c nm = Inr k \<and> nm \<noteq> ''time'' \<longrightarrow>
                      cube_coord c' nm = Inr (k\<lparr>coord_dims := map Suc (coord_dims k)\<rparr>))
                \<and> (\<exists>time'. cube_coord c' ''time'' = Inr time' \<and> coord_dims time' = [0])"
    using res others tm
    by (intro exI [of _ "new_axis c time"]) (simp add: new_axis_def)
next
  fix t
  assume a: "coord_dims time = [t] \<and> 0 < t \<and> t < length (shape c)"
  then have dims: "coord_dims time = [t]" and pos: "0 < t" and lt: "t < length (shape c)"
    by simp_all
  let ?n = "length (shape c)"
  let ?order = "t # [0..<t] @ [Suc t..<?n]"
  let ?c' = "transpose_cube c ?order"
  have res: "dimension_step c = Inr (?c', [''time''])"
    using dims pos lt by (simp add: dimension_step_def time neworder_eq)
  have io: "\<And>a. a < ?n \<Longrightarrow>
      index_of ?order a = (if a = t then 0 else if a < t then Suc a else a)"
    by (rule index_of_neworder [OF lt])
  have shp: "shape ?c' = shape c ! t # take t (shape c) @ drop (Suc t) (shape c)"
    using map_shape_neworder [OF lt] by (simp add: transpose_cube_def)
  have dat: "\<forall>j. length j = ?n \<longrightarrow> data ?c' (j ! t # take t j @ drop (Suc t) j) = data c j"
  proof (intro allI impI)
    fix j :: "nat list" assume len: "length j = ?n"
    then have tj: "t < length j" using lt by simp
    have "map (\<lambda>a. (j ! t # take t j @ drop (Suc t) j) ! index_of ?order a) [0..<?n]
          = map (\<lambda>a. (j ! t # take t j @ drop (Suc t) j)
                    ! (if a = t then 0 else if a < t then Suc a else a)) [0..<?n]"
    proof (rule map_cong [OF refl])
      fix a assume "a \<in> set [0..<?n]"
      then have "a < ?n" by simp
      then show "(j ! t # take t j @ drop (Suc t) j) ! index_of ?order a =
                 (j ! t # take t j @ drop (Suc t) j)
                    ! (if a = t then 0 else if a < t then Suc a else a)"
        by (simp only: io)
    qed
    also have "\<dots> = j" using moved_index [OF tj] len by simp
    finally show "data ?c' (j ! t # take t j @ drop (Suc t) j) = data c j"
      by (simp add: transpose_cube_def)
  qed
  have crd: "\<forall>nm k. cube_coord c nm = Inr k \<and> (\<forall>a \<in> set (coord_dims k). a < ?n) \<longrightarrow>
        cube_coord ?c' nm =
          Inr (k\<lparr>coord_dims := map (\<lambda>a. if a = t then 0 else if a < t then Suc a else a)
                                  (coord_dims k)\<rparr>)"
  proof (intro allI impI, elim conjE)
    fix nm' k assume k: "cube_coord c nm' = Inr k" and b: "\<forall>a \<in> set (coord_dims k). a < ?n"
    have "map (index_of ?order) (coord_dims k)
          = map (\<lambda>a. if a = t then 0 else if a < t then Suc a else a) (coord_dims k)"
    proof (rule map_cong [OF refl])
      fix a assume "a \<in> set (coord_dims k)"
      with b have "a < ?n" by simp
      then show "index_of ?order a = (if a = t then 0 else if a < t then Suc a else a)"
        by (rule io)
    qed
    then show "cube_coord ?c' nm' =
          Inr (k\<lparr>coord_dims := map (\<lambda>a. if a = t then 0 else if a < t then Suc a else a)
                                  (coord_dims k)\<rparr>)"
      by (simp add: transpose_cube_coord k)
  qed
  have tm: "cube_coord ?c' ''time'' = Inr (time\<lparr>coord_dims := [0]\<rparr>)"
    using dims by (simp add: transpose_cube_coord time)
  show "\<exists>c'. dimension_step c = Inr (c', [''time''])
                \<and> shape c' = shape c ! t # take t (shape c) @ drop (Suc t) (shape c)
                \<and> (\<forall>j. length j = length (shape c) \<longrightarrow>
                      data c' (j ! t # take t j @ drop (Suc t) j) = data c j)
                \<and> (\<forall>nm k. cube_coord c nm = Inr k \<and> (\<forall>a \<in> set (coord_dims k). a < length (shape c)) \<longrightarrow>
                      cube_coord c' nm =
                        Inr (k\<lparr>coord_dims :=
                               map (\<lambda>a. if a = t then 0 else if a < t then Suc a else a)
                                   (coord_dims k)\<rparr>))
                \<and> (\<exists>time'. cube_coord c' ''time'' = Inr time' \<and> coord_dims time' = [0])"
    using res shp dat crd tm
    by (intro exI [of _ ?c']) simp
qed


lemma ex_4d_coords:
  "cube_coord ex_4d ''time'' = Inr (ex_dim_coord ''time'' [1])"
  "cube_coord ex_4d ''level'' = Inr (ex_dim_coord ''level'' [0])"
  "cube_coord ex_4d ''latitude'' = Inr (ex_dim_coord ''latitude'' [2])"
  "cube_coord ex_scalar_time ''time'' = Inr (ex_dim_coord ''time'' [])"
  "cube_coord ex_scalar_time ''latitude'' = Inr (ex_dim_coord ''latitude'' [0])"
  by (simp_all add: cube_coord_def ex_4d_def ex_scalar_time_def ex_dim_coord_def)

theorem dimension_step_spec_witness:
  "(\<exists>c'. dimension_step ex_4d = Inr (c', [''time''])
        \<and> shape c' = [2, 5, 3, 4]
        \<and> data c' [1, 4, 2, 3] = data ex_4d [4, 1, 2, 3]
        \<and> cube_coord c' ''level'' = Inr (ex_dim_coord ''level'' [1])
        \<and> cube_coord c' ''latitude'' = Inr (ex_dim_coord ''latitude'' [2])
        \<and> (\<exists>time'. cube_coord c' ''time'' = Inr time' \<and> coord_dims time' = [0]))
   \<and> (\<exists>c'. dimension_step ex_scalar_time = Inr (c', [''time''])
        \<and> shape c' = [1, 3]
        \<and> data c' [0, 2] = (Fin 2, False)
        \<and> cube_coord c' ''latitude'' = Inr (ex_dim_coord ''latitude'' [1])
        \<and> (\<exists>time'. cube_coord c' ''time'' = Inr time' \<and> coord_dims time' = [0]))"
proof -
  have sh: "shape ex_4d = [5, 2, 3, 4]" "shape ex_scalar_time = [3]"
    by (simp_all add: ex_4d_def ex_scalar_time_def)
  have dm: "coord_dims (ex_dim_coord nm ds) = ds" for nm ds
    by (simp add: ex_dim_coord_def)
  have prem: "coord_dims (ex_dim_coord ''time'' [1]) = [1] \<and> 0 < (1::nat)
                \<and> 1 < length (shape ex_4d)"
    by (simp add: dm sh)
  note dimension_step_spec [OF ex_4d_coords(1), THEN conjunct1, rule_format, of 1, OF prem]
  then obtain c' where c': "dimension_step ex_4d = Inr (c', [''time''])"
    and shp: "shape c' = shape ex_4d ! 1 # take 1 (shape ex_4d) @ drop (Suc 1) (shape ex_4d)"
    and dat: "\<forall>j. length j = length (shape ex_4d) \<longrightarrow>
                      data c' (j ! 1 # take 1 j @ drop (Suc 1) j) = data ex_4d j"
    and crd: "\<forall>nm k. cube_coord ex_4d nm = Inr k
                          \<and> (\<forall>a \<in> set (coord_dims k). a < length (shape ex_4d)) \<longrightarrow>
                      cube_coord c' nm =
                        Inr (k\<lparr>coord_dims :=
                               map (\<lambda>a. if a = 1 then 0 else if a < 1 then Suc a else a)
                                   (coord_dims k)\<rparr>)"
    and tm: "\<exists>time'. cube_coord c' ''time'' = Inr time' \<and> coord_dims time' = [0]"
    by blast
  from shp have 1: "shape c' = [2, 5, 3, 4]" by (simp add: sh)
  from dat [rule_format, of "[4, 1, 2, 3]"] have 2: "data c' [1, 4, 2, 3] = data ex_4d [4, 1, 2, 3]"
    by (simp add: sh)
  from crd [rule_format, of "''level''" "ex_dim_coord ''level'' [0]"]
  have 3: "cube_coord c' ''level'' = Inr (ex_dim_coord ''level'' [1])"
    by (simp add: ex_4d_coords sh) (simp add: ex_dim_coord_def)
  from crd [rule_format, of "''latitude''" "ex_dim_coord ''latitude'' [2]"]
  have 4: "cube_coord c' ''latitude'' = Inr (ex_dim_coord ''latitude'' [2])"
    by (simp add: ex_4d_coords sh) (simp add: ex_dim_coord_def)
  have first: "\<exists>c'. dimension_step ex_4d = Inr (c', [''time''])
        \<and> shape c' = [2, 5, 3, 4]
        \<and> data c' [1, 4, 2, 3] = data ex_4d [4, 1, 2, 3]
        \<and> cube_coord c' ''level'' = Inr (ex_dim_coord ''level'' [1])
        \<and> cube_coord c' ''latitude'' = Inr (ex_dim_coord ''latitude'' [2])
        \<and> (\<exists>time'. cube_coord c' ''time'' = Inr time' \<and> coord_dims time' = [0])"
    using c' 1 2 3 4 tm by blast
  have prem': "coord_dims (ex_dim_coord ''time'' []) = []"
    by (simp add: dm)
  note dimension_step_spec [OF ex_4d_coords(4), THEN conjunct2, THEN conjunct1, rule_format,
      OF prem']
  then obtain d' where d': "dimension_step ex_scalar_time = Inr (d', [''time''])"
    and shp': "shape d' = 1 # shape ex_scalar_time"
    and dat': "\<forall>idx. data d' (0 # idx) = data ex_scalar_time idx"
    and crd': "\<forall>nm k. cube_coord ex_scalar_time nm = Inr k \<and> nm \<noteq> ''time'' \<longrightarrow>
                      cube_coord d' nm = Inr (k\<lparr>coord_dims := map Suc (coord_dims k)\<rparr>)"
    and tm': "\<exists>time'. cube_coord d' ''time'' = Inr time' \<and> coord_dims time' = [0]"
    by blast
  from shp' have 5: "shape d' = [1, 3]" by (simp add: sh)
  from dat' [rule_format, of "[2]"] have 6: "data d' [0, 2] = (Fin 2, False)"
    by (simp add: ex_scalar_time_def)
  from crd' [rule_format, of "''latitude''" "ex_dim_coord ''latitude'' [0]"]
  have 7: "cube_coord d' ''latitude'' = Inr (ex_dim_coord ''latitude'' [1])"
    by (simp add: ex_4d_coords) (simp add: ex_dim_coord_def)
  have second: "\<exists>c'. dimension_step ex_scalar_time = Inr (c', [''time''])
        \<and> shape c' = [1, 3]
        \<and> data c' [0, 2] = (Fin 2, False)
        \<and> cube_coord c' ''latitude'' = Inr (ex_dim_coord ''latitude'' [1])
        \<and> (\<exists>time'. cube_coord c' ''time'' = Inr time' \<and> coord_dims time' = [0])"
    using d' 5 6 7 tm' by blast
  from first second show ?thesis by blast
qed

section \<open>Properties of the output path\<close>

lemma dec_nonempty: "dec n \<noteq> []"
  by (subst dec.simps) simp

lemma digit_inj:
  assumes "i < 10" and "j < 10" and "''0123456789'' ! i = ''0123456789'' ! j"
  shows "i = j"
proof -
  have "distinct ''0123456789''" by simp
  moreover have "i < length ''0123456789''" "j < length ''0123456789''"
    using assms(1,2) by simp_all
  ultimately show ?thesis using assms(3) by (simp only: nth_eq_iff_index_eq)
qed

lemma dec_inj: "dec m = dec n \<Longrightarrow> m = n"
proof (induction m arbitrary: n rule: dec.induct)
  case (1 m)
  show ?case
  proof (cases "m < 10")
    case small: True
    then have dm: "dec m = [''0123456789'' ! m]" by (subst dec.simps) simp
    show ?thesis
    proof (cases "n < 10")
      case True
      then have "dec n = [''0123456789'' ! n]" by (subst dec.simps) simp
      with dm "1.prems" have "''0123456789'' ! m = ''0123456789'' ! n" by simp
      with small True show ?thesis by (rule digit_inj)
    next
      case False
      then have "dec n = dec (n div 10) @ [''0123456789'' ! (n mod 10)]"
        by (subst dec.simps) simp
      with dm "1.prems" have "dec (n div 10) = []" by simp
      with dec_nonempty show ?thesis by blast
    qed
  next
    case big: False
    then have dm: "dec m = dec (m div 10) @ [''0123456789'' ! (m mod 10)]"
      by (subst dec.simps) simp
    show ?thesis
    proof (cases "n < 10")
      case True
      then have "dec n = [''0123456789'' ! n]" by (subst dec.simps) simp
      with dm "1.prems" have "dec (m div 10) = []" by simp
      with dec_nonempty show ?thesis by blast
    next
      case False
      then have dn: "dec n = dec (n div 10) @ [''0123456789'' ! (n mod 10)]"
        by (subst dec.simps) simp
      from dm dn "1.prems" have hi: "dec (m div 10) = dec (n div 10)"
        and lo: "''0123456789'' ! (m mod 10) = ''0123456789'' ! (n mod 10)" by simp_all
      from "1.IH" [OF big hi] have "m div 10 = n div 10" .
      moreover from lo have "m mod 10 = n mod 10" by (intro digit_inj) simp_all
      ultimately show ?thesis by (metis div_mult_mod_eq)
    qed
  qed
qed

lemma finite_candidates: "finite {k. path @ ''_'' @ dec k \<in> set fs}"
proof -
  have "inj (\<lambda>k. path @ ''_'' @ dec k)"
    by (rule injI) (simp add: dec_inj)
  then have "finite ((\<lambda>k. path @ ''_'' @ dec k) -` set fs)"
    by (intro finite_vimageI) simp_all
  then show ?thesis by (simp add: vimage_def)
qed

termination create_unexistent_file_loop
proof (relation "measure (\<lambda>(fs, path, n, newpath).
         card {k. n < k \<and> path @ ''_'' @ dec k \<in> set fs}
         + (if newpath \<in> set fs then 1 else 0))")
  show "wf (measure (\<lambda>(fs, path, n, newpath).
         card {k. n < k \<and> path @ ''_'' @ dec k \<in> set fs}
         + (if newpath \<in> set fs then 1 else 0)))" by simp
next
  fix fs :: "string list" and path :: string and n :: nat and newpath :: string
  assume ex: "newpath \<in> set fs"
  let ?A = "\<lambda>m. {k. m < k \<and> path @ ''_'' @ dec k \<in> set fs}"
  have fin: "finite (?A m)" for m
    by (rule finite_subset [OF _ finite_candidates [of path fs]]) auto
  have "card (?A (n + 1)) + (if path @ ''_'' @ dec (n + 1) \<in> set fs then 1 else 0) = card (?A n)"
  proof (cases "path @ ''_'' @ dec (n + 1) \<in> set fs")
    case True
    have "?A n = insert (n + 1) (?A (n + 1))" using True by (auto simp: less_Suc_eq)
    moreover have "n + 1 \<notin> ?A (n + 1)" by simp
    ultimately show ?thesis using True fin [of "n + 1"] by simp
  next
    case False
    have "?A n = ?A (n + 1)" using False
      by (auto) (metis Suc_lessI)
    then show ?thesis using False by simp
  qed
  then show "((fs, path, n + 1, path @ ''_'' @ dec (n + 1)), fs, path, n, newpath)
       \<in> measure (\<lambda>(fs, path, n, newpath).
         card {k. n < k \<and> path @ ''_'' @ dec k \<in> set fs}
         + (if newpath \<in> set fs then 1 else 0))"
    using ex by simp
qed


declare create_unexistent_file_loop.simps [simp del]

lemma create_unexistent_file_loop_result:
  "create_unexistent_file_loop fs path n newpath \<notin> set fs
   \<and> (newpath \<notin> set fs \<longrightarrow> create_unexistent_file_loop fs path n newpath = newpath)
   \<and> (newpath \<in> set fs \<longrightarrow>
        (\<exists>m > n. create_unexistent_file_loop fs path n newpath = path @ ''_'' @ dec m
               \<and> (\<forall>k. n < k \<and> k < m \<longrightarrow> path @ ''_'' @ dec k \<in> set fs)))"
proof (induction fs path n newpath rule: create_unexistent_file_loop.induct)
  case (1 fs path n newpath)
  show ?case
  proof (cases "newpath \<in> set fs")
    case False
    then show ?thesis by (simp add: create_unexistent_file_loop.simps [of fs path n newpath])
  next
    case True
    let ?next = "path @ ''_'' @ dec (n + 1)"
    let ?r = "create_unexistent_file_loop fs path (n + 1) ?next"
    have eq: "create_unexistent_file_loop fs path n newpath = ?r"
      using True by (simp add: create_unexistent_file_loop.simps [of fs path n newpath])
    from "1.IH" [OF True] have notin: "?r \<notin> set fs"
      and stop: "?next \<notin> set fs \<longrightarrow> ?r = ?next"
      and go: "?next \<in> set fs \<longrightarrow>
        (\<exists>m > n + 1. ?r = path @ ''_'' @ dec m
               \<and> (\<forall>k. n + 1 < k \<and> k < m \<longrightarrow> path @ ''_'' @ dec k \<in> set fs))"
      by blast+
    have "\<exists>m > n. ?r = path @ ''_'' @ dec m
               \<and> (\<forall>k. n < k \<and> k < m \<longrightarrow> path @ ''_'' @ dec k \<in> set fs)"
    proof (cases "?next \<in> set fs")
      case False
      with stop have "?r = ?next" by simp
      then show ?thesis by (intro exI [of _ "n + 1"]) auto
    next
      case nx: True
      with go obtain m where m: "n + 1 < m" "?r = path @ ''_'' @ dec m"
        "\<forall>k. n + 1 < k \<and> k < m \<longrightarrow> path @ ''_'' @ dec k \<in> set fs" by blast
      have "\<forall>k. n < k \<and> k < m \<longrightarrow> path @ ''_'' @ dec k \<in> set fs"
      proof (intro allI impI)
        fix k assume "n < k \<and> k < m"
        then have "k = n + 1 \<or> (n + 1 < k \<and> k < m)" by auto
        with nx m(3) show "path @ ''_'' @ dec k \<in> set fs" by auto
      qed
      with m(1,2) show ?thesis by (intro exI [of _ m]) simp
    qed
    with notin eq True show ?thesis by simp
  qed
qed

lemma create_unexistent_file_result:
  "create_unexistent_file fs path \<notin> set fs
   \<and> (path \<notin> set fs \<longrightarrow> create_unexistent_file fs path = path)
   \<and> (path \<in> set fs \<longrightarrow>
        (\<exists>m \<ge> 2. create_unexistent_file fs path = path @ ''_'' @ dec m
               \<and> (\<forall>k. 2 \<le> k \<and> k < m \<longrightarrow> path @ ''_'' @ dec k \<in> set fs)))"
proof -
  have "(\<exists>m > 1. P m \<and> (\<forall>k. 1 < k \<and> k < m \<longrightarrow> Q k))
        \<longleftrightarrow> (\<exists>m \<ge> 2. P m \<and> (\<forall>k. 2 \<le> k \<and> k < m \<longrightarrow> Q k))" for P Q :: "nat \<Rightarrow> bool"
  proof -
    have "1 < m \<longleftrightarrow> 2 \<le> m" for m :: nat by auto
    then show ?thesis by simp
  qed
  then show ?thesis
    using create_unexistent_file_loop_result [of fs path 1 path]
    unfolding create_unexistent_file_def by simp
qed


text \<open>
  C9, as the code has it.  Through the parser of amami, an invocation that gives the input
  path (by \<open>-i\<close> or as the one positional argument) and no output path gets an output path
  that names no existing file: the input path with \<open>.nc\<close> appended when no such file
  exists, and otherwise that name followed by \<open>_m\<close> for the least \<open>m \<ge> 2\<close> for which no
  such file exists.  The script umami/um2nc.py, given the input path and no output path,
  takes the input path with \<open>.nc\<close> appended, whatever files exist.
\<close>

theorem output_path_spec:
  "(outfile = None
      \<and> ((infile = None \<and> unknown_args = [input]) \<or> (infile = Some input \<and> unknown_args = [])) \<longrightarrow>
      (\<exists>out. callback_function fs infile outfile unknown_args = Inr (input, out)
           \<and> out \<notin> set fs
           \<and> (input @ ''.nc'' \<notin> set fs \<longrightarrow> out = input @ ''.nc'')
           \<and> (input @ ''.nc'' \<in> set fs \<longrightarrow>
                (\<exists>m \<ge> 2. out = (input @ ''.nc'') @ ''_'' @ dec m
                       \<and> (\<forall>k. 2 \<le> k \<and> k < m \<longrightarrow> (input @ ''.nc'') @ ''_'' @ dec k \<in> set fs)))))
   \<and> (outfile = None \<and> outfile_pos = None
      \<and> ((infile = Some input \<and> infile_pos = None) \<or> (infile = None \<and> infile_pos = Some input)) \<longrightarrow>
      um2nc_paths infile infile_pos outfile outfile_pos = Inr (input, input @ ''.nc''))"
proof (intro conjI impI)
  assume a: "outfile = None
      \<and> ((infile = None \<and> unknown_args = [input]) \<or> (infile = Some input \<and> unknown_args = []))"
  then have "callback_function fs infile outfile unknown_args =
               Inr (input, create_unexistent_file fs (input @ ''.nc''))"
    by (auto simp: callback_function_def)
  then show "\<exists>out. callback_function fs infile outfile unknown_args = Inr (input, out)
           \<and> out \<notin> set fs
           \<and> (input @ ''.nc'' \<notin> set fs \<longrightarrow> out = input @ ''.nc'')
           \<and> (input @ ''.nc'' \<in> set fs \<longrightarrow>
                (\<exists>m \<ge> 2. out = (input @ ''.nc'') @ ''_'' @ dec m
                       \<and> (\<forall>k. 2 \<le> k \<and> k < m \<longrightarrow> (input @ ''.nc'') @ ''_'' @ dec k \<in> set fs)))"
    using create_unexistent_file_result [of fs "input @ ''.nc''"]
    by (intro exI [of _ "create_unexistent_file fs (input @ ''.nc'')"]) blast
next
  assume "outfile = None \<and> outfile_pos = None
      \<and> ((infile = Some input \<and> infile_pos = None) \<or> (infile = None \<and> infile_pos = Some input))"
  then show "um2nc_paths infile infile_pos outfile outfile_pos = Inr (input, input @ ''.nc'')"
    by (auto simp: um2nc_paths_def)
qed

lemma ex_create_unexistent_file:
  "create_unexistent_file [''a.nc'', ''a.nc_2''] ''a.nc'' = ''a.nc_3''"
proof -
  have d: "dec (Suc (Suc 0)) = ''2''" "dec (Suc (Suc (Suc 0))) = ''3''"
    by (simp_all add: dec.simps)
  have "create_unexistent_file_loop [''a.nc'', ''a.nc_2''] ''a.nc'' (Suc (Suc (Suc 0))) ''a.nc_3''
          = ''a.nc_3''"
    by (subst create_unexistent_file_loop.simps) simp
  then have "create_unexistent_file_loop [''a.nc'', ''a.nc_2''] ''a.nc'' (Suc (Suc 0)) ''a.nc_2''
          = ''a.nc_3''"
    by (subst create_unexistent_file_loop.simps) (simp add: d)
  then have "create_unexistent_file_loop [''a.nc'', ''a.nc_2''] ''a.nc'' (Suc 0) ''a.nc'' = ''a.nc_3''"
    by (subst create_unexistent_file_loop.simps) (simp add: d)
  then show ?thesis by (simp add: create_unexistent_file_def)
qed

theorem output_path_spec_witness:
  "(\<exists>out. callback_function [''a.nc'', ''a.nc_2''] None None [''a''] = Inr (''a'', out)
        \<and> out \<notin> set [''a.nc'', ''a.nc_2''] \<and> out = ''a.nc_3'')
   \<and> callback_function [] (Some ''a'') None [] = Inr (''a'', ''a.nc'')
   \<and> um2nc_paths None (Some ''a'') None None = Inr (''a'', ''a.nc'')"
proof -
  note spec = output_path_spec [where outfile = None and infile = None and unknown_args = "[''a'']"
      and input = "''a''" and fs = "[''a.nc'', ''a.nc_2'']"]
  have p1: "None = (None :: string option)
      \<and> (((None :: string option) = None \<and> [''a''] = [''a''])
          \<or> ((None :: string option) = Some ''a'' \<and> [''a''] = []))" by simp
  have p2: "None = (None :: string option) \<and> None = (None :: string option)
      \<and> (((None :: string option) = Some ''a'' \<and> Some ''a'' = None)
          \<or> ((None :: string option) = None \<and> Some ''a'' = Some ''a''))" by simp
  from spec [THEN conjunct1, THEN mp, OF p1]
  obtain out where o: "callback_function [''a.nc'', ''a.nc_2''] None None [''a''] = Inr (''a'', out)"
    "out \<notin> set [''a.nc'', ''a.nc_2'']"
    by blast
  from output_path_spec [where outfile = None and infile = None and input = "''a''"
      and outfile_pos = None and infile_pos = "Some ''a''", THEN conjunct2, THEN mp, OF p2]
  have u: "um2nc_paths None (Some ''a'') None None = Inr (''a'', ''a.nc'')" by simp
  have "callback_function [''a.nc'', ''a.nc_2''] None None [''a''] = Inr (''a'', ''a.nc_3'')"
    by (simp add: callback_function_def ex_create_unexistent_file)
  with o have 1: "\<exists>out. callback_function [''a.nc'', ''a.nc_2''] None None [''a''] = Inr (''a'', out)
        \<and> out \<notin> set [''a.nc'', ''a.nc_2''] \<and> out = ''a.nc_3''" by simp
  have p3: "None = (None :: string option)
      \<and> ((Some ''a'' = None \<and> ([] :: string list) = [''a''])
          \<or> (Some ''a'' = Some ''a'' \<and> ([] :: string list) = []))" by simp
  from output_path_spec [where outfile = None and infile = "Some ''a''" and unknown_args = "[]"
      and input = "''a''" and fs = "[]", THEN conjunct1, THEN mp, OF p3]
  have 2: "callback_function [] (Some ''a'') None [] = Inr (''a'', ''a.nc'')"
    by auto
  from 1 2 u show ?thesis by blast
qed

text \<open>
  The claim as written fails on the script umami/um2nc.py: with the input \<open>a\<close>, no output
  path, and a file \<open>a.nc\<close> that exists, the output path is \<open>a.nc\<close>.
\<close>

theorem output_path_counterexample:
  "um2nc_paths None (Some ''a'') None None = Inr (''a'', ''a.nc'')
   \<and> ''a.nc'' \<in> set [''a'', ''a.nc'']"
  by (simp add: um2nc_paths_def)

end
